theory Spec2Isabelle
  imports Complex_Main
begin

section \<open>Vital-signs radar pipeline (BGT60TR13C\_Vital\_Signal.py)\<close>

text \<open>
  A shallow embedding of the processing code of \<^verbatim>\<open>BGT60TR13C_Vital_Signal.py\<close>:
  the range-FFT front end \<^verbatim>\<open>calc_range_fft\<close>, the peak picker
  \<^verbatim>\<open>find_signal_peaks\<close>, one iteration of the \<^verbatim>\<open>while True\<close> loop of
  \<^verbatim>\<open>process_data\<close>, the estimation and presence blocks of \<^verbatim>\<open>update_plots\<close>,
  and the two band-edge callbacks. numpy \<^verbatim>\<open>float64\<close> and \<^verbatim>\<open>complex128\<close> values
  are modelled by exact reals and complex numbers (no rounding, no NaN); numpy arrays are
  lists; a Python exception is the \<open>Inl\<close> branch of a sum.
\<close>

subsection \<open>Python and numpy primitives\<close>

datatype py_error = IndexError | ValueError | TypeError | ZeroDivisionError

definition bind_r :: "py_error + 'a \<Rightarrow> ('a \<Rightarrow> py_error + 'b) \<Rightarrow> py_error + 'b" where
  "bind_r m f = (case m of Inl e \<Rightarrow> Inl e | Inr x \<Rightarrow> f x)"

text \<open>\<^verbatim>\<open>int(x)\<close> on a float truncates toward zero.\<close>

definition py_int :: "real \<Rightarrow> int" where
  "py_int x = (if 0 \<le> x then \<lfloor>x\<rfloor> else \<lceil>x\<rceil>)"

text \<open>\<^verbatim>\<open>round(x)\<close> on a float rounds to the nearest integer, ties to the even one.\<close>

definition py_round :: "real \<Rightarrow> int" where
  "py_round x =
     (let f = \<lfloor>x\<rfloor>; d = x - of_int f
      in if d < 1 / 2 then f else if 1 / 2 < d then f + 1
         else if even f then f else f + 1)"

text \<open>\<^verbatim>\<open>xs[i]\<close> and \<^verbatim>\<open>xs[i] = v\<close>: a negative index counts from the end.\<close>

definition py_index :: "'a list \<Rightarrow> int \<Rightarrow> py_error + 'a" where
  "py_index xs i =
     (let n = int (length xs); j = (if i < 0 then i + n else i)
      in if 0 \<le> j \<and> j < n then Inr (xs ! nat j) else Inl IndexError)"

definition py_setitem :: "'a list \<Rightarrow> int \<Rightarrow> 'a \<Rightarrow> py_error + 'a list" where
  "py_setitem xs i v =
     (let n = int (length xs); j = (if i < 0 then i + n else i)
      in if 0 \<le> j \<and> j < n then Inr (xs[nat j := v]) else Inl IndexError)"

text \<open>\<^verbatim>\<open>xs[a:b]\<close> with integer bounds, clipped as Python clips them.\<close>

definition slice_bound :: "nat \<Rightarrow> int \<Rightarrow> nat" where
  "slice_bound n i = (if i < 0 then nat (max 0 (i + int n)) else min n (nat i))"

definition py_slice :: "'a list \<Rightarrow> int \<Rightarrow> int \<Rightarrow> 'a list" where
  "py_slice xs a b = drop (slice_bound (length xs) a) (take (slice_bound (length xs) b) xs)"

text \<open>\<^verbatim>\<open>xs[-k:]\<close> for \<open>k \<ge> 0\<close>: the last \<open>k\<close> entries; \<^verbatim>\<open>xs[-0:]\<close> is all of \<open>xs\<close>.\<close>

definition py_tail :: "nat \<Rightarrow> 'a list \<Rightarrow> 'a list" where
  "py_tail k xs = (if k = 0 then xs else drop (length xs - k) xs)"

text \<open>
  \<^verbatim>\<open>xs[-k:] = ys\<close>: the shapes must agree, or \<open>ys\<close> has one entry that is broadcast.
\<close>

definition assign_tail :: "nat \<Rightarrow> 'a list \<Rightarrow> 'a list \<Rightarrow> py_error + 'a list" where
  "assign_tail k xs ys =
     (let m = length (py_tail k xs)
      in if length ys = m then Inr (take (length xs - m) xs @ ys)
         else if length ys = 1 then Inr (take (length xs - m) xs @ replicate m (hd ys))
         else Inl ValueError)"

text \<open>\<^verbatim>\<open>np.roll(xs, shift)\<close>: entries move \<open>shift\<close> places to the right, cyclically.\<close>

definition np_roll :: "'a list \<Rightarrow> int \<Rightarrow> 'a list" where
  "np_roll xs shift = rotate (nat ((- shift) mod int (length xs))) xs"

definition np_mean :: "real list \<Rightarrow> real" where
  "np_mean xs = sum_list xs / real (length xs)"

definition np_mean_c :: "complex list \<Rightarrow> complex" where
  "np_mean_c xs = sum_list xs / of_nat (length xs)"

definition np_var :: "real list \<Rightarrow> real" where
  "np_var xs = np_mean (map (\<lambda>x. (x - np_mean xs)\<^sup>2) xs)"

text \<open>\<^verbatim>\<open>np.argmax\<close>: the first index of the largest entry; \<^verbatim>\<open>ValueError\<close> on an empty array.\<close>

fun argmax_from :: "real \<Rightarrow> nat \<Rightarrow> nat \<Rightarrow> real list \<Rightarrow> nat" where
  "argmax_from best bi i [] = bi"
| "argmax_from best bi i (x # xs) =
     (if best < x then argmax_from x i (Suc i) xs else argmax_from best bi (Suc i) xs)"

definition np_argmax :: "real list \<Rightarrow> py_error + nat" where
  "np_argmax xs = (case xs of [] \<Rightarrow> Inl ValueError | x # r \<Rightarrow> Inr (argmax_from x 0 1 r))"

text \<open>\<^verbatim>\<open>np.linspace(start, stop, num)\<close>, end point included.\<close>

definition np_linspace :: "real \<Rightarrow> real \<Rightarrow> nat \<Rightarrow> real list" where
  "np_linspace start stop num =
     map (\<lambda>j. start + real j * ((stop - start) / real (num - 1))) [0..<num]"

text \<open>
  \<^verbatim>\<open>scipy.signal.windows.blackmanharris(M)\<close> (symmetric) and the discrete Fourier
  transform \<^verbatim>\<open>np.fft.fft(xs, n)\<close>, which pads with zeros or crops to \<open>n\<close> entries.
\<close>

definition blackmanharris :: "nat \<Rightarrow> real list" where
  "blackmanharris M =
     (if M \<le> 1 then replicate M 1
      else map (\<lambda>n. 0.35875 - 0.48829 * cos (2 * pi * real n / real (M - 1))
                     + 0.14128 * cos (4 * pi * real n / real (M - 1))
                     - 0.01168 * cos (6 * pi * real n / real (M - 1))) [0..<M])"

definition np_fft :: "complex list \<Rightarrow> complex list" where
  "np_fft xs =
     map (\<lambda>k. \<Sum>n<length xs. xs ! n * cis (- (2 * pi * real k * real n / real (length xs))))
       [0..<length xs]"

definition np_fft_n :: "complex list \<Rightarrow> nat \<Rightarrow> complex list" where
  "np_fft_n xs n = np_fft (take n (xs @ replicate (n - length xs) 0))"

text \<open>Elementwise product of two arrays of one shape (\<^verbatim>\<open>np.multiply\<close>).\<close>

definition np_multiply :: "complex list \<Rightarrow> real list \<Rightarrow> py_error + complex list" where
  "np_multiply xs w =
     (if length xs = length w then Inr (map2 (\<lambda>x wn. x * complex_of_real wn) xs w)
      else Inl ValueError)"

text \<open>\<^verbatim>\<open>scipy.signal.lfilter(b, 1, x)\<close>: the causal FIR filter with taps \<open>b\<close>.\<close>

definition lfilter :: "real list \<Rightarrow> real list \<Rightarrow> real list" where
  "lfilter b x =
     map (\<lambda>n. \<Sum>k<length b. if k \<le> n then b ! k * x ! (n - k) else 0) [0..<length x]"

subsection \<open>Module constants\<close>

definition num_rx_antennas :: nat where "num_rx_antennas = 3"
definition frame_rate :: nat where "frame_rate = 20"
definition number_of_chirps :: nat where "number_of_chirps = 1"
definition samples_per_chirp :: nat where "samples_per_chirp = 64"
definition vital_signs_sample_rate :: nat where "vital_signs_sample_rate = 1 * frame_rate"
definition processing_window_time :: nat where "processing_window_time = 20"
definition buffer_time :: nat where "buffer_time = 5 * processing_window_time"
definition estimation_time :: nat where "estimation_time = 5"
definition fft_size_range_profile :: nat where "fft_size_range_profile = samples_per_chirp * 2"
definition epsilon_value :: real where "epsilon_value = 0.00000001"
definition peak_finding_distance :: real where "peak_finding_distance = 0.01"
definition buffer_data_size :: nat where
  "buffer_data_size = buffer_time * vital_signs_sample_rate"
definition processing_data_size :: nat where
  "processing_data_size = processing_window_time * vital_signs_sample_rate"
definition fft_size_vital_signs :: nat where "fft_size_vital_signs = processing_data_size * 4"
definition estimation_rate :: nat where "estimation_rate = vital_signs_sample_rate"
definition estimation_index_breathing :: nat where
  "estimation_index_breathing = buffer_data_size - estimation_time * estimation_rate"
definition estimation_index_heart :: nat where
  "estimation_index_heart = buffer_data_size - estimation_time * estimation_rate"
definition nyquist_freq :: real where "nyquist_freq = 0.5 * real vital_signs_sample_rate"
definition filter_order :: nat where "filter_order = vital_signs_sample_rate + 1"
definition max_index_processing :: bool where "max_index_processing = True"
definition ENABLE_BREATHING_VISUALIZATION :: bool where "ENABLE_BREATHING_VISUALIZATION = True"
definition ENABLE_ESTIMATION_PLOT :: bool where "ENABLE_ESTIMATION_PLOT = True"

subsection \<open>The range-FFT front end: \<^verbatim>\<open>calc_range_fft\<close>\<close>

text \<open>
  A frame is the array \<^verbatim>\<open>frame[antenna][chirp][sample]\<close>. What \<^verbatim>\<open>calc_range_fft\<close>
  returns is a Python value: the complex range profile, or the pair
  \<^verbatim>\<open>(None, None)\<close> of its last line.
\<close>

type_synonym frame = "complex list list list"

datatype pyval = PyNone | PyTuple "pyval list" | NdArray "complex list"

text \<open>\<^verbatim>\<open>_, num_chirps, num_samples = np.shape(frame)\<close> unpacks a three-dimensional shape.\<close>

definition np_shape3 :: "frame \<Rightarrow> py_error + (nat \<times> nat \<times> nat)" where
  "np_shape3 fr =
     (case fr of [] \<Rightarrow> Inl ValueError
      | m # _ \<Rightarrow> (case m of [] \<Rightarrow> Inl ValueError
                 | r # _ \<Rightarrow> Inr (length fr, length m, length r)))"

definition vadd :: "complex list \<Rightarrow> complex list \<Rightarrow> complex list" where
  "vadd xs ys = map2 (+) xs ys"

text \<open>\<^verbatim>\<open>np.sum(rows, axis=0)\<close> for rows of width \<open>n\<close>.\<close>

definition np_sum_axis0 :: "nat \<Rightarrow> complex list list \<Rightarrow> complex list" where
  "np_sum_axis0 n rows = foldl vadd (replicate n 0) rows"

text \<open>The body of the loop over \<^verbatim>\<open>iAnt\<close>, for the chirp matrix \<open>mat\<close> of one antenna.\<close>

definition antenna_fft :: "nat \<Rightarrow> complex list list \<Rightarrow> py_error + complex list" where
  "antenna_fft num_samples mat =
     (let mat1 = map (\<lambda>row. map (\<lambda>x. x - np_mean_c row) row) mat;
          mat2 = map (\<lambda>row. map2 (\<lambda>x wn. x * complex_of_real wn) row
                                 (blackmanharris num_samples)) mat1
      in if fft_size_range_profile < num_samples then Inl ValueError
         else
           (let zp1 = map (\<lambda>row. row @ replicate (fft_size_range_profile - num_samples) 0) mat2;
                range_fft = map (\<lambda>row. map (\<lambda>z. z / of_nat num_samples)
                                            (np_fft_n row fft_size_range_profile)) zp1;
                range_fft2 = map (\<lambda>row. map (\<lambda>z. 2 * z)
                                             (take (fft_size_range_profile div 2) row)) range_fft
            in Inr (np_sum_axis0 (fft_size_range_profile div 2) range_fft2)))"

fun antenna_loop :: "frame \<Rightarrow> nat \<Rightarrow> nat list \<Rightarrow> complex list \<Rightarrow> py_error + complex list" where
  "antenna_loop fr num_samples [] buf = Inr buf"
| "antenna_loop fr num_samples (iAnt # rest) buf =
     (if iAnt < length fr
      then bind_r (antenna_fft num_samples (fr ! iAnt))
             (\<lambda>temp_range_fft. antenna_loop fr num_samples rest (vadd temp_range_fft buf))
      else Inl IndexError)"

definition calc_range_fft :: "frame list \<Rightarrow> py_error + (pyval \<times> frame list)" where
  "calc_range_fft data_queue =
     (if data_queue \<noteq> [] then
        (let fr = hd data_queue; q' = tl data_queue
         in bind_r (np_shape3 fr) (\<lambda>(_, num_chirps_per_frame, num_samples_per_chirp).
            bind_r (antenna_loop fr num_samples_per_chirp [0..<num_rx_antennas]
                      (replicate (fft_size_range_profile div 2) 0))
              (\<lambda>buf. Inr (NdArray (map (\<lambda>z. z / of_nat num_rx_antennas) buf), q'))))
      else Inr (PyTuple [PyNone, PyNone], data_queue))"

text \<open>The caller's test \<^verbatim>\<open>range_fft_antennas_buffer is not None\<close>.\<close>

definition is_not_None :: "pyval \<Rightarrow> bool" where
  "is_not_None v = (v \<noteq> PyNone)"

subsection \<open>Phase unwrapping: \<^verbatim>\<open>np.unwrap\<close>\<close>

text \<open>
  \<^verbatim>\<open>np.unwrap(p)\<close> with the default period \<open>2\<pi>\<close>: for each difference \<open>dd\<close> of
  neighbours, \<^verbatim>\<open>ddmod = mod(dd + pi, 2 pi) - pi\<close>, set to \<open>\<pi>\<close> where it is \<open>-\<pi>\<close> and
  \<open>dd > 0\<close>; the correction \<^verbatim>\<open>ddmod - dd\<close> is zeroed where \<open>\<bar>dd\<bar> < \<pi>\<close>, and the
  cumulative sum of the corrections is added to \<open>p[1:]\<close>.
\<close>

definition np_mod :: "real \<Rightarrow> real \<Rightarrow> real" where
  "np_mod x y = x - y * of_int \<lfloor>x / y\<rfloor>"

definition ph_correct :: "real \<Rightarrow> real" where
  "ph_correct dd =
     (let ddmod0 = np_mod (dd + pi) (2 * pi) - pi;
          ddmod = (if ddmod0 = - pi \<and> 0 < dd then pi else ddmod0)
      in if \<bar>dd\<bar> < pi then 0 else ddmod - dd)"

fun unwrap_from :: "real \<Rightarrow> real \<Rightarrow> real list \<Rightarrow> real list" where
  "unwrap_from prev acc [] = []"
| "unwrap_from prev acc (x # xs) =
     (x + (acc + ph_correct (x - prev))) # unwrap_from x (acc + ph_correct (x - prev)) xs"

definition np_unwrap :: "real list \<Rightarrow> real list" where
  "np_unwrap p = (case p of [] \<Rightarrow> [] | x # xs \<Rightarrow> x # unwrap_from x 0 xs)"

subsection \<open>Peak finding: \<^verbatim>\<open>scipy.signal.find_peaks(x, distance=d)\<close>\<close>

text \<open>
  The local maxima of scipy's \<^verbatim>\<open>_local_maxima_1d\<close>: an entry higher than its left
  neighbour starts a plateau, which is a peak (recorded at its midpoint) when the first
  entry after it is lower. The first and the last entry are never peaks.
\<close>

function plateau_end :: "real list \<Rightarrow> nat \<Rightarrow> nat \<Rightarrow> nat" where
  "plateau_end x i i_ahead =
     (if i_ahead < length x - 1 \<and> x ! i_ahead = x ! i
      then plateau_end x i (i_ahead + 1) else i_ahead)"
  by pat_completeness auto
termination
  by (relation "measure (\<lambda>(x, i, i_ahead). length x - i_ahead)") auto

declare plateau_end.simps [simp del]

function local_maxima_from :: "real list \<Rightarrow> nat \<Rightarrow> nat list" where
  "local_maxima_from x i =
     (if i < length x - 1 then
        (if x ! (i - 1) < x ! i then
           (if x ! plateau_end x i (i + 1) < x ! i
            then ((i + (plateau_end x i (i + 1) - 1)) div 2)
                   # local_maxima_from x (plateau_end x i (i + 1) + 1)
            else local_maxima_from x (i + 1))
         else local_maxima_from x (i + 1))
      else [])"
  by pat_completeness auto
termination
proof (relation "measure (\<lambda>(x, i). length x - i)")
  have ge: "i_ahead \<le> plateau_end x i i_ahead" for x i i_ahead
  proof (induction x i i_ahead rule: plateau_end.induct)
    case (1 x i i_ahead)
    show ?case
    proof (cases "i_ahead < length x - 1 \<and> x ! i_ahead = x ! i")
      case True
      with "1.IH" have "i_ahead + 1 \<le> plateau_end x i (i_ahead + 1)" by simp
      with True show ?thesis by (subst plateau_end.simps) simp
    next
      case False
      then show ?thesis by (subst plateau_end.simps) auto
    qed
  qed
  show "wf (measure (\<lambda>(x, i). length x - i))" by simp
  show "((x, plateau_end x i (i + 1) + 1), (x, i)) \<in> measure (\<lambda>(x, i). length x - i)"
    if "i < length x - 1" for x i
    using that ge[of "i + 1" x i] by simp
  show "((x, i + 1), (x, i)) \<in> measure (\<lambda>(x, i). length x - i)"
    if "i < length x - 1" for x i
    using that by simp
  show "((x, i + 1), (x, i)) \<in> measure (\<lambda>(x, i). length x - i)"
    if "i < length x - 1" for x i
    using that by simp
qed

declare local_maxima_from.simps [simp del]

definition local_maxima_1d :: "real list \<Rightarrow> nat list" where
  "local_maxima_1d x = local_maxima_from x 1"

text \<open>
  scipy's \<^verbatim>\<open>_select_by_peak_distance\<close>: peaks are visited from the highest down (a
  stable \<^verbatim>\<open>argsort\<close> of the heights, read from its end); a peak that is still kept
  removes every other peak closer than \<open>distance\<close> samples.
\<close>

definition suppress_near :: "nat list \<Rightarrow> nat \<Rightarrow> bool list \<Rightarrow> nat \<Rightarrow> bool list" where
  "suppress_near peaks distance keep j =
     (if keep ! j
      then map (\<lambda>k. keep ! k \<and>
                 (k = j \<or> \<not> (if peaks ! j \<le> peaks ! k then peaks ! k - peaks ! j
                               else peaks ! j - peaks ! k) < distance))
             [0..<length peaks]
      else keep)"

definition select_by_peak_distance :: "nat list \<Rightarrow> real list \<Rightarrow> nat \<Rightarrow> bool list" where
  "select_by_peak_distance peaks priority distance =
     foldl (suppress_near peaks distance) (replicate (length peaks) True)
       (rev (sort_key (\<lambda>i. priority ! i) [0..<length peaks]))"

definition find_peaks :: "real list \<Rightarrow> nat \<Rightarrow> nat list" where
  "find_peaks x distance =
     (let peaks = local_maxima_1d x;
          keep = select_by_peak_distance peaks (map (\<lambda>p. x ! p) peaks) distance
      in map fst (filter snd (zip peaks keep)))"

subsection \<open>Library routines taken as parameters\<close>

text \<open>
  The smoothing and statistics routines of scipy and statsmodels whose values no
  property below depends on are parameters of the model: Savitzky-Golay smoothing,
  the box filter, the Hodrick-Prescott decomposition \<^verbatim>\<open>hpfilter\<close> (cycle, trend), the
  median filter, \<^verbatim>\<open>np.percentile\<close>, and \<^verbatim>\<open>find_peaks\<close> with distance, height and
  prominence.
\<close>

record extlib =
  savgol_filter :: "real list \<Rightarrow> nat \<Rightarrow> nat \<Rightarrow> real list"
  uniform_filter1d :: "real list \<Rightarrow> nat \<Rightarrow> real list"
  hpfilter :: "real list \<Rightarrow> real \<Rightarrow> real list \<times> real list"
  medfilt :: "real list \<Rightarrow> nat \<Rightarrow> real list"
  percentile :: "real list \<Rightarrow> real \<Rightarrow> real"
  find_peaks_hp :: "real list \<Rightarrow> nat \<Rightarrow> real \<Rightarrow> real \<Rightarrow> nat list"

subsection \<open>State of the processing thread\<close>

text \<open>
  The globals that \<^verbatim>\<open>process_data\<close> declares and writes, the frame queue, and the
  locals of \<^verbatim>\<open>process_data\<close> that live across iterations of its loop
  (\<^verbatim>\<open>counter\<close>, \<^verbatim>\<open>rate_index_br\<close>, \<^verbatim>\<open>rate_index_hr\<close>).
\<close>

record pstate =
  data_queue :: "frame list"
  start_time :: real
  radar_time_stamp :: "real list"
  range_fft_abs :: "real list"
  slow_time_buffer_data :: "complex list"
  I_Q_envelop :: "real list"
  range_profile_peak_indices :: "real list"
  range_profile_peak_index :: int
  wrapped_phase_plot :: "real list"
  unwrapped_phase_plot :: "real list"
  filtered_breathing_plot :: "real list"
  filtered_heart_plot :: "real list"
  buffer_raw_I_Q_fft :: "real list"
  phase_unwrap_fft :: "real list"
  breathing_fft :: "real list"
  heart_fft :: "real list"
  breathing_rate_estimation_index :: "real list"
  heart_rate_estimation_index :: "real list"
  inhalation_points_x :: "real list"
  inhalation_points_y :: "real list"
  exhalation_points_x :: "real list"
  exhalation_points_y :: "real list"
  counter :: nat
  rate_index_br :: int
  rate_index_hr :: int

text \<open>The globals that the GUI callbacks own and \<^verbatim>\<open>process_data\<close> only reads.\<close>

record config =
  object_distance_start_range :: real
  object_distance_stop_range :: real
  max_range :: real
  low_breathing :: real
  high_breathing :: real
  low_heart :: real
  high_heart :: real
  breathing_b :: "real list"
  heart_b :: "real list"
  index_start_breathing :: int
  index_end_breathing :: int
  index_start_heart :: int
  index_end_heart :: int

text \<open>
  What one iteration of the loop reads from outside: the frames the reader thread has put
  on the queue since the last iteration, the clock, and the configuration.
\<close>

record cycle_input =
  arrivals :: "frame list"
  current_time :: real
  cfg :: config

subsection \<open>The peak picker: \<^verbatim>\<open>find_signal_peaks\<close>\<close>

definition find_signal_peaks :: "real list \<Rightarrow> int \<Rightarrow> int \<Rightarrow> real \<Rightarrow> py_error + int" where
  "find_signal_peaks fft_windowed_signal index_start index_end distance =
     (let signal_region = py_slice fft_windowed_signal index_start index_end;
          peaks = find_peaks signal_region
                    (nat (py_int (max 1 (distance * real fft_size_vital_signs
                                           / real vital_signs_sample_rate))))
      in if length peaks > 0
         then bind_r (np_argmax (map (\<lambda>p. signal_region ! p) peaks))
                (\<lambda>best_peak_index. Inr (int (peaks ! best_peak_index) + index_start))
         else Inr 0)"

text \<open>
  \<^verbatim>\<open>vital_signs_fft\<close>: window, zero-pad to \<open>nFFT\<close>, magnitude of the transform scaled by
  \<open>1 / nFFT\<close>, plus the epsilon.
\<close>

definition vital_signs_fft :: "complex list \<Rightarrow> nat \<Rightarrow> nat \<Rightarrow> py_error + real list" where
  "vital_signs_fft dat nFFT data_length =
     bind_r (np_multiply dat (blackmanharris data_length)) (\<lambda>windowed_signal.
       if nFFT < data_length then Inl ValueError
       else Inr (map (\<lambda>z. 1 / real nFFT * cmod z + epsilon_value)
                   (np_fft (windowed_signal @ replicate (nFFT - data_length) 0))))"

subsection \<open>One iteration of the loop of \<^verbatim>\<open>process_data\<close>\<close>

text \<open>Lines 171 to 176: the clock and the time-stamp buffer.\<close>

definition stamp_time :: "real \<Rightarrow> pstate \<Rightarrow> py_error + pstate" where
  "stamp_time now s =
     (let time_passed = now - start_time s;
          ts = np_roll (radar_time_stamp s) (- 1)
      in bind_r (py_index ts (- 2)) (\<lambda>prev.
         bind_r (py_setitem ts (- 1) (prev + time_passed)) (\<lambda>ts'.
         Inr (s\<lparr>start_time := now, radar_time_stamp := ts'\<rparr>))))"

text \<open>\<^verbatim>\<open>int(np.mean(xs))\<close>: the mean of an empty slice is NaN, which \<^verbatim>\<open>int\<close> refuses.\<close>

definition int_mean :: "real list \<Rightarrow> py_error + int" where
  "int_mean xs = (if xs = [] then Inl ValueError else Inr (py_int (np_mean xs)))"

text \<open>The gate bounds \<^verbatim>\<open>int(object_distance / max_range * fft_size_range_profile / 2)\<close>.\<close>

definition range_index :: "real \<Rightarrow> real \<Rightarrow> py_error + int" where
  "range_index distance mr =
     (if mr = 0 then Inl ZeroDivisionError
      else Inr (py_int (distance / mr * real fft_size_range_profile / 2)))"

text \<open>Lines 184 to 204: the target bin tracker and the new slow-time sample.\<close>

definition track_range :: "config \<Rightarrow> complex list \<Rightarrow> pstate \<Rightarrow> py_error + pstate" where
  "track_range c range_fft_antennas_buffer s =
     (let abs_profile = map cmod range_fft_antennas_buffer;
          slow = np_roll (slow_time_buffer_data s) (- 1);
          env = np_roll (I_Q_envelop s) (- 1)
      in bind_r (range_index (object_distance_start_range c) (max_range c)) (\<lambda>start_index_range.
         bind_r (range_index (object_distance_stop_range c) (max_range c)) (\<lambda>stop_index_range.
         bind_r (np_argmax (py_slice abs_profile start_index_range stop_index_range)) (\<lambda>am.
         bind_r (py_setitem (np_roll (range_profile_peak_indices s) (- 1)) (- 1)
                   (real_of_int (int am + start_index_range))) (\<lambda>peaks.
         bind_r (int_mean (py_tail (2 * vital_signs_sample_rate) peaks)) (\<lambda>peak_index.
         bind_r (if max_index_processing
                 then py_index range_fft_antennas_buffer peak_index
                 else Inr (np_mean_c (py_slice range_fft_antennas_buffer
                                        start_index_range stop_index_range))) (\<lambda>sample.
         bind_r (py_setitem slow (- 1) sample) (\<lambda>slow'.
         bind_r (py_index slow' (- 1)) (\<lambda>newest.
         bind_r (py_setitem env (- 1) (cmod newest)) (\<lambda>env'.
         Inr (s\<lparr>range_fft_abs := abs_profile,
                 slow_time_buffer_data := slow',
                 I_Q_envelop := env',
                 range_profile_peak_indices := peaks,
                 range_profile_peak_index := peak_index\<rparr>)))))))))))"

text \<open>Lines 206 to 218: the batch counter, the wrapped phase and the unwrap stage.\<close>

definition unwrap_stage :: "pstate \<Rightarrow> py_error + pstate" where
  "unwrap_stage s =
     (let n = counter s + 1;
          wrapped_phase = map Arg (py_tail n (slow_time_buffer_data s))
      in bind_r (assign_tail n (np_roll (wrapped_phase_plot s) (- int n))
                   (py_tail n wrapped_phase)) (\<lambda>wpp.
         bind_r (assign_tail n (np_roll (unwrapped_phase_plot s) (- int n))
                   (py_tail n wpp)) (\<lambda>upp.
         bind_r (assign_tail processing_data_size upp
                   (np_unwrap (py_tail processing_data_size upp))) (\<lambda>upp'.
         Inr (s\<lparr>counter := n, wrapped_phase_plot := wpp, unwrapped_phase_plot := upp'\<rparr>)))))"

text \<open>
  Lines 224 to 240: the breathing and heart filters. The Savitzky-Golay window is
  \<^verbatim>\<open>min(51, processing_data_size - 2)\<close>, made odd.
\<close>

definition odd_window :: "int \<Rightarrow> int" where
  "odd_window w = (if w mod 2 = 0 then w - 1 else w)"

definition filter_stage :: "extlib \<Rightarrow> config \<Rightarrow> pstate \<Rightarrow> py_error + pstate" where
  "filter_stage lib c s =
     (let window = py_tail processing_data_size (unwrapped_phase_plot s);
          fb0 = lfilter (breathing_b c) window;
          window_length = odd_window (min 51 (int processing_data_size - 2));
          fb1 = (if 5 < window_length then savgol_filter lib fb0 (nat window_length) 3 else fb0);
          filtered_breathing = uniform_filter1d lib fb1 5;
          cycle2 = fst (hpfilter lib window (3 * real vital_signs_sample_rate));
          filtered_heart = lfilter (heart_b c) cycle2
      in bind_r (assign_tail (counter s) (np_roll (filtered_breathing_plot s) (- int (counter s)))
                   (py_tail (counter s) filtered_breathing)) (\<lambda>fbp.
         bind_r (assign_tail (counter s) (np_roll (filtered_heart_plot s) (- int (counter s)))
                   (py_tail (counter s) filtered_heart)) (\<lambda>fhp.
         Inr (s\<lparr>filtered_breathing_plot := fbp, filtered_heart_plot := fhp\<rparr>))))"

text \<open>Lines 244 to 254: the four spectra.\<close>

definition spectrum_stage :: "pstate \<Rightarrow> py_error + pstate" where
  "spectrum_stage s =
     bind_r (vital_signs_fft (py_tail processing_data_size (slow_time_buffer_data s))
               fft_size_vital_signs processing_data_size) (\<lambda>f1.
     bind_r (vital_signs_fft (map complex_of_real
                                (py_tail processing_data_size (unwrapped_phase_plot s)))
               fft_size_vital_signs processing_data_size) (\<lambda>f2.
     bind_r (vital_signs_fft (map complex_of_real
                                (py_tail processing_data_size (filtered_breathing_plot s)))
               fft_size_vital_signs processing_data_size) (\<lambda>f3.
     bind_r (vital_signs_fft (map complex_of_real
                                (py_tail processing_data_size (filtered_heart_plot s)))
               fft_size_vital_signs processing_data_size) (\<lambda>f4.
     Inr (s\<lparr>buffer_raw_I_Q_fft := f1, phase_unwrap_fft := f2,
             breathing_fft := f3, heart_fft := f4\<rparr>)))))"

text \<open>
  Lines 259 to 264, and again 266 to 271 for the heart: roll the index buffer, copy the
  previous newest entry, and overwrite it when the peak picker returns a non-zero index.
  The result is the buffer and the local \<^verbatim>\<open>rate_index\<close>.
\<close>

definition rate_index_update ::
    "real list \<Rightarrow> real list \<Rightarrow> int \<Rightarrow> int \<Rightarrow> py_error + (real list \<times> int)" where
  "rate_index_update estimation_index spectrum index_start index_end =
     (let rolled = np_roll estimation_index (- 1)
      in bind_r (py_index rolled (- 2)) (\<lambda>prev.
         bind_r (py_setitem rolled (- 1) prev) (\<lambda>held.
         bind_r (find_signal_peaks spectrum index_start index_end peak_finding_distance)
           (\<lambda>rate_index.
              if rate_index \<noteq> 0
              then bind_r (py_setitem held (- 1) (real_of_int rate_index))
                     (\<lambda>updated. Inr (updated, rate_index))
              else Inr (held, rate_index)))))"

definition rate_stage :: "config \<Rightarrow> pstate \<Rightarrow> py_error + pstate" where
  "rate_stage c s =
     bind_r (rate_index_update (breathing_rate_estimation_index s) (breathing_fft s)
               (index_start_breathing c) (index_end_breathing c)) (\<lambda>(bi, rb).
     bind_r (rate_index_update (heart_rate_estimation_index s) (heart_fft s)
               (index_start_heart c) (index_end_heart c)) (\<lambda>(hi, rh).
     Inr (s\<lparr>breathing_rate_estimation_index := bi, rate_index_br := rb,
             heart_rate_estimation_index := hi, rate_index_hr := rh\<rparr>)))"

text \<open>
  Lines 276 to 328: the breath-cycle detector. The two \<^verbatim>\<open>for idx in ...\<close> loops
  append the time stamp and the unsmoothed amplitude of every extremum.
\<close>

fun collect_points ::
    "real list \<Rightarrow> real list \<Rightarrow> nat list \<Rightarrow> real list \<times> real list
      \<Rightarrow> py_error + (real list \<times> real list)" where
  "collect_points recent_time recent_breathing [] acc = Inr acc"
| "collect_points recent_time recent_breathing (idx # rest) acc =
     (if idx < length recent_time
      then bind_r (py_index recent_breathing (int idx)) (\<lambda>y.
             collect_points recent_time recent_breathing rest
               (fst acc @ [recent_time ! idx], snd acc @ [y]))
      else collect_points recent_time recent_breathing rest acc)"

definition detect_breath_cycles :: "extlib \<Rightarrow> pstate \<Rightarrow> py_error + pstate" where
  "detect_breath_cycles lib s =
     (if counter s mod 5 = 0 \<and> ENABLE_BREATHING_VISUALIZATION then
        (let recent_time = py_tail (10 * vital_signs_sample_rate) (radar_time_stamp s);
             recent_breathing =
               py_tail (10 * vital_signs_sample_rate) (filtered_breathing_plot s)
         in if 0 < length recent_breathing then
              (let window_length = odd_window (min 31 (int (length recent_breathing) - 2));
                   smoothed0 = (if 5 < window_length
                                then savgol_filter lib recent_breathing (nat window_length) 3
                                else recent_breathing);
                   smoothed_breathing = medfilt lib smoothed0 5;
                   signal_amplitude = percentile lib smoothed_breathing 95
                                      - percentile lib smoothed_breathing 5;
                   min_height = signal_amplitude * 0.2;
                   peaks = find_peaks_hp lib smoothed_breathing
                             (vital_signs_sample_rate div 2) min_height (min_height * 0.5);
                   valleys = find_peaks_hp lib (map uminus smoothed_breathing)
                               (vital_signs_sample_rate div 2) min_height (min_height * 0.5)
               in bind_r (collect_points recent_time recent_breathing peaks ([], [])) (\<lambda>inh.
                  bind_r (collect_points recent_time recent_breathing valleys ([], [])) (\<lambda>exh.
                  Inr (s\<lparr>inhalation_points_x := fst inh, inhalation_points_y := snd inh,
                          exhalation_points_x := fst exh, exhalation_points_y := snd exh\<rparr>))))
            else Inr s)
      else Inr s)"

text \<open>
  Lines 184 to 331, the body of \<^verbatim>\<open>if range_fft_antennas_buffer is not None\<close>,
  ending with \<^verbatim>\<open>counter = 0\<close>.
\<close>

definition process_frame :: "extlib \<Rightarrow> config \<Rightarrow> complex list \<Rightarrow> pstate \<Rightarrow> py_error + pstate" where
  "process_frame lib c range_fft_antennas_buffer s =
     bind_r (track_range c range_fft_antennas_buffer s) (\<lambda>s1.
     bind_r (unwrap_stage s1) (\<lambda>s2.
     bind_r (filter_stage lib c s2) (\<lambda>s3.
     bind_r (spectrum_stage s3) (\<lambda>s4.
     bind_r (rate_stage c s4) (\<lambda>s5.
     bind_r (detect_breath_cycles lib s5) (\<lambda>s6.
     Inr (s6\<lparr>counter := 0\<rparr>)))))))"

text \<open>
  One iteration of \<^verbatim>\<open>while True\<close> (lines 169 to 331); \<open>on_range_fft\<close> is what follows
  the call of \<^verbatim>\<open>calc_range_fft\<close> (lines 180 to 331). \<^verbatim>\<open>np.abs\<close> of anything but an
  array (the pair \<^verbatim>\<open>(None, None)\<close>) raises \<^verbatim>\<open>TypeError\<close>.
\<close>

definition on_range_fft ::
    "extlib \<Rightarrow> config \<Rightarrow> pyval \<times> frame list \<Rightarrow> pstate \<Rightarrow> py_error + pstate" where
  "on_range_fft lib c r s1 =
     (if is_not_None (fst r) then
        (case fst r of
           NdArray range_fft_antennas_buffer \<Rightarrow>
             process_frame lib c range_fft_antennas_buffer (s1\<lparr>data_queue := snd r\<rparr>)
         | _ \<Rightarrow> Inl TypeError)
      else Inr (s1\<lparr>data_queue := snd r\<rparr>))"

definition process_data_cycle :: "extlib \<Rightarrow> cycle_input \<Rightarrow> pstate \<Rightarrow> py_error + pstate" where
  "process_data_cycle lib inp s0 =
     (let s = s0\<lparr>data_queue := data_queue s0 @ arrivals inp\<rparr>
      in if data_queue s \<noteq> [] then
           bind_r (stamp_time (current_time inp) s) (\<lambda>s1.
           bind_r (calc_range_fft (data_queue s1)) (\<lambda>r.
           on_range_fft lib (cfg inp) r s1))
         else Inr s)"

text \<open>
  The loop never returns. A run of it is a finite prefix: one input per iteration, and the
  states after each iteration.
\<close>

fun process_data :: "extlib \<Rightarrow> cycle_input list \<Rightarrow> pstate \<Rightarrow> py_error + pstate list" where
  "process_data lib [] s = Inr []"
| "process_data lib (inp # inps) s =
     bind_r (process_data_cycle lib inp s) (\<lambda>s'.
     bind_r (process_data lib inps s') (\<lambda>tr. Inr (s' # tr)))"

text \<open>The buffers as the main block allocates them; \<open>t0\<close> is the clock at start-up.\<close>

definition init_pstate :: "real \<Rightarrow> pstate" where
  "init_pstate t0 =
     \<lparr>data_queue = [], start_time = t0,
      radar_time_stamp = replicate buffer_data_size 0,
      range_fft_abs = replicate (fft_size_range_profile div 2) 0,
      slow_time_buffer_data = replicate buffer_data_size 0,
      I_Q_envelop = replicate buffer_data_size 0,
      range_profile_peak_indices = replicate buffer_data_size 0,
      range_profile_peak_index = 0,
      wrapped_phase_plot = replicate buffer_data_size 0,
      unwrapped_phase_plot = replicate buffer_data_size 0,
      filtered_breathing_plot = replicate buffer_data_size 0,
      filtered_heart_plot = replicate buffer_data_size 0,
      buffer_raw_I_Q_fft = replicate fft_size_vital_signs 0,
      phase_unwrap_fft = replicate fft_size_vital_signs 0,
      breathing_fft = replicate fft_size_vital_signs 0,
      heart_fft = replicate fft_size_vital_signs 0,
      breathing_rate_estimation_index = replicate buffer_data_size 0,
      heart_rate_estimation_index = replicate buffer_data_size 0,
      inhalation_points_x = [], inhalation_points_y = [],
      exhalation_points_x = [], exhalation_points_y = [],
      counter = 0, rate_index_br = 0, rate_index_hr = 0\<rparr>"

subsection \<open>\<^verbatim>\<open>update_plots\<close>: the rate estimate and the presence gate\<close>

record gstate =
  breathing_rate_estimation_value :: "real list"
  heart_rate_estimation_value :: "real list"

definition init_gstate :: gstate where
  "init_gstate =
     \<lparr>breathing_rate_estimation_value = replicate buffer_data_size 0,
      heart_rate_estimation_value = replicate buffer_data_size 0\<rparr>"

definition x_axis_vital_signs_spectrum :: "real list" where
  "x_axis_vital_signs_spectrum =
     np_linspace (- real vital_signs_sample_rate / 2) (real vital_signs_sample_rate / 2)
       fft_size_vital_signs"

text \<open>
  Lines 383 to 388, and again 391 to 396 for the heart: when the oldest index of the
  estimation window is positive, roll the rate buffer and write
  \<^verbatim>\<open>round(x_axis[round(fft_size / 2 + mean(index[estimation_index:]))] * 60) - 2\<close>.
\<close>

definition rate_value_update :: "real list \<Rightarrow> nat \<Rightarrow> real list \<Rightarrow> py_error + real list" where
  "rate_value_update estimation_index_buf estimation_index estimation_value =
     bind_r (py_index estimation_index_buf (int estimation_index)) (\<lambda>oldest.
       if 0 < oldest then
         bind_r (py_index x_axis_vital_signs_spectrum
                   (py_round (real fft_size_vital_signs / 2
                              + np_mean (drop estimation_index estimation_index_buf)))) (\<lambda>f.
         py_setitem (np_roll estimation_value (- 1)) (- 1)
           (real_of_int (py_round (f * 60)) - 2))
       else Inr estimation_value)"

definition update_plots_estimation :: "pstate \<Rightarrow> gstate \<Rightarrow> py_error + gstate" where
  "update_plots_estimation s g =
     (if ENABLE_ESTIMATION_PLOT then
        bind_r (rate_value_update (breathing_rate_estimation_index s)
                  estimation_index_breathing (breathing_rate_estimation_value g)) (\<lambda>bv.
        bind_r (rate_value_update (heart_rate_estimation_index s)
                  estimation_index_heart (heart_rate_estimation_value g)) (\<lambda>hv.
        Inr (g\<lparr>breathing_rate_estimation_value := bv, heart_rate_estimation_value := hv\<rparr>)))
      else Inr g)"

text \<open>
  Lines 416 to 513: the presence gate and the OSC messages, in the order they are sent.
  \<open>osc_on\<close> is \<^verbatim>\<open>ENABLE_OSC_OUTPUT and osc_client\<close>.
\<close>

type_synonym osc_msg = "string \<times> real"

definition np_max :: "real list \<Rightarrow> real" where
  "np_max xs = fold max (tl xs) (hd xs)"

definition rate_hz :: "real list \<Rightarrow> real" where
  "rate_hz estimation_value =
     (if 0 < length estimation_value then
        (let avg_rate = np_mean (py_tail (estimation_time * vital_signs_sample_rate)
                                   estimation_value)
         in if 0 < avg_rate then avg_rate / 60 else 0)
      else 0)"

definition osc_ratio :: "real list \<Rightarrow> real \<Rightarrow> real" where
  "osc_ratio recent_breathing current_breathing =
     (let baseline = np_mean recent_breathing;
          amplitude = np_max (map (\<lambda>x. \<bar>x - baseline\<bar>) recent_breathing) + 0.0001;
          normalized_value = (current_breathing - baseline) / amplitude;
          circle_size = max 30 (min 100 (50 + 40 * normalized_value));
          osc_value = 0.1 + 0.9 * (circle_size - 30) / 70
      in max 0.1 (min 1.0 osc_value))"

definition signal_quality_good :: "pstate \<Rightarrow> bool" where
  "signal_quality_good s =
     (let recent_breathing = py_tail (5 * vital_signs_sample_rate) (filtered_breathing_plot s);
          signal_variance = np_var recent_breathing;
          min_variance_threshold = 0.0001;
          recent_envelope = py_tail (5 * vital_signs_sample_rate) (I_Q_envelop s);
          mean_envelope = np_mean recent_envelope;
          min_envelope_threshold = 0.001
      in min_variance_threshold < signal_variance \<and> min_envelope_threshold < mean_envelope)"

definition update_plots_presence :: "bool \<Rightarrow> pstate \<Rightarrow> gstate \<Rightarrow> osc_msg list" where
  "update_plots_presence osc_on s g =
     (if ENABLE_BREATHING_VISUALIZATION \<and> 0 < length (filtered_breathing_plot s) then
        (let recent_breathing =
               py_tail (5 * vital_signs_sample_rate) (filtered_breathing_plot s)
         in if 0 < length recent_breathing then
              (if signal_quality_good s then
                 (if 2 < length recent_breathing \<and> osc_on then
                    [(''/xhz'', rate_hz (breathing_rate_estimation_value g)),
                     (''/yhz'', rate_hz (heart_rate_estimation_value g) / 2),
                     (''/xratio'', osc_ratio recent_breathing (last (filtered_breathing_plot s))),
                     (''/yratio'', osc_ratio recent_breathing (last (filtered_breathing_plot s))),
                     (''/presence'', 1)]
                  else [])
               else if osc_on then
                 [(''/presence'', 0), (''/xratio'', 0.1), (''/yratio'', 0.1),
                  (''/xhz'', 0), (''/yhz'', 0)]
               else [])
            else [])
      else [])"

subsection \<open>The band-edge callbacks\<close>

text \<open>
  \<^verbatim>\<open>scipy.signal.firwin(numtaps, [lo, hi], pass_zero=False)\<close> with its defaults (Hamming
  window, scaling at the centre of the band, cut-offs relative to Nyquist). It raises
  \<^verbatim>\<open>ValueError\<close> for a cut-off outside \<open>(0, 1)\<close> and for cut-offs that do not increase.
\<close>

definition np_sinc :: "real \<Rightarrow> real" where
  "np_sinc x = (if x = 0 then 1 else sin (pi * x) / (pi * x))"

definition hamming :: "nat \<Rightarrow> real list" where
  "hamming M =
     (if M \<le> 1 then replicate M 1
      else map (\<lambda>n. 0.54 - 0.46 * cos (2 * pi * real n / real (M - 1))) [0..<M])"

definition firwin :: "nat \<Rightarrow> real \<Rightarrow> real \<Rightarrow> py_error + real list" where
  "firwin numtaps lo hi =
     (if min lo hi \<le> 0 \<or> 1 \<le> max lo hi then Inl ValueError
      else if hi - lo \<le> 0 then Inl ValueError
      else
        (let alpha = 0.5 * (real numtaps - 1);
             m = map (\<lambda>n. real n - alpha) [0..<numtaps];
             h0 = map (\<lambda>mn. hi * np_sinc (hi * mn) - lo * np_sinc (lo * mn)) m;
             h1 = map2 (*) h0 (hamming numtaps);
             scale_frequency = 0.5 * (lo + hi);
             sc = sum_list (map2 (\<lambda>h mn. h * cos (pi * mn * scale_frequency)) h1 m)
         in Inr (map (\<lambda>h. h / sc) h1)))"

text \<open>\<^verbatim>\<open>int(edge / vital_signs_sample_rate * fft_size_vital_signs)\<close>.\<close>

definition band_index :: "real \<Rightarrow> int" where
  "band_index edge =
     py_int (edge / real vital_signs_sample_rate * real fft_size_vital_signs)"

text \<open>
  The two callbacks (lines 665 to 675 and 682 to 691). The edges are stored before
  \<^verbatim>\<open>firwin\<close> is called, so an exception of \<^verbatim>\<open>firwin\<close> leaves the configuration with
  the new edges and the old filter and indices: the result on the left carries it.
\<close>

definition linear_region_breathing_changed ::
    "real \<times> real \<Rightarrow> config \<Rightarrow> (py_error \<times> config) + config" where
  "linear_region_breathing_changed region c =
     (if fst region < real vital_signs_sample_rate / 4
         \<and> snd region < real vital_signs_sample_rate / 2
         \<and> 0 < fst region \<and> 0 < snd region
      then
        (let c1 = c\<lparr>low_breathing := fst region, high_breathing := snd region\<rparr>
         in case firwin filter_order (low_breathing c1 / nyquist_freq)
                   (high_breathing c1 / nyquist_freq) of
              Inl e \<Rightarrow> Inl (e, c1)
            | Inr b \<Rightarrow>
                Inr (c1\<lparr>breathing_b := b,
                        index_start_breathing := band_index (low_breathing c1),
                        index_end_breathing := band_index (high_breathing c1)\<rparr>))
      else Inr c)"

definition linear_region_heart_changed ::
    "real \<times> real \<Rightarrow> config \<Rightarrow> (py_error \<times> config) + config" where
  "linear_region_heart_changed region c =
     (if fst region < real vital_signs_sample_rate / 4
         \<and> snd region < real vital_signs_sample_rate / 2
         \<and> 0 < fst region \<and> 0 < snd region
      then
        (let c1 = c\<lparr>low_heart := fst region, high_heart := snd region\<rparr>
         in case firwin filter_order (low_heart c1 / nyquist_freq)
                   (high_heart c1 / nyquist_freq) of
              Inl e \<Rightarrow> Inl (e, c1)
            | Inr b \<Rightarrow>
                Inr (c1\<lparr>heart_b := b,
                        index_start_heart := band_index (low_heart c1),
                        index_end_heart := band_index (high_heart c1)\<rparr>))
      else Inr c)"

text \<open>
  The configuration at start-up (lines 61 to 90); \<open>mr\<close> is \<^verbatim>\<open>max_range\<close>, which the
  main block computes from the device.
\<close>

definition firwin_taps :: "real \<Rightarrow> real \<Rightarrow> real list" where
  "firwin_taps lo hi =
     (case firwin filter_order (lo / nyquist_freq) (hi / nyquist_freq) of
        Inl _ \<Rightarrow> [] | Inr b \<Rightarrow> b)"

definition init_config :: "real \<Rightarrow> config" where
  "init_config mr =
     \<lparr>object_distance_start_range = 0.5, object_distance_stop_range = 0.6,
      max_range = mr,
      low_breathing = 0.15, high_breathing = 0.6, low_heart = 0.85, high_heart = 2.4,
      breathing_b = firwin_taps 0.15 0.6, heart_b = firwin_taps 0.85 2.4,
      index_start_breathing = band_index 0.15, index_end_breathing = band_index 0.6,
      index_start_heart = band_index 0.85, index_end_heart = band_index 2.4\<rparr>"

subsection \<open>Well-formed states and inputs\<close>

text \<open>The ring-buffer update the properties below speak of: drop the oldest, append.\<close>

definition ring_push :: "'a list \<Rightarrow> 'a \<Rightarrow> 'a list" where
  "ring_push xs v = tl xs @ [v]"

text \<open>A phase trace that \<^verbatim>\<open>np.unwrap\<close> leaves alone: neighbours differ by at most \<open>\<pi>\<close>.\<close>

fun phase_continuous :: "real list \<Rightarrow> bool" where
  "phase_continuous [] = True"
| "phase_continuous [x] = True"
| "phase_continuous (x # y # ys) = (\<bar>y - x\<bar> \<le> pi \<and> phase_continuous (y # ys))"

text \<open>
  A frame as the device delivers it: \<^verbatim>\<open>num_rx_antennas\<close> antennas, at least one chirp
  per antenna, \<^verbatim>\<open>samples_per_chirp\<close> samples per chirp.
\<close>

definition wf_frame :: "frame \<Rightarrow> bool" where
  "wf_frame fr \<longleftrightarrow>
     length fr = num_rx_antennas
   \<and> list_all (\<lambda>m. m \<noteq> [] \<and> length m = length (hd fr)
                   \<and> list_all (\<lambda>row. length row = samples_per_chirp) m) fr"

text \<open>
  A state of the loop between two iterations: every ring buffer has \<^verbatim>\<open>buffer_data_size\<close>
  entries, the batch counter is zero, the queued frames are well formed, the stored peak indices are bins of the range
  profile, and the trailing window of the unwrapped phase is unwrapped.
\<close>

definition wf_state :: "pstate \<Rightarrow> bool" where
  "wf_state s \<longleftrightarrow>
     length (radar_time_stamp s) = buffer_data_size
   \<and> length (slow_time_buffer_data s) = buffer_data_size
   \<and> length (I_Q_envelop s) = buffer_data_size
   \<and> length (range_profile_peak_indices s) = buffer_data_size
   \<and> length (wrapped_phase_plot s) = buffer_data_size
   \<and> length (unwrapped_phase_plot s) = buffer_data_size
   \<and> length (filtered_breathing_plot s) = buffer_data_size
   \<and> length (filtered_heart_plot s) = buffer_data_size
   \<and> length (breathing_rate_estimation_index s) = buffer_data_size
   \<and> length (heart_rate_estimation_index s) = buffer_data_size
   \<and> counter s = 0
   \<and> list_all wf_frame (data_queue s)
   \<and> list_all (\<lambda>v. 0 \<le> v \<and> v \<le> real (fft_size_range_profile div 2 - 1))
        (range_profile_peak_indices s)
   \<and> phase_continuous (py_tail processing_data_size (unwrapped_phase_plot s))"

text \<open>The library routines return arrays of the length of their input.\<close>

definition wf_lib :: "extlib \<Rightarrow> bool" where
  "wf_lib lib \<longleftrightarrow>
     (\<forall>xs w p. length (savgol_filter lib xs w p) = length xs)
   \<and> (\<forall>xs n. length (uniform_filter1d lib xs n) = length xs)
   \<and> (\<forall>xs l. length (fst (hpfilter lib xs l)) = length xs)"

text \<open>The range gate selects at least one bin of the profile.\<close>

definition start_index_range :: "config \<Rightarrow> int" where
  "start_index_range c =
     py_int (object_distance_start_range c / max_range c * real fft_size_range_profile / 2)"

definition stop_index_range :: "config \<Rightarrow> int" where
  "stop_index_range c =
     py_int (object_distance_stop_range c / max_range c * real fft_size_range_profile / 2)"

definition wf_gate :: "config \<Rightarrow> bool" where
  "wf_gate c \<longleftrightarrow>
     max_range c \<noteq> 0
   \<and> 0 \<le> start_index_range c
   \<and> start_index_range c < stop_index_range c
   \<and> start_index_range c < int (fft_size_range_profile div 2)"

text \<open>
  The bin the tracker stores in a cycle: the first strongest bin of the gated magnitude
  profile, as an index of the whole profile.
\<close>

definition gate_peak :: "config \<Rightarrow> complex list \<Rightarrow> real \<Rightarrow> bool" where
  "gate_peak c prof pk \<longleftrightarrow>
     (\<exists>am. np_argmax (py_slice (map cmod prof) (start_index_range c) (stop_index_range c))
             = Inr am
         \<and> am < length (py_slice (map cmod prof) (start_index_range c) (stop_index_range c))
         \<and> pk = real_of_int (int am + start_index_range c))"

text \<open>An iteration that has a frame to process: the reader thread has delivered one.\<close>

definition wf_input :: "cycle_input \<Rightarrow> bool" where
  "wf_input inp \<longleftrightarrow> arrivals inp \<noteq> [] \<and> list_all wf_frame (arrivals inp) \<and> wf_gate (cfg inp)"

subsection \<open>The range profile as the specification words it\<close>

text \<open>
  From the specification, not from the code: per chirp row, remove the mean, apply the
  Blackman-Harris window, zero-pad to \<^verbatim>\<open>fft_size_range_profile\<close>, transform, keep the
  first half of the bins and scale by \<open>2 / samples_per_chirp\<close>; sum over the chirps of an
  antenna and take the arithmetic mean over the antennas.
\<close>

definition chirp_spectrum :: "complex list \<Rightarrow> complex list" where
  "chirp_spectrum row =
     (let dc_removed = map (\<lambda>x. x - np_mean_c row) row;
          windowed = map2 (\<lambda>x wn. x * complex_of_real wn) dc_removed
                       (blackmanharris (length row));
          padded = windowed @ replicate (fft_size_range_profile - length row) 0
      in map (\<lambda>z. 2 / of_nat samples_per_chirp * z)
           (take (fft_size_range_profile div 2) (np_fft padded)))"

definition spec_range_profile :: "frame \<Rightarrow> complex list" where
  "spec_range_profile fr =
     map (\<lambda>k. (\<Sum>mat\<leftarrow>fr. \<Sum>row\<leftarrow>mat. chirp_spectrum row ! k) / of_nat (length fr))
       [0..<fft_size_range_profile div 2]"

subsection \<open>Vocabulary of the properties\<close>

text \<open>
  The entry that one iteration appends to each of its ten buffers, computed from the
  state before the iteration and its input, in the order of the source:
  the time stamp (line 176), the gated peak bin (lines 194 and 195), the tracked bin
  (line 197), the slow-time sample (line 199), its phase after unwrapping the trailing
  window (lines 209 to 218), the newest output of the two filters (lines 222 to 240), and
  for each band the bin of the strongest peak of the new spectrum, or the previous newest
  entry when there is none (lines 259 to 271). The envelope entry is the magnitude of
  the sample (line 204) and the wrapped-phase entry is its argument (line 211).
\<close>

definition pushed_time_stamp :: "cycle_input \<Rightarrow> pstate \<Rightarrow> real" where
  "pushed_time_stamp inp s =
     last (radar_time_stamp s) + (current_time inp - start_time s)"

definition cycle_profile :: "cycle_input \<Rightarrow> pstate \<Rightarrow> complex list" where
  "cycle_profile inp s =
     (case calc_range_fft (data_queue s @ arrivals inp) of
        Inr (NdArray range_fft_antennas_buffer, q) \<Rightarrow> range_fft_antennas_buffer
      | _ \<Rightarrow> [])"

definition pushed_peak_index :: "cycle_input \<Rightarrow> pstate \<Rightarrow> real" where
  "pushed_peak_index inp s =
     (case np_argmax (py_slice (map cmod (cycle_profile inp s))
                        (start_index_range (cfg inp)) (stop_index_range (cfg inp))) of
        Inr am \<Rightarrow> real_of_int (int am + start_index_range (cfg inp))
      | Inl e \<Rightarrow> 0)"

definition tracked_bin :: "cycle_input \<Rightarrow> pstate \<Rightarrow> int" where
  "tracked_bin inp s =
     py_int (np_mean (py_tail (2 * vital_signs_sample_rate)
                        (ring_push (range_profile_peak_indices s) (pushed_peak_index inp s))))"

definition pushed_sample :: "cycle_input \<Rightarrow> pstate \<Rightarrow> complex" where
  "pushed_sample inp s = cycle_profile inp s ! nat (tracked_bin inp s)"

definition pushed_unwrapped :: "cycle_input \<Rightarrow> pstate \<Rightarrow> real" where
  "pushed_unwrapped inp s =
     last (np_unwrap (py_tail processing_data_size
                        (ring_push (unwrapped_phase_plot s) (Arg (pushed_sample inp s)))))"

definition unwrapped_window :: "cycle_input \<Rightarrow> pstate \<Rightarrow> real list" where
  "unwrapped_window inp s =
     py_tail processing_data_size
       (ring_push (unwrapped_phase_plot s) (pushed_unwrapped inp s))"

definition breathing_filter :: "extlib \<Rightarrow> config \<Rightarrow> real list \<Rightarrow> real list" where
  "breathing_filter lib c window =
     (let fb0 = lfilter (breathing_b c) window;
          window_length = odd_window (min 51 (int processing_data_size - 2));
          fb1 = (if 5 < window_length then savgol_filter lib fb0 (nat window_length) 3 else fb0)
      in uniform_filter1d lib fb1 5)"

definition heart_filter :: "extlib \<Rightarrow> config \<Rightarrow> real list \<Rightarrow> real list" where
  "heart_filter lib c window =
     lfilter (heart_b c) (fst (hpfilter lib window (3 * real vital_signs_sample_rate)))"

definition pushed_breathing :: "extlib \<Rightarrow> cycle_input \<Rightarrow> pstate \<Rightarrow> real" where
  "pushed_breathing lib inp s =
     last (breathing_filter lib (cfg inp) (unwrapped_window inp s))"

definition pushed_heart :: "extlib \<Rightarrow> cycle_input \<Rightarrow> pstate \<Rightarrow> real" where
  "pushed_heart lib inp s = last (heart_filter lib (cfg inp) (unwrapped_window inp s))"

definition peak_or_held :: "real list \<Rightarrow> int \<Rightarrow> int \<Rightarrow> real list \<Rightarrow> real" where
  "peak_or_held filtered index_start index_end estimation_index =
     (case vital_signs_fft (map complex_of_real (py_tail processing_data_size filtered))
             fft_size_vital_signs processing_data_size of
        Inl e \<Rightarrow> last estimation_index
      | Inr spectrum \<Rightarrow>
          (case find_signal_peaks spectrum index_start index_end peak_finding_distance of
             Inl e \<Rightarrow> last estimation_index
           | Inr rate_index \<Rightarrow>
               if rate_index \<noteq> 0 then real_of_int rate_index else last estimation_index))"

definition pushed_breathing_index :: "extlib \<Rightarrow> cycle_input \<Rightarrow> pstate \<Rightarrow> real" where
  "pushed_breathing_index lib inp s =
     peak_or_held (ring_push (filtered_breathing_plot s) (pushed_breathing lib inp s))
       (index_start_breathing (cfg inp)) (index_end_breathing (cfg inp))
       (breathing_rate_estimation_index s)"

definition pushed_heart_index :: "extlib \<Rightarrow> cycle_input \<Rightarrow> pstate \<Rightarrow> real" where
  "pushed_heart_index lib inp s =
     peak_or_held (ring_push (filtered_heart_plot s) (pushed_heart lib inp s))
       (index_start_heart (cfg inp)) (index_end_heart (cfg inp))
       (heart_rate_estimation_index s)"

text \<open>
  One iteration, from \<open>s\<close> to \<open>s'\<close> on the input \<open>inp\<close>, drops the oldest entry of each of
  the ten buffers and appends the entry computed above.
\<close>

definition ring_step :: "extlib \<Rightarrow> cycle_input \<Rightarrow> pstate \<Rightarrow> pstate \<Rightarrow> bool" where
  "ring_step lib inp s s' \<longleftrightarrow>
     radar_time_stamp s' = ring_push (radar_time_stamp s) (pushed_time_stamp inp s)
   \<and> slow_time_buffer_data s' = ring_push (slow_time_buffer_data s) (pushed_sample inp s)
   \<and> I_Q_envelop s' = ring_push (I_Q_envelop s) (cmod (pushed_sample inp s))
   \<and> range_profile_peak_indices s'
       = ring_push (range_profile_peak_indices s) (pushed_peak_index inp s)
   \<and> wrapped_phase_plot s' = ring_push (wrapped_phase_plot s) (Arg (pushed_sample inp s))
   \<and> unwrapped_phase_plot s' = ring_push (unwrapped_phase_plot s) (pushed_unwrapped inp s)
   \<and> filtered_breathing_plot s'
       = ring_push (filtered_breathing_plot s) (pushed_breathing lib inp s)
   \<and> filtered_heart_plot s' = ring_push (filtered_heart_plot s) (pushed_heart lib inp s)
   \<and> breathing_rate_estimation_index s'
       = ring_push (breathing_rate_estimation_index s) (pushed_breathing_index lib inp s)
   \<and> heart_rate_estimation_index s'
       = ring_push (heart_rate_estimation_index s) (pushed_heart_index lib inp s)"

text \<open>
  A run \<open>tr\<close> of the loop from \<open>s\<close> on the inputs \<open>inps\<close>, one state per iteration, in
  which every iteration is such a step.
\<close>

fun ring_run :: "extlib \<Rightarrow> pstate \<Rightarrow> cycle_input list \<Rightarrow> pstate list \<Rightarrow> bool" where
  "ring_run lib s [] [] = True"
| "ring_run lib s (inp # inps) (s' # tr) = (ring_step lib inp s s' \<and> ring_run lib s' inps tr)"
| "ring_run lib s _ _ = False"

text \<open>
  The values that a run appends to a buffer: \<open>f inp s\<close> for each iteration, with \<open>s\<close> the
  state before it.
\<close>

fun pushed_values :: "('i \<Rightarrow> 's \<Rightarrow> 'a) \<Rightarrow> 's \<Rightarrow> 's list \<Rightarrow> 'i list \<Rightarrow> 'a list" where
  "pushed_values f s (s' # tr) (inp # inps) = f inp s # pushed_values f s' tr inps"
| "pushed_values f s _ _ = []"

text \<open>
  Along the states \<open>tr\<close> after \<open>s\<close>, the buffer \<open>buf\<close> receives the values \<open>vs\<close> one per
  step: each state holds the buffer of the state before it without its first (oldest)
  entry, followed by the value of that step as its last (newest) entry.
\<close>

fun pushed_run :: "('s \<Rightarrow> 'a list) \<Rightarrow> 's \<Rightarrow> 's list \<Rightarrow> 'a list \<Rightarrow> bool" where
  "pushed_run buf s [] [] = True"
| "pushed_run buf s (s' # tr) (v # vs) = (buf s' = tl (buf s) @ [v] \<and> pushed_run buf s' tr vs)"
| "pushed_run buf s _ _ = False"

text \<open>
  A run \<open>tr\<close> from \<open>s0\<close> treats \<open>buf\<close> as a FIFO ring buffer that is pushed the values
  \<open>vs\<close>: every step evicts the oldest entry and appends the value of the step, the length
  stays \<^verbatim>\<open>buffer_data_size\<close>, and after \<open>N \<le> buffer_data_size\<close> steps the buffer is the
  old one without its \<open>N\<close> oldest entries, followed by the \<open>N\<close> pushed values in order.
\<close>

definition fifo_after :: "('s \<Rightarrow> 'a list) \<Rightarrow> 's \<Rightarrow> 's list \<Rightarrow> 'a list \<Rightarrow> bool" where
  "fifo_after buf s0 tr vs \<longleftrightarrow>
     pushed_run buf s0 tr vs
   \<and> list_all (\<lambda>s. length (buf s) = buffer_data_size) (s0 # tr)
   \<and> (length tr \<le> buffer_data_size \<longrightarrow>
        buf (last (s0 # tr)) = drop (length tr) (buf s0) @ vs)"

text \<open>
  An index buffer that \<^verbatim>\<open>update_plots\<close> can convert: full length, and the entries of the
  estimation window are bins of the lower half of the spectrum.
\<close>

definition wf_rate_index :: "real list \<Rightarrow> nat \<Rightarrow> bool" where
  "wf_rate_index idx est \<longleftrightarrow>
     length idx = buffer_data_size
   \<and> list_all (\<lambda>v. 0 \<le> v \<and> v \<le> real (fft_size_vital_signs div 2 - 1)) (drop est idx)"

text \<open>
  The rate the code writes for an estimation window: the spectrum axis read at the
  rounded mean index, times 60, rounded, minus 2.
\<close>

definition displayed_rate :: "real list \<Rightarrow> real" where
  "displayed_rate window =
     real_of_int
       (py_round (60 * (- real vital_signs_sample_rate / 2
                        + real_of_int (py_round (real fft_size_vital_signs / 2 + np_mean window))
                          * (real vital_signs_sample_rate / real (fft_size_vital_signs - 1)))))
     - 2"

text \<open>
  From the specification, not from the code: the mean index converted as
  \<open>binIndex \<times> sampleRate / fftSizeVital \<times> 60\<close>, minus 2.
\<close>

definition spec_rate :: "real list \<Rightarrow> real" where
  "spec_rate window =
     np_mean window * real vital_signs_sample_rate / real fft_size_vital_signs * 60 - 2"

text \<open>
  A search index for a band edge: the integer part of
  \<open>edge / vital_signs_sample_rate \<times> fft_size_vital_signs\<close>. The quotient is computed in
  floating point, where it can fall short of (or reach) an integer that the exact
  quotient equals (or just misses); the margin of \<open>10\<^sup>-\<^sup>9\<close> covers that rounding.
\<close>

definition index_of_edge :: "real \<Rightarrow> int \<Rightarrow> bool" where
  "index_of_edge edge i \<longleftrightarrow>
     real_of_int i
       \<le> edge / real vital_signs_sample_rate * real fft_size_vital_signs + 1 / 10 ^ 9
   \<and> edge / real vital_signs_sample_rate * real fft_size_vital_signs - 1 / 10 ^ 9
       < real_of_int i + 1"

text \<open>What the OSC messages of one update say, read by address.\<close>

definition presence_asserted :: "osc_msg list \<Rightarrow> bool" where
  "presence_asserted msgs \<longleftrightarrow> map_of msgs ''/presence'' = Some 1"

definition telemetry :: "osc_msg list \<Rightarrow> real option \<times> real option \<times> real option \<times> real option \<times> real option" where
  "telemetry msgs =
     (map_of msgs ''/xhz'', map_of msgs ''/yhz'', map_of msgs ''/xratio'',
      map_of msgs ''/yratio'', map_of msgs ''/presence'')"

text \<open>
  Concrete inputs for instances of the theorems: a library whose routines return their
  input, a frame of zeros, and an iteration that receives it under the start-up
  configuration with \<^verbatim>\<open>max_range = 1\<close>.
\<close>

definition id_lib :: extlib where
  "id_lib =
     \<lparr>savgol_filter = (\<lambda>xs w p. xs), uniform_filter1d = (\<lambda>xs n. xs),
      hpfilter = (\<lambda>xs l. (xs, xs)), medfilt = (\<lambda>xs k. xs),
      percentile = (\<lambda>xs q. 0), find_peaks_hp = (\<lambda>xs d h p. [])\<rparr>"

definition zero_frame :: frame where
  "zero_frame = replicate num_rx_antennas [replicate samples_per_chirp 0]"

definition demo_input :: cycle_input where
  "demo_input = \<lparr>arrivals = [zero_frame], current_time = 1, cfg = init_config 1\<rparr>"

subsection \<open>Runs of the display timer, and a spectrum band without a peak\<close>

text \<open>
  The peak picker finds nothing in the searched band of a spectrum: the call of
  \<^verbatim>\<open>find_peaks\<close> in \<^verbatim>\<open>find_signal_peaks\<close> (line 143) returns no index.
\<close>

definition no_peak :: "real list \<Rightarrow> int \<Rightarrow> int \<Rightarrow> bool" where
  "no_peak spectrum index_start index_end \<longleftrightarrow>
     find_peaks (py_slice spectrum index_start index_end)
       (nat (py_int (max 1 (peak_finding_distance * real fft_size_vital_signs
                             / real vital_signs_sample_rate)))) = []"

text \<open>
  Successive calls of \<^verbatim>\<open>update_plots\<close> by the timer, each reading the state the
  processing loop has reached; the result lists the display states in order.
\<close>

fun update_plots_ticks :: "pstate list \<Rightarrow> gstate \<Rightarrow> py_error + gstate list" where
  "update_plots_ticks [] g = Inr []"
| "update_plots_ticks (s # ss) g =
     bind_r (update_plots_estimation s g) (\<lambda>g'.
     bind_r (update_plots_ticks ss g') (\<lambda>tr. Inr (g' # tr)))"

text \<open>
  A processing state from which \<^verbatim>\<open>update_plots\<close> emits a rate for both series (the
  oldest index of each estimation window is positive, lines 383 and 391), and a display
  state with full rate buffers.
\<close>

definition emitting :: "pstate \<Rightarrow> bool" where
  "emitting s \<longleftrightarrow>
     wf_rate_index (breathing_rate_estimation_index s) estimation_index_breathing
   \<and> wf_rate_index (heart_rate_estimation_index s) estimation_index_heart
   \<and> 0 < breathing_rate_estimation_index s ! estimation_index_breathing
   \<and> 0 < heart_rate_estimation_index s ! estimation_index_heart"

definition wf_gstate :: "gstate \<Rightarrow> bool" where
  "wf_gstate g \<longleftrightarrow>
     length (breathing_rate_estimation_value g) = buffer_data_size
   \<and> length (heart_rate_estimation_value g) = buffer_data_size"

subsection \<open>Concrete states and inputs\<close>

text \<open>
  A state whose stored peak indices are all 37, and an iteration whose range gate is the
  single bin 32 (\<^verbatim>\<open>object_distance_stop_range = 33 / 64\<close> with \<^verbatim>\<open>max_range = 1\<close>).
\<close>

definition hop_state :: pstate where
  "hop_state = (init_pstate 0)\<lparr>range_profile_peak_indices := replicate buffer_data_size 37\<rparr>"

definition one_bin_input :: cycle_input where
  "one_bin_input =
     demo_input\<lparr>cfg := (init_config 1)\<lparr>object_distance_stop_range := 33 / 64\<rparr>\<rparr>"

text \<open>A state whose index buffers hold bin 25 (breathing) and bin 100 (heart) throughout.\<close>

definition paced_state :: pstate where
  "paced_state =
     (init_pstate 0)\<lparr>breathing_rate_estimation_index := replicate buffer_data_size 25,
                     heart_rate_estimation_index := replicate buffer_data_size 100\<rparr>"

text \<open>
  A state whose filtered breathing signal ends in one sample of 1 after zeros, with an
  envelope of 1.
\<close>

definition breathing_state :: pstate where
  "breathing_state =
     (init_pstate 0)\<lparr>filtered_breathing_plot := replicate (buffer_data_size - 1) 0 @ [1],
                     I_Q_envelop := replicate buffer_data_size 1\<rparr>"

text \<open>
  An iteration whose two bands are narrower than three spectrum bins: 0.15 to 0.17 Hz is
  bins 12 to 13, and 0.85 to 0.87 Hz is bins 68 to 69.
\<close>

definition narrow_input :: cycle_input where
  "narrow_input =
     demo_input\<lparr>cfg := (init_config 1)
       \<lparr>low_breathing := 0.15, high_breathing := 0.17,
        breathing_b := firwin_taps 0.15 0.17,
        index_start_breathing := band_index 0.15, index_end_breathing := band_index 0.17,
        low_heart := 0.85, high_heart := 0.87,
        heart_b := firwin_taps 0.85 0.87,
        index_start_heart := band_index 0.85, index_end_heart := band_index 0.87\<rparr>\<rparr>"

text \<open>A library whose peak finder with height and prominence always reports index 0.\<close>

definition peak_lib :: extlib where
  "peak_lib = id_lib\<lparr>find_peaks_hp := (\<lambda>xs d h p. [0])\<rparr>"

section \<open>Properties\<close>

subsection \<open>Rolling and indexing\<close>

lemma bind_r_Inr: "bind_r (Inr x) f = f x"
  by (simp add: bind_r_def)

lemma np_roll_m1: "np_roll xs (- 1) = rotate1 xs"
proof (cases "length xs \<le> 1")
  case True
  then have "xs = [] \<or> (\<exists>x. xs = [x])"
    by (cases xs) auto
  then show ?thesis by (auto simp: np_roll_def)
next
  case False
  then have "(1::int) mod int (length xs) = 1" by simp
  then show ?thesis by (simp add: np_roll_def)
qed

lemma rotate1_push: "xs \<noteq> [] \<Longrightarrow> (rotate1 xs)[length xs - 1 := v] = ring_push xs v"
  by (cases xs) (auto simp: ring_push_def)

lemma roll_set_last:
  "xs \<noteq> [] \<Longrightarrow> py_setitem (np_roll xs (- 1)) (- 1) v = Inr (ring_push xs v)"
  by (cases xs) (auto simp: py_setitem_def np_roll_m1 ring_push_def Let_def nat_diff_distrib)

lemma roll_index_prev:
  "2 \<le> length xs \<Longrightarrow> py_index (np_roll xs (- 1)) (- 2) = Inr (last xs)"
proof -
  assume a: "2 \<le> length xs"
  then obtain x ys where xs: "xs = x # ys" and ys: "ys \<noteq> []"
    by (cases xs) (auto simp: Suc_le_eq)
  have "(ys @ [x]) ! (length ys - 1) = last ys"
    using ys by (simp add: nth_append last_conv_nth)
  moreover have "Suc 0 \<le> length ys"
    using ys by (cases ys) auto
  ultimately show ?thesis
    using ys by (simp add: py_index_def np_roll_m1 xs Let_def nat_diff_distrib)
qed

lemma py_index_last: "xs \<noteq> [] \<Longrightarrow> py_index xs (- 1) = Inr (last xs)"
  by (cases xs rule: rev_cases) (auto simp: py_index_def Let_def)

lemma py_setitem_last: "xs \<noteq> [] \<Longrightarrow> py_setitem xs (- 1) v = Inr (butlast xs @ [v])"
  by (cases xs rule: rev_cases) (auto simp: py_setitem_def Let_def nat_diff_distrib)

lemma length_ring_push [simp]: "xs \<noteq> [] \<Longrightarrow> length (ring_push xs v) = length xs"
  by (simp add: ring_push_def)

lemma last_ring_push [simp]: "last (ring_push xs v) = v"
  by (simp add: ring_push_def)

subsection \<open>Unwrapping a continuous phase trace\<close>

lemma np_mod_range:
  assumes "0 < y"
  shows "0 \<le> np_mod x y" and "np_mod x y < y"
proof -
  have "of_int \<lfloor>x / y\<rfloor> * y \<le> x"
    using assms by (rule floor_divide_lower)
  then show "0 \<le> np_mod x y"
    by (simp add: np_mod_def mult.commute)
  have "x < (of_int \<lfloor>x / y\<rfloor> + 1) * y"
    using assms by (rule floor_divide_upper)
  then show "np_mod x y < y"
    by (simp add: np_mod_def algebra_simps)
qed

lemma ph_correct_small: "\<bar>d\<bar> \<le> pi \<Longrightarrow> ph_correct d = 0"
proof -
  assume a: "\<bar>d\<bar> \<le> pi"
  consider "\<bar>d\<bar> < pi" | "d = pi" | "d = - pi"
    using a by fastforce
  then show ?thesis
  proof cases
    case 1
    then show ?thesis by (simp add: ph_correct_def Let_def)
  next
    case 2
    have "np_mod (pi + pi) (2 * pi) = 0"
      by (simp add: np_mod_def)
    then show ?thesis
      using 2 by (simp add: ph_correct_def Let_def)
  next
    case 3
    have "np_mod 0 (2 * pi) = 0"
      by (simp add: np_mod_def)
    then show ?thesis
      using 3 by (simp add: ph_correct_def Let_def)
  qed
qed

lemma ph_correct_bound: "\<bar>d + ph_correct d\<bar> \<le> pi"
proof (cases "\<bar>d\<bar> < pi")
  case True
  then show ?thesis by (simp add: ph_correct_def Let_def)
next
  case False
  have r: "0 \<le> np_mod (d + pi) (2 * pi)" "np_mod (d + pi) (2 * pi) < 2 * pi"
    using np_mod_range[of "2 * pi" "d + pi"] by simp_all
  show ?thesis
    using False r by (auto simp: ph_correct_def Let_def)
qed

lemma phase_continuous_snoc:
  "phase_continuous xs \<Longrightarrow> xs \<noteq> [] \<Longrightarrow> \<bar>v - last xs\<bar> \<le> pi \<Longrightarrow> phase_continuous (xs @ [v])"
  by (induction xs rule: phase_continuous.induct) auto

lemma phase_continuous_tl: "phase_continuous xs \<Longrightarrow> phase_continuous (tl xs)"
  by (induction xs rule: phase_continuous.induct) auto

lemma phase_continuous_drop: "phase_continuous xs \<Longrightarrow> phase_continuous (drop n xs)"
proof (induction n arbitrary: xs)
  case 0
  then show ?case by simp
next
  case (Suc n)
  have "drop (Suc n) xs = drop n (tl xs)"
    by (simp add: drop_Suc)
  with Suc show ?case
    by (simp add: phase_continuous_tl)
qed

lemma unwrap_from_continuous:
  "phase_continuous (prev # xs) \<Longrightarrow>
   unwrap_from prev acc (xs @ [w]) =
     map (\<lambda>x. x + acc) xs @ [w + (acc + ph_correct (w - last (prev # xs)))]"
proof (induction xs arbitrary: prev)
  case Nil
  then show ?case by simp
next
  case (Cons x xs)
  from Cons.prems have d: "\<bar>x - prev\<bar> \<le> pi" and c: "phase_continuous (x # xs)"
    by simp_all
  from d have z: "ph_correct (x - prev) = 0"
    by (rule ph_correct_small)
  show ?case
    using Cons.IH[OF c] z by simp
qed

lemma np_unwrap_continuous:
  assumes "phase_continuous xs" and "xs \<noteq> []"
  shows "np_unwrap (xs @ [w]) = xs @ [w + ph_correct (w - last xs)]"
proof -
  obtain x ys where xs: "xs = x # ys"
    using assms(2) by (cases xs) auto
  have "unwrap_from x 0 (ys @ [w]) = map (\<lambda>v. v + 0) ys @ [w + (0 + ph_correct (w - last (x # ys)))]"
    using assms(1) unfolding xs by (rule unwrap_from_continuous)
  then show ?thesis
    by (simp add: np_unwrap_def xs)
qed

lemma length_unwrap_from [simp]: "length (unwrap_from p a xs) = length xs"
  by (induction xs arbitrary: p a) auto

lemma length_np_unwrap [simp]: "length (np_unwrap xs) = length xs"
  by (cases xs) (auto simp: np_unwrap_def)

subsection \<open>The stages of one iteration on a well-formed state\<close>

lemma buffer_data_size_val: "buffer_data_size = 2000"
  by (simp add: buffer_data_size_def buffer_time_def processing_window_time_def
      vital_signs_sample_rate_def frame_rate_def)

lemma processing_data_size_val: "processing_data_size = 400"
  by (simp add: processing_data_size_def processing_window_time_def
      vital_signs_sample_rate_def frame_rate_def)

lemma vital_signs_sample_rate_val: "vital_signs_sample_rate = 20"
  by (simp add: vital_signs_sample_rate_def frame_rate_def)

lemma fft_size_vital_signs_val: "fft_size_vital_signs = 1600"
  by (simp add: fft_size_vital_signs_def processing_data_size_val)

lemma fft_size_range_profile_val: "fft_size_range_profile = 128"
  by (simp add: fft_size_range_profile_def samples_per_chirp_def)

lemma estimation_index_val:
  "estimation_index_breathing = 1900" "estimation_index_heart = 1900"
  by (simp_all add: estimation_index_breathing_def estimation_index_heart_def
      buffer_data_size_val estimation_time_def estimation_rate_def vital_signs_sample_rate_val)

lemma stamp_time_wf:
  assumes "2 \<le> length (radar_time_stamp s)"
  shows "stamp_time now s =
           Inr (s\<lparr>start_time := now,
                  radar_time_stamp := ring_push (radar_time_stamp s)
                    (last (radar_time_stamp s) + (now - start_time s))\<rparr>)"
proof -
  have ne: "radar_time_stamp s \<noteq> []"
    using assms by auto
  show ?thesis
    by (simp add: stamp_time_def Let_def roll_index_prev[OF assms] roll_set_last[OF ne]
        bind_r_def)
qed

lemma argmax_from_bound: "bi < i \<Longrightarrow> argmax_from best bi i xs < i + length xs"
proof (induction xs arbitrary: best bi i)
  case Nil
  then show ?case by simp
next
  case (Cons a xs)
  have 1: "argmax_from a i (Suc i) xs < Suc i + length xs"
    by (rule Cons.IH) simp
  have 2: "argmax_from best bi (Suc i) xs < Suc i + length xs"
    by (rule Cons.IH) (use Cons.prems in simp)
  show ?case
    using 1 2 by simp
qed

lemma np_argmax_nonempty:
  "xs \<noteq> [] \<Longrightarrow> \<exists>am. np_argmax xs = Inr am \<and> am < length xs"
proof -
  assume "xs \<noteq> []"
  then obtain x r where xs: "xs = x # r"
    by (cases xs) auto
  have "argmax_from x 0 1 r < 1 + length r"
    by (rule argmax_from_bound) simp
  then show ?thesis
    by (simp add: np_argmax_def xs)
qed

lemma np_mean_bounds:
  assumes "xs \<noteq> []" and "list_all (\<lambda>v. lo \<le> v \<and> v \<le> hi) xs"
  shows "lo \<le> np_mean xs \<and> np_mean xs \<le> hi"
proof -
  have s: "real (length xs) * lo \<le> sum_list xs \<and> sum_list xs \<le> real (length xs) * hi"
    using assms(2) by (induction xs) (auto simp: algebra_simps)
  have n: "0 < real (length xs)"
    using assms(1) by simp
  show ?thesis
    using s n by (simp add: np_mean_def field_simps)
qed

lemma py_int_bounds:
  "0 \<le> x \<Longrightarrow> x \<le> real n \<Longrightarrow> 0 \<le> py_int x \<and> py_int x \<le> int n"
  by (auto simp: py_int_def floor_le_iff le_floor_iff)

lemma list_all_py_tail: "list_all P xs \<Longrightarrow> list_all P (py_tail k xs)"
  by (auto simp: py_tail_def list_all_iff dest: in_set_dropD)

lemma list_all_ring_push: "list_all P xs \<Longrightarrow> P v \<Longrightarrow> list_all P (ring_push xs v)"
  by (cases xs) (auto simp: ring_push_def)

lemma py_tail_nonempty: "xs \<noteq> [] \<Longrightarrow> py_tail k xs \<noteq> []"
  by (cases xs) (auto simp: py_tail_def)

lemma ring_push_nonempty [simp]: "ring_push xs v \<noteq> []"
  by (simp add: ring_push_def)

lemma py_slice_gate:
  assumes "0 \<le> a" and "a < b" and "a < int (length xs)"
  shows "py_slice xs a b \<noteq> []" and "int (length (py_slice xs a b)) + a \<le> int (length xs)"
proof -
  have l: "length (py_slice xs a b) = min (length xs) (nat b) - nat a"
    using assms by (simp add: py_slice_def slice_bound_def)
  show "py_slice xs a b \<noteq> []"
    using l assms by (cases "py_slice xs a b") auto
  show "int (length (py_slice xs a b)) + a \<le> int (length xs)"
    using l assms by auto
qed

lemma range_index_wf:
  "mr \<noteq> 0 \<Longrightarrow> range_index d mr = Inr (py_int (d / mr * real fft_size_range_profile / 2))"
  by (simp add: range_index_def)

lemma track_range_wf:
  assumes g: "wf_gate c"
    and lp: "length prof = fft_size_range_profile div 2"
    and ls: "slow_time_buffer_data s \<noteq> []"
    and le: "I_Q_envelop s \<noteq> []"
    and lk: "range_profile_peak_indices s \<noteq> []"
    and bk: "list_all (\<lambda>v. 0 \<le> v \<and> v \<le> real (fft_size_range_profile div 2 - 1))
               (range_profile_peak_indices s)"
  shows "\<exists>pk smp.
      track_range c prof s =
        Inr (s\<lparr>range_fft_abs := map cmod prof,
               slow_time_buffer_data := ring_push (slow_time_buffer_data s) smp,
               I_Q_envelop := ring_push (I_Q_envelop s) (cmod smp),
               range_profile_peak_indices := ring_push (range_profile_peak_indices s) pk,
               range_profile_peak_index :=
                 py_int (np_mean (py_tail (2 * vital_signs_sample_rate)
                                    (ring_push (range_profile_peak_indices s) pk)))\<rparr>)
    \<and> 0 \<le> pk \<and> pk \<le> real (fft_size_range_profile div 2 - 1)
    \<and> gate_peak c prof pk
    \<and> py_index prof (py_int (np_mean (py_tail (2 * vital_signs_sample_rate)
                                   (ring_push (range_profile_peak_indices s) pk)))) = Inr smp"
proof -
  define si where "si = start_index_range c"
  define sj where "sj = stop_index_range c"
  define ap where "ap = map cmod prof"
  from g have mr: "max_range c \<noteq> 0" and si0: "0 \<le> si" and sij: "si < sj"
    and sin: "si < int (fft_size_range_profile div 2)"
    by (simp_all add: wf_gate_def si_def sj_def)
  have lap: "length ap = fft_size_range_profile div 2"
    by (simp add: ap_def lp)
  have sl: "py_slice ap si sj \<noteq> []"
    and sl2: "int (length (py_slice ap si sj)) + si \<le> int (length ap)"
    using py_slice_gate[of si sj ap] si0 sij sin lap by simp_all
  from np_argmax_nonempty[OF sl] obtain am
    where am: "np_argmax (py_slice ap si sj) = Inr am" and amb: "am < length (py_slice ap si sj)"
    by blast
  define pk where "pk = real_of_int (int am + si)"
  have pk0: "0 \<le> pk"
    using si0 by (simp add: pk_def)
  have "int am + si < int (fft_size_range_profile div 2)"
    using amb sl2 lap by linarith
  then have "int am + si \<le> int (fft_size_range_profile div 2 - 1)"
    by linarith
  then have pk1: "pk \<le> real (fft_size_range_profile div 2 - 1)"
    unfolding pk_def by (metis of_int_le_iff of_int_of_nat_eq)
  define peaks where "peaks = ring_push (range_profile_peak_indices s) pk"
  define tl40 where "tl40 = py_tail (2 * vital_signs_sample_rate) peaks"
  have bp: "list_all (\<lambda>v. 0 \<le> v \<and> v \<le> real (fft_size_range_profile div 2 - 1)) peaks"
    unfolding peaks_def using bk pk0 pk1 by (intro list_all_ring_push) simp_all
  have tne: "tl40 \<noteq> []"
    unfolding tl40_def by (rule py_tail_nonempty) (simp add: peaks_def)
  have bt: "list_all (\<lambda>v. 0 \<le> v \<and> v \<le> real (fft_size_range_profile div 2 - 1)) tl40"
    unfolding tl40_def using bp by (rule list_all_py_tail)
  have mb: "0 \<le> np_mean tl40 \<and> np_mean tl40 \<le> real (fft_size_range_profile div 2 - 1)"
    using tne bt by (rule np_mean_bounds)
  define pidx where "pidx = py_int (np_mean tl40)"
  have pb: "0 \<le> pidx \<and> pidx \<le> int (fft_size_range_profile div 2 - 1)"
    unfolding pidx_def using mb by (intro py_int_bounds) simp_all
  have pl: "pidx < int (length prof)"
    using pb lp by (simp add: fft_size_range_profile_val)
  define smp where "smp = prof ! nat pidx"
  have ix: "py_index prof pidx = Inr smp"
    using pb pl by (simp add: py_index_def Let_def smp_def)
  have im: "int_mean tl40 = Inr pidx"
    using tne by (simp add: int_mean_def pidx_def)
  have r1: "range_index (object_distance_start_range c) (max_range c) = Inr si"
    unfolding si_def start_index_range_def by (rule range_index_wf[OF mr])
  have r2: "range_index (object_distance_stop_range c) (max_range c) = Inr sj"
    unfolding sj_def stop_index_range_def by (rule range_index_wf[OF mr])
  have r3: "np_argmax (py_slice (map cmod prof) si sj) = Inr am"
    using am by (simp only: ap_def)
  have r4: "py_setitem (np_roll (range_profile_peak_indices s) (- 1)) (- 1)
              (real_of_int (int am + si)) = Inr peaks"
    unfolding peaks_def pk_def by (rule roll_set_last[OF lk])
  have r5: "int_mean (py_tail (2 * vital_signs_sample_rate) peaks) = Inr pidx"
    using im by (simp only: tl40_def)
  have r6: "py_setitem (np_roll (slow_time_buffer_data s) (- 1)) (- 1) smp
              = Inr (ring_push (slow_time_buffer_data s) smp)"
    by (rule roll_set_last[OF ls])
  have r7: "py_index (ring_push (slow_time_buffer_data s) smp) (- 1) = Inr smp"
    by (simp add: py_index_last)
  have r8: "py_setitem (np_roll (I_Q_envelop s) (- 1)) (- 1) (cmod smp)
              = Inr (ring_push (I_Q_envelop s) (cmod smp))"
    by (rule roll_set_last[OF le])
  have "track_range c prof s =
        Inr (s\<lparr>range_fft_abs := map cmod prof,
               slow_time_buffer_data := ring_push (slow_time_buffer_data s) smp,
               I_Q_envelop := ring_push (I_Q_envelop s) (cmod smp),
               range_profile_peak_indices := peaks,
               range_profile_peak_index := pidx\<rparr>)"
    by (simp only: track_range_def Let_def r1 r2 r3 r4 r5 ix r6 r7 r8 bind_r_Inr
        max_index_processing_def if_True)
  moreover have "gate_peak c prof pk"
    unfolding gate_peak_def using am amb by (auto simp: si_def sj_def ap_def pk_def)
  ultimately show ?thesis
    using pk0 pk1 ix unfolding peaks_def tl40_def pidx_def by blast
qed

lemma py_tail_Suc0: "xs \<noteq> [] \<Longrightarrow> py_tail (Suc 0) xs = [last xs]"
  by (cases xs rule: rev_cases) (auto simp: py_tail_def)

lemma py_tail_one: "xs \<noteq> [] \<Longrightarrow> py_tail 1 xs = [last xs]"
  using py_tail_Suc0 by simp

lemma assign_tail_push:
  assumes "xs \<noteq> []" and "ys \<noteq> []"
  shows "assign_tail 1 (np_roll xs (- 1)) (py_tail 1 ys) = Inr (ring_push xs (last ys))"
proof -
  obtain x r where xs: "xs = x # r"
    using assms(1) by (cases xs) auto
  have "assign_tail (Suc 0) (r @ [x]) [last ys] = Inr (r @ [last ys])"
    by (simp add: assign_tail_def py_tail_def)
  then show ?thesis
    by (simp add: np_roll_m1 py_tail_Suc0[OF assms(2)] xs ring_push_def)
qed

lemma unwrap_window_push:
  assumes k: "2 \<le> k" "k \<le> length xs"
    and pc: "phase_continuous (py_tail k xs)"
  shows "assign_tail k (ring_push xs w) (np_unwrap (py_tail k (ring_push xs w)))
           = Inr (ring_push xs (w + ph_correct (w - last xs)))"
proof -
  define t where "t = tl xs"
  define j where "j = length xs - k"
  define P where "P = drop j t"
  have lt: "length t = length xs - 1"
    by (simp add: t_def)
  have jt: "j < length t"
    using k lt by (simp add: j_def)
  have xne: "xs \<noteq> []"
    using k by auto
  have k0: "k \<noteq> 0"
    using k by simp
  have tail: "py_tail k (ring_push xs w) = P @ [w]"
    using jt k lt by (simp add: py_tail_def ring_push_def t_def[symmetric] P_def j_def)
  have "py_tail k xs = drop j xs"
    using k0 by (simp add: py_tail_def j_def)
  then have "phase_continuous (drop j xs)"
    using pc by simp
  then have "phase_continuous (tl (drop j xs))"
    by (rule phase_continuous_tl)
  then have pcP: "phase_continuous P"
    by (simp add: P_def t_def drop_Suc tl_drop)
  have Pne: "P \<noteq> []"
    using jt by (simp add: P_def)
  have lastP: "last P = last xs"
  proof -
    have "last P = last t"
      using jt by (simp add: P_def)
    also have "\<dots> = last xs"
    proof -
      have "tl xs \<noteq> []"
        using jt lt by (cases "tl xs") (auto simp: t_def)
      then show ?thesis
        by (simp add: t_def last_tl)
    qed
    finally show ?thesis .
  qed
  have uw: "np_unwrap (P @ [w]) = P @ [w + ph_correct (w - last xs)]"
    using np_unwrap_continuous[OF pcP Pne, of w] by (simp add: lastP)
  have lP: "length P = k - 1"
    using k lt by (simp add: P_def j_def)
  have at: "assign_tail k (t @ [w]) (P @ [w + ph_correct (w - last xs)])
          = Inr (take j t @ P @ [w + ph_correct (w - last xs)])"
    using k lt lP jt k0 by (simp add: assign_tail_def py_tail_def Let_def j_def)
  have tp: "take j t @ P = t"
    by (simp add: P_def)
  have "assign_tail k (t @ [w]) (P @ [w + ph_correct (w - last xs)])
          = Inr (t @ [w + ph_correct (w - last xs)])"
    using at tp by (metis append.assoc)
  then show ?thesis
    using tail uw by (simp add: ring_push_def t_def)
qed

lemma unwrap_window_last:
  assumes k: "2 \<le> k" "k \<le> length xs"
    and pc: "phase_continuous (py_tail k xs)"
  shows "last (np_unwrap (py_tail k (ring_push xs w))) = w + ph_correct (w - last xs)"
proof -
  define v where "v = w + ph_correct (w - last xs)"
  have xne: "xs \<noteq> []"
    using k by auto
  have k0: "k \<noteq> 0"
    using k by simp
  have l: "length (ring_push xs w) = length xs"
    using xne by simp
  have l': "length (ring_push xs v) = length xs"
    using xne by simp
  have lu: "length (np_unwrap (py_tail k (ring_push xs w))) = k"
    using k k0 l by (simp add: py_tail_def)
  from unwrap_window_push[OF k pc, of w]
  have a: "assign_tail k (ring_push xs w) (np_unwrap (py_tail k (ring_push xs w)))
             = Inr (ring_push xs v)"
    by (simp add: v_def)
  have "assign_tail k (ring_push xs w) (np_unwrap (py_tail k (ring_push xs w)))
          = Inr (take (length xs - k) (ring_push xs w) @ np_unwrap (py_tail k (ring_push xs w)))"
    using k k0 l lu by (simp add: assign_tail_def Let_def)
  with a have e: "take (length xs - k) (ring_push xs w) @ np_unwrap (py_tail k (ring_push xs w))
                  = ring_push xs v"
    by simp
  have ne: "np_unwrap (py_tail k (ring_push xs w)) \<noteq> []"
    using lu k0 by (metis list.size(3))
  have "last (take (length xs - k) (ring_push xs w) @ np_unwrap (py_tail k (ring_push xs w)))
          = last (np_unwrap (py_tail k (ring_push xs w)))"
    using ne by simp
  then have "last (np_unwrap (py_tail k (ring_push xs w))) = last (ring_push xs v)"
    by (simp only: e)
  then show ?thesis
    by (simp add: v_def)
qed

lemma unwrap_stage_wf:
  assumes c0: "counter s = 0"
    and ls: "slow_time_buffer_data s \<noteq> []"
    and lw: "wrapped_phase_plot s \<noteq> []"
    and lu: "processing_data_size \<le> length (unwrapped_phase_plot s)"
    and pc: "phase_continuous (py_tail processing_data_size (unwrapped_phase_plot s))"
  shows "unwrap_stage s =
     Inr (s\<lparr>counter := 1,
            wrapped_phase_plot :=
              ring_push (wrapped_phase_plot s) (Arg (last (slow_time_buffer_data s))),
            unwrapped_phase_plot :=
              ring_push (unwrapped_phase_plot s)
                (Arg (last (slow_time_buffer_data s))
                 + ph_correct (Arg (last (slow_time_buffer_data s))
                               - last (unwrapped_phase_plot s)))\<rparr>)"
proof -
  define w where "w = Arg (last (slow_time_buffer_data s))"
  have n1: "counter s + 1 = 1" "- int 1 = - 1"
    using c0 by simp_all
  have une: "unwrapped_phase_plot s \<noteq> []"
    using lu by (auto simp: processing_data_size_val)
  have wp: "map Arg (py_tail 1 (slow_time_buffer_data s)) = [w]"
    by (simp only: py_tail_one[OF ls] w_def list.map)
  have t1: "py_tail 1 [w] = [w]"
    by (simp add: py_tail_def)
  have t1': "py_tail (Suc 0) [w] = [w]"
    by (simp add: py_tail_def)
  have a1: "assign_tail 1 (np_roll (wrapped_phase_plot s) (- 1)) [w]
              = Inr (ring_push (wrapped_phase_plot s) w)"
    using assign_tail_push[OF lw, of "[w]"] by (simp add: t1')
  have t2: "py_tail 1 (ring_push (wrapped_phase_plot s) w) = [w]"
    by (simp only: py_tail_one[OF ring_push_nonempty] last_ring_push)
  have a2: "assign_tail 1 (np_roll (unwrapped_phase_plot s) (- 1)) [w]
              = Inr (ring_push (unwrapped_phase_plot s) w)"
    using assign_tail_push[OF une, of "[w]"] by (simp add: t1')
  have a3: "assign_tail processing_data_size (ring_push (unwrapped_phase_plot s) w)
              (np_unwrap (py_tail processing_data_size (ring_push (unwrapped_phase_plot s) w)))
            = Inr (ring_push (unwrapped_phase_plot s)
                     (w + ph_correct (w - last (unwrapped_phase_plot s))))"
    by (rule unwrap_window_push[OF _ lu pc]) (simp add: processing_data_size_val)
  show ?thesis
    unfolding w_def[symmetric]
    by (simp only: unwrap_stage_def Let_def n1 wp t1 a1 t2 a2 a3 bind_r_Inr)
qed

lemma length_lfilter [simp]: "length (lfilter b x) = length x"
  by (simp add: lfilter_def)

lemma length_blackmanharris [simp]: "length (blackmanharris M) = M"
  by (simp add: blackmanharris_def)

lemma length_np_fft [simp]: "length (np_fft xs) = length xs"
  by (simp add: np_fft_def)

lemma py_tail_length: "k \<le> length xs \<Longrightarrow> length (py_tail k xs) = (if k = 0 then length xs else k)"
  by (simp add: py_tail_def)

lemma filter_stage_wf:
  assumes c1: "counter s = 1"
    and wl: "wf_lib lib"
    and lu: "processing_data_size \<le> length (unwrapped_phase_plot s)"
    and lb: "filtered_breathing_plot s \<noteq> []"
    and lh: "filtered_heart_plot s \<noteq> []"
  shows "filter_stage lib c s =
     Inr (s\<lparr>filtered_breathing_plot :=
              ring_push (filtered_breathing_plot s)
                (last (breathing_filter lib c
                         (py_tail processing_data_size (unwrapped_phase_plot s)))),
            filtered_heart_plot :=
              ring_push (filtered_heart_plot s)
                (last (heart_filter lib c
                         (py_tail processing_data_size (unwrapped_phase_plot s))))\<rparr>)"
proof -
  define window where "window = py_tail processing_data_size (unwrapped_phase_plot s)"
  have lw: "length window = processing_data_size"
    using lu by (simp add: window_def py_tail_length processing_data_size_val)
  define fb0 where "fb0 = lfilter (breathing_b c) window"
  define wlen where "wlen = odd_window (min 51 (int processing_data_size - 2))"
  define fb1 where "fb1 = (if 5 < wlen then savgol_filter lib fb0 (nat wlen) 3 else fb0)"
  define fbr where "fbr = uniform_filter1d lib fb1 5"
  define cyc where "cyc = fst (hpfilter lib window (3 * real vital_signs_sample_rate))"
  define fhr where "fhr = lfilter (heart_b c) cyc"
  from wl have sg: "\<And>xs w p. length (savgol_filter lib xs w p) = length xs"
    and uf: "\<And>xs n. length (uniform_filter1d lib xs n) = length xs"
    and hp: "\<And>xs l. length (fst (hpfilter lib xs l)) = length xs"
    by (simp_all add: wf_lib_def)
  have "length fb1 = processing_data_size"
    by (simp add: fb1_def fb0_def sg lw)
  then have "length fbr = processing_data_size"
    by (simp add: fbr_def uf)
  then have fne: "fbr \<noteq> []"
    by (auto simp: processing_data_size_val)
  have "length fhr = processing_data_size"
    by (simp add: fhr_def cyc_def hp lw)
  then have hne: "fhr \<noteq> []"
    by (auto simp: processing_data_size_val)
  have n1: "- int 1 = - 1"
    by simp
  have a1: "assign_tail 1 (np_roll (filtered_breathing_plot s) (- 1)) (py_tail 1 fbr)
              = Inr (ring_push (filtered_breathing_plot s) (last fbr))"
    by (rule assign_tail_push[OF lb fne])
  have a2: "assign_tail 1 (np_roll (filtered_heart_plot s) (- 1)) (py_tail 1 fhr)
              = Inr (ring_push (filtered_heart_plot s) (last fhr))"
    by (rule assign_tail_push[OF lh hne])
  have e: "filter_stage lib c s =
     Inr (s\<lparr>filtered_breathing_plot := ring_push (filtered_breathing_plot s) (last fbr),
            filtered_heart_plot := ring_push (filtered_heart_plot s) (last fhr)\<rparr>)"
    unfolding filter_stage_def Let_def c1 n1
    unfolding window_def[symmetric] fb0_def[symmetric] wlen_def[symmetric]
      fb1_def[symmetric] fbr_def[symmetric] cyc_def[symmetric] fhr_def[symmetric]
    by (simp only: a1 a2 bind_r_Inr)
  have b: "breathing_filter lib c window = fbr"
    by (simp only: breathing_filter_def Let_def fbr_def fb1_def wlen_def fb0_def)
  have h: "heart_filter lib c window = fhr"
    by (simp only: heart_filter_def fhr_def cyc_def)
  show ?thesis
    unfolding window_def[symmetric] b h by (rule e)
qed

lemma vital_signs_fft_ok:
  assumes "length dat = n" and "n \<le> N"
  shows "\<exists>f. vital_signs_fft dat N n = Inr f \<and> length f = N"
  using assms by (simp add: vital_signs_fft_def np_multiply_def bind_r_def)

lemma spectrum_stage_wf:
  assumes "processing_data_size \<le> length (slow_time_buffer_data s)"
    and "processing_data_size \<le> length (unwrapped_phase_plot s)"
    and "processing_data_size \<le> length (filtered_breathing_plot s)"
    and "processing_data_size \<le> length (filtered_heart_plot s)"
  shows "\<exists>f1 f2 f3 f4. spectrum_stage s =
     Inr (s\<lparr>buffer_raw_I_Q_fft := f1, phase_unwrap_fft := f2,
            breathing_fft := f3, heart_fft := f4\<rparr>)
   \<and> vital_signs_fft
        (map complex_of_real (py_tail processing_data_size (filtered_breathing_plot s)))
        fft_size_vital_signs processing_data_size = Inr f3
   \<and> vital_signs_fft
        (map complex_of_real (py_tail processing_data_size (filtered_heart_plot s)))
        fft_size_vital_signs processing_data_size = Inr f4"
proof -
  have le: "processing_data_size \<le> fft_size_vital_signs"
    by (simp add: fft_size_vital_signs_def)
  have l: "\<And>xs. processing_data_size \<le> length xs \<Longrightarrow>
             length (py_tail processing_data_size xs) = processing_data_size"
    by (simp add: py_tail_length processing_data_size_val)
  obtain f1 where f1: "vital_signs_fft (py_tail processing_data_size (slow_time_buffer_data s))
        fft_size_vital_signs processing_data_size = Inr f1"
    using vital_signs_fft_ok[OF l[OF assms(1)] le] by blast
  obtain f2 where f2: "vital_signs_fft
        (map complex_of_real (py_tail processing_data_size (unwrapped_phase_plot s)))
        fft_size_vital_signs processing_data_size = Inr f2"
    using vital_signs_fft_ok[OF _ le, of "map complex_of_real
        (py_tail processing_data_size (unwrapped_phase_plot s))"] l[OF assms(2)] by auto
  obtain f3 where f3: "vital_signs_fft
        (map complex_of_real (py_tail processing_data_size (filtered_breathing_plot s)))
        fft_size_vital_signs processing_data_size = Inr f3"
    using vital_signs_fft_ok[OF _ le, of "map complex_of_real
        (py_tail processing_data_size (filtered_breathing_plot s))"] l[OF assms(3)] by auto
  obtain f4 where f4: "vital_signs_fft
        (map complex_of_real (py_tail processing_data_size (filtered_heart_plot s)))
        fft_size_vital_signs processing_data_size = Inr f4"
    using vital_signs_fft_ok[OF _ le, of "map complex_of_real
        (py_tail processing_data_size (filtered_heart_plot s))"] l[OF assms(4)] by auto
  have "spectrum_stage s =
     Inr (s\<lparr>buffer_raw_I_Q_fft := f1, phase_unwrap_fft := f2,
            breathing_fft := f3, heart_fft := f4\<rparr>)"
    by (simp only: spectrum_stage_def f1 f2 f3 f4 bind_r_Inr)
  with f3 f4 show ?thesis by blast
qed

lemma find_signal_peaks_total: "\<exists>r. find_signal_peaks sp a b d = Inr r"
proof -
  define region where "region = py_slice sp a b"
  define peaks where "peaks = find_peaks region
      (nat (py_int (max 1 (d * real fft_size_vital_signs / real vital_signs_sample_rate))))"
  show ?thesis
  proof (cases "peaks = []")
    case True
    then show ?thesis
      by (simp add: find_signal_peaks_def Let_def region_def[symmetric] peaks_def[symmetric])
  next
    case False
    then have "map (\<lambda>p. region ! p) peaks \<noteq> []" by simp
    from np_argmax_nonempty[OF this] obtain am
      where "np_argmax (map (\<lambda>p. region ! p) peaks) = Inr am" by blast
    with False show ?thesis
      by (simp add: find_signal_peaks_def Let_def region_def[symmetric] peaks_def[symmetric]
          bind_r_def)
  qed
qed

lemma find_signal_peaks_none:
  "find_peaks (py_slice sp a b)
     (nat (py_int (max 1 (d * real fft_size_vital_signs / real vital_signs_sample_rate)))) = []
   \<Longrightarrow> find_signal_peaks sp a b d = Inr 0"
  by (simp add: find_signal_peaks_def Let_def)

lemma rate_index_update_wf:
  assumes l: "2 \<le> length idx"
    and r: "find_signal_peaks sp a b peak_finding_distance = Inr r"
  shows "rate_index_update idx sp a b =
           Inr (ring_push idx (if r = 0 then last idx else real_of_int r), r)"
proof -
  have ne: "idx \<noteq> []"
    using l by auto
  have p1: "py_index (np_roll idx (- 1)) (- 2) = Inr (last idx)"
    by (rule roll_index_prev[OF l])
  have p2: "py_setitem (np_roll idx (- 1)) (- 1) (last idx) = Inr (ring_push idx (last idx))"
    by (rule roll_set_last[OF ne])
  have p3: "py_setitem (ring_push idx (last idx)) (- 1) (real_of_int r)
              = Inr (ring_push idx (real_of_int r))"
    by (simp add: py_setitem_last) (simp add: ring_push_def)
  show ?thesis
  proof (cases "r = 0")
    case True
    then show ?thesis
      using r by (simp only: rate_index_update_def Let_def p1 p2 bind_r_Inr) simp
  next
    case False
    then show ?thesis
      using r by (simp only: rate_index_update_def Let_def p1 p2 p3 bind_r_Inr) simp
  qed
qed

lemma rate_stage_wf:
  assumes "2 \<le> length (breathing_rate_estimation_index s)"
    and "2 \<le> length (heart_rate_estimation_index s)"
  shows "\<exists>rb rh.
     find_signal_peaks (breathing_fft s) (index_start_breathing c) (index_end_breathing c)
       peak_finding_distance = Inr rb
   \<and> find_signal_peaks (heart_fft s) (index_start_heart c) (index_end_heart c)
       peak_finding_distance = Inr rh
   \<and> rate_stage c s =
     Inr (s\<lparr>breathing_rate_estimation_index :=
              ring_push (breathing_rate_estimation_index s)
                (if rb = 0 then last (breathing_rate_estimation_index s) else real_of_int rb),
            rate_index_br := rb,
            heart_rate_estimation_index :=
              ring_push (heart_rate_estimation_index s)
                (if rh = 0 then last (heart_rate_estimation_index s) else real_of_int rh),
            rate_index_hr := rh\<rparr>)"
proof -
  obtain rb where rb: "find_signal_peaks (breathing_fft s) (index_start_breathing c)
      (index_end_breathing c) peak_finding_distance = Inr rb"
    using find_signal_peaks_total by blast
  obtain rh where rh: "find_signal_peaks (heart_fft s) (index_start_heart c)
      (index_end_heart c) peak_finding_distance = Inr rh"
    using find_signal_peaks_total by blast
  have "rate_stage c s =
     Inr (s\<lparr>breathing_rate_estimation_index :=
              ring_push (breathing_rate_estimation_index s)
                (if rb = 0 then last (breathing_rate_estimation_index s) else real_of_int rb),
            rate_index_br := rb,
            heart_rate_estimation_index :=
              ring_push (heart_rate_estimation_index s)
                (if rh = 0 then last (heart_rate_estimation_index s) else real_of_int rh),
            rate_index_hr := rh\<rparr>)"
    by (simp only: rate_stage_def rate_index_update_wf[OF assms(1) rb]
        rate_index_update_wf[OF assms(2) rh] bind_r_Inr prod.case)
  with rb rh show ?thesis by blast
qed

lemma detect_breath_cycles_skip:
  "counter s mod 5 \<noteq> 0 \<Longrightarrow> detect_breath_cycles lib s = Inr s"
  by (simp add: detect_breath_cycles_def)

lemma buffer_ge_window: "processing_data_size \<le> buffer_data_size"
  by (simp add: buffer_data_size_val processing_data_size_val)

lemma buffer_ge_2: "2 \<le> buffer_data_size"
  by (simp add: buffer_data_size_val)

lemma process_frame_effect:
  assumes ws: "wf_state s" and wl: "wf_lib lib" and g: "wf_gate c"
    and lp: "length prof = fft_size_range_profile div 2"
  shows "\<exists>pk smp uw fb fh f1 f2 f3 f4 rb rh.
      process_frame lib c prof s =
        Inr (s\<lparr>range_fft_abs := map cmod prof,
               slow_time_buffer_data := ring_push (slow_time_buffer_data s) smp,
               I_Q_envelop := ring_push (I_Q_envelop s) (cmod smp),
               range_profile_peak_indices := ring_push (range_profile_peak_indices s) pk,
               range_profile_peak_index :=
                 py_int (np_mean (py_tail (2 * vital_signs_sample_rate)
                                    (ring_push (range_profile_peak_indices s) pk))),
               wrapped_phase_plot := ring_push (wrapped_phase_plot s) (Arg smp),
               unwrapped_phase_plot := ring_push (unwrapped_phase_plot s) uw,
               filtered_breathing_plot := ring_push (filtered_breathing_plot s) fb,
               filtered_heart_plot := ring_push (filtered_heart_plot s) fh,
               buffer_raw_I_Q_fft := f1, phase_unwrap_fft := f2,
               breathing_fft := f3, heart_fft := f4,
               breathing_rate_estimation_index :=
                 ring_push (breathing_rate_estimation_index s)
                   (if rb = 0 then last (breathing_rate_estimation_index s)
                    else real_of_int rb),
               rate_index_br := rb,
               heart_rate_estimation_index :=
                 ring_push (heart_rate_estimation_index s)
                   (if rh = 0 then last (heart_rate_estimation_index s)
                    else real_of_int rh),
               rate_index_hr := rh,
               counter := 0\<rparr>)
    \<and> 0 \<le> pk \<and> pk \<le> real (fft_size_range_profile div 2 - 1)
    \<and> gate_peak c prof pk
    \<and> py_index prof (py_int (np_mean (py_tail (2 * vital_signs_sample_rate)
                                   (ring_push (range_profile_peak_indices s) pk)))) = Inr smp
    \<and> \<bar>uw - last (unwrapped_phase_plot s)\<bar> \<le> pi
    \<and> find_signal_peaks f3 (index_start_breathing c) (index_end_breathing c)
          peak_finding_distance = Inr rb
    \<and> find_signal_peaks f4 (index_start_heart c) (index_end_heart c)
          peak_finding_distance = Inr rh
    \<and> uw = last (np_unwrap (py_tail processing_data_size
                               (ring_push (unwrapped_phase_plot s) (Arg smp))))
    \<and> fb = last (breathing_filter lib c
                     (py_tail processing_data_size (ring_push (unwrapped_phase_plot s) uw)))
    \<and> fh = last (heart_filter lib c
                     (py_tail processing_data_size (ring_push (unwrapped_phase_plot s) uw)))
    \<and> vital_signs_fft
          (map complex_of_real
             (py_tail processing_data_size (ring_push (filtered_breathing_plot s) fb)))
          fft_size_vital_signs processing_data_size = Inr f3
    \<and> vital_signs_fft
          (map complex_of_real
             (py_tail processing_data_size (ring_push (filtered_heart_plot s) fh)))
          fft_size_vital_signs processing_data_size = Inr f4"
proof -
  from ws have len:
    "length (radar_time_stamp s) = buffer_data_size"
    "length (slow_time_buffer_data s) = buffer_data_size"
    "length (I_Q_envelop s) = buffer_data_size"
    "length (range_profile_peak_indices s) = buffer_data_size"
    "length (wrapped_phase_plot s) = buffer_data_size"
    "length (unwrapped_phase_plot s) = buffer_data_size"
    "length (filtered_breathing_plot s) = buffer_data_size"
    "length (filtered_heart_plot s) = buffer_data_size"
    "length (breathing_rate_estimation_index s) = buffer_data_size"
    "length (heart_rate_estimation_index s) = buffer_data_size"
    and c0: "counter s = 0"
    and bk: "list_all (\<lambda>v. 0 \<le> v \<and> v \<le> real (fft_size_range_profile div 2 - 1))
               (range_profile_peak_indices s)"
    and pc: "phase_continuous (py_tail processing_data_size (unwrapped_phase_plot s))"
    by (simp_all add: wf_state_def)
  have ne: "slow_time_buffer_data s \<noteq> []" "I_Q_envelop s \<noteq> []"
    "range_profile_peak_indices s \<noteq> []" "wrapped_phase_plot s \<noteq> []"
    "unwrapped_phase_plot s \<noteq> []" "filtered_breathing_plot s \<noteq> []"
    "filtered_heart_plot s \<noteq> []"
    using len by (auto simp: buffer_data_size_val)
  from track_range_wf[OF g lp ne(1) ne(2) ne(3) bk] obtain pk smp where
    e1: "track_range c prof s =
        Inr (s\<lparr>range_fft_abs := map cmod prof,
               slow_time_buffer_data := ring_push (slow_time_buffer_data s) smp,
               I_Q_envelop := ring_push (I_Q_envelop s) (cmod smp),
               range_profile_peak_indices := ring_push (range_profile_peak_indices s) pk,
               range_profile_peak_index :=
                 py_int (np_mean (py_tail (2 * vital_signs_sample_rate)
                                    (ring_push (range_profile_peak_indices s) pk)))\<rparr>)"
    and pk: "0 \<le> pk" "pk \<le> real (fft_size_range_profile div 2 - 1)"
      "gate_peak c prof pk"
    and ix: "py_index prof (py_int (np_mean (py_tail (2 * vital_signs_sample_rate)
                                   (ring_push (range_profile_peak_indices s) pk)))) = Inr smp"
    by blast
  define s1 where "s1 = s\<lparr>range_fft_abs := map cmod prof,
               slow_time_buffer_data := ring_push (slow_time_buffer_data s) smp,
               I_Q_envelop := ring_push (I_Q_envelop s) (cmod smp),
               range_profile_peak_indices := ring_push (range_profile_peak_indices s) pk,
               range_profile_peak_index :=
                 py_int (np_mean (py_tail (2 * vital_signs_sample_rate)
                                    (ring_push (range_profile_peak_indices s) pk)))\<rparr>"
  define uw where "uw = Arg smp + ph_correct (Arg smp - last (unwrapped_phase_plot s))"
  have ub: "\<bar>uw - last (unwrapped_phase_plot s)\<bar> \<le> pi"
    using ph_correct_bound[of "Arg smp - last (unwrapped_phase_plot s)"]
    by (simp add: uw_def algebra_simps)
  have ue: "uw = last (np_unwrap (py_tail processing_data_size
                               (ring_push (unwrapped_phase_plot s) (Arg smp))))"
    unfolding uw_def
    by (rule unwrap_window_last[symmetric, OF _ _ pc])
       (simp_all add: len processing_data_size_val buffer_data_size_val)
  have e2: "unwrap_stage s1 =
       Inr (s1\<lparr>counter := 1,
               wrapped_phase_plot := ring_push (wrapped_phase_plot s) (Arg smp),
               unwrapped_phase_plot := ring_push (unwrapped_phase_plot s) uw\<rparr>)"
    using unwrap_stage_wf[of s1] c0 ne len(6) pc buffer_ge_window
    by (simp add: s1_def uw_def)
  define s2 where "s2 = s1\<lparr>counter := 1,
               wrapped_phase_plot := ring_push (wrapped_phase_plot s) (Arg smp),
               unwrapped_phase_plot := ring_push (unwrapped_phase_plot s) uw\<rparr>"
  have l2: "length (unwrapped_phase_plot s2) = buffer_data_size"
    "length (slow_time_buffer_data s2) = buffer_data_size"
    using len ne by (simp_all add: s2_def s1_def)
  define fb where "fb = last (breathing_filter lib c
                     (py_tail processing_data_size (ring_push (unwrapped_phase_plot s) uw)))"
  define fh where "fh = last (heart_filter lib c
                     (py_tail processing_data_size (ring_push (unwrapped_phase_plot s) uw)))"
  have e3: "filter_stage lib c s2 =
       Inr (s2\<lparr>filtered_breathing_plot := ring_push (filtered_breathing_plot s) fb,
               filtered_heart_plot := ring_push (filtered_heart_plot s) fh\<rparr>)"
    using filter_stage_wf[of s2 lib c] wl l2 ne buffer_ge_window
    by (simp add: s2_def s1_def fb_def fh_def)
  define s3 where "s3 = s2\<lparr>filtered_breathing_plot := ring_push (filtered_breathing_plot s) fb,
               filtered_heart_plot := ring_push (filtered_heart_plot s) fh\<rparr>"
  have l3: "processing_data_size \<le> length (slow_time_buffer_data s3)"
    "processing_data_size \<le> length (unwrapped_phase_plot s3)"
    "processing_data_size \<le> length (filtered_breathing_plot s3)"
    "processing_data_size \<le> length (filtered_heart_plot s3)"
    using len ne buffer_ge_window by (simp_all add: s3_def s2_def s1_def)
  from spectrum_stage_wf[OF l3] obtain f1 f2 f3 f4 where
    e4: "spectrum_stage s3 =
       Inr (s3\<lparr>buffer_raw_I_Q_fft := f1, phase_unwrap_fft := f2,
               breathing_fft := f3, heart_fft := f4\<rparr>)"
    and v3: "vital_signs_fft
        (map complex_of_real (py_tail processing_data_size (filtered_breathing_plot s3)))
        fft_size_vital_signs processing_data_size = Inr f3"
    and v4: "vital_signs_fft
        (map complex_of_real (py_tail processing_data_size (filtered_heart_plot s3)))
        fft_size_vital_signs processing_data_size = Inr f4"
    by blast
  have v3': "vital_signs_fft
          (map complex_of_real
             (py_tail processing_data_size (ring_push (filtered_breathing_plot s) fb)))
          fft_size_vital_signs processing_data_size = Inr f3"
    using v3 by (simp add: s3_def)
  have v4': "vital_signs_fft
          (map complex_of_real
             (py_tail processing_data_size (ring_push (filtered_heart_plot s) fh)))
          fft_size_vital_signs processing_data_size = Inr f4"
    using v4 by (simp add: s3_def)
  define s4 where "s4 = s3\<lparr>buffer_raw_I_Q_fft := f1, phase_unwrap_fft := f2,
               breathing_fft := f3, heart_fft := f4\<rparr>"
  have l4: "2 \<le> length (breathing_rate_estimation_index s4)"
    "2 \<le> length (heart_rate_estimation_index s4)"
    using len buffer_ge_2 by (simp_all add: s4_def s3_def s2_def s1_def)
  from rate_stage_wf[OF l4, of c] obtain rb rh where
    rb: "find_signal_peaks f3 (index_start_breathing c) (index_end_breathing c)
       peak_finding_distance = Inr rb"
    and rh: "find_signal_peaks f4 (index_start_heart c) (index_end_heart c)
       peak_finding_distance = Inr rh"
    and e5: "rate_stage c s4 =
     Inr (s4\<lparr>breathing_rate_estimation_index :=
              ring_push (breathing_rate_estimation_index s)
                (if rb = 0 then last (breathing_rate_estimation_index s) else real_of_int rb),
            rate_index_br := rb,
            heart_rate_estimation_index :=
              ring_push (heart_rate_estimation_index s)
                (if rh = 0 then last (heart_rate_estimation_index s) else real_of_int rh),
            rate_index_hr := rh\<rparr>)"
    by (auto simp: s4_def s3_def s2_def s1_def)
  define s5 where "s5 = s4\<lparr>breathing_rate_estimation_index :=
              ring_push (breathing_rate_estimation_index s)
                (if rb = 0 then last (breathing_rate_estimation_index s) else real_of_int rb),
            rate_index_br := rb,
            heart_rate_estimation_index :=
              ring_push (heart_rate_estimation_index s)
                (if rh = 0 then last (heart_rate_estimation_index s) else real_of_int rh),
            rate_index_hr := rh\<rparr>"
  have e6: "detect_breath_cycles lib s5 = Inr s5"
    by (rule detect_breath_cycles_skip) (simp add: s5_def s4_def s3_def s2_def)
  have "process_frame lib c prof s = Inr (s5\<lparr>counter := 0\<rparr>)"
    unfolding process_frame_def
    by (simp only: e1 s1_def[symmetric] e2 s2_def[symmetric] e3 s3_def[symmetric]
        e4 s4_def[symmetric] e5 s5_def[symmetric] e6 bind_r_Inr)
  then have "process_frame lib c prof s =
        Inr (s\<lparr>range_fft_abs := map cmod prof,
               slow_time_buffer_data := ring_push (slow_time_buffer_data s) smp,
               I_Q_envelop := ring_push (I_Q_envelop s) (cmod smp),
               range_profile_peak_indices := ring_push (range_profile_peak_indices s) pk,
               range_profile_peak_index :=
                 py_int (np_mean (py_tail (2 * vital_signs_sample_rate)
                                    (ring_push (range_profile_peak_indices s) pk))),
               wrapped_phase_plot := ring_push (wrapped_phase_plot s) (Arg smp),
               unwrapped_phase_plot := ring_push (unwrapped_phase_plot s) uw,
               filtered_breathing_plot := ring_push (filtered_breathing_plot s) fb,
               filtered_heart_plot := ring_push (filtered_heart_plot s) fh,
               buffer_raw_I_Q_fft := f1, phase_unwrap_fft := f2,
               breathing_fft := f3, heart_fft := f4,
               breathing_rate_estimation_index :=
                 ring_push (breathing_rate_estimation_index s)
                   (if rb = 0 then last (breathing_rate_estimation_index s)
                    else real_of_int rb),
               rate_index_br := rb,
               heart_rate_estimation_index :=
                 ring_push (heart_rate_estimation_index s)
                   (if rh = 0 then last (heart_rate_estimation_index s)
                    else real_of_int rh),
               rate_index_hr := rh,
               counter := 0\<rparr>)"
    by (simp add: s5_def s4_def s3_def s2_def s1_def)
  with pk ix ub rb rh ue fb_def fh_def v3' v4' show ?thesis by blast
qed

subsection \<open>The range-FFT front end against the specification\<close>

lemma length_chirp_spectrum:
  "length row \<le> fft_size_range_profile \<Longrightarrow>
   length (chirp_spectrum row) = fft_size_range_profile div 2"
  by (simp add: chirp_spectrum_def Let_def)

lemma foldl_vadd:
  assumes "length acc = n" and "list_all (\<lambda>r. length r = n) rows"
  shows "foldl vadd acc rows = map (\<lambda>k. acc ! k + (\<Sum>r\<leftarrow>rows. r ! k)) [0..<n]"
  using assms
proof (induction rows arbitrary: acc)
  case Nil
  then show ?case by (auto intro: nth_equalityI)
next
  case (Cons r rows)
  have l: "length (vadd acc r) = n"
    using Cons.prems by (simp add: vadd_def)
  have "foldl vadd (vadd acc r) rows =
          map (\<lambda>k. vadd acc r ! k + (\<Sum>r\<leftarrow>rows. r ! k)) [0..<n]"
    using Cons.IH[OF l] Cons.prems(2) by simp
  also have "\<dots> = map (\<lambda>k. acc ! k + (\<Sum>r\<leftarrow>r # rows. r ! k)) [0..<n]"
    using Cons.prems by (auto simp: vadd_def add.assoc)
  finally show ?case by simp
qed

lemma np_sum_axis0_sum:
  "list_all (\<lambda>r. length r = n) rows \<Longrightarrow>
   np_sum_axis0 n rows = map (\<lambda>k. \<Sum>r\<leftarrow>rows. r ! k) [0..<n]"
  by (simp add: np_sum_axis0_def foldl_vadd)

lemma np_fft_n_full: "length p = n \<Longrightarrow> np_fft_n p n = np_fft p"
  by (simp add: np_fft_n_def)

lemma antenna_fft_wf:
  assumes "list_all (\<lambda>row. length row = samples_per_chirp) mat"
  shows "antenna_fft samples_per_chirp mat =
           Inr (map (\<lambda>k. \<Sum>row\<leftarrow>mat. chirp_spectrum row ! k)
                  [0..<fft_size_range_profile div 2])"
proof -
  have le: "\<not> fft_size_range_profile < samples_per_chirp"
    by (simp add: fft_size_range_profile_def)
  have row: "map (\<lambda>z. 2 * z) (take (fft_size_range_profile div 2)
                 (map (\<lambda>z. z / of_nat samples_per_chirp)
                   (np_fft_n (map2 (\<lambda>x wn. x * complex_of_real wn)
                                (map (\<lambda>x. x - np_mean_c row) row)
                                (blackmanharris samples_per_chirp)
                              @ replicate (fft_size_range_profile - samples_per_chirp) 0)
                      fft_size_range_profile)))
             = chirp_spectrum row"
    if "length row = samples_per_chirp" for row
  proof -
    have "length (map2 (\<lambda>x wn. x * complex_of_real wn)
                                (map (\<lambda>x. x - np_mean_c row) row)
                                (blackmanharris samples_per_chirp)
                              @ replicate (fft_size_range_profile - samples_per_chirp) 0)
          = fft_size_range_profile"
      using that by (simp add: fft_size_range_profile_def)
    then show ?thesis
      using that by (simp add: np_fft_n_full chirp_spectrum_def Let_def take_map)
  qed
  have rows: "map (\<lambda>row. map (\<lambda>z. 2 * z) (take (fft_size_range_profile div 2) row))
      (map (\<lambda>row. map (\<lambda>z. z / of_nat samples_per_chirp)
                     (np_fft_n row fft_size_range_profile))
        (map (\<lambda>row. row @ replicate (fft_size_range_profile - samples_per_chirp) 0)
          (map (\<lambda>row. map2 (\<lambda>x wn. x * complex_of_real wn) row
                              (blackmanharris samples_per_chirp))
            (map (\<lambda>row. map (\<lambda>x. x - np_mean_c row) row) mat))))
      = map chirp_spectrum mat"
    using assms row by (simp add: list_all_iff)
  have la: "list_all (\<lambda>r. length r = fft_size_range_profile div 2) (map chirp_spectrum mat)"
    using assms by (simp add: list_all_iff length_chirp_spectrum fft_size_range_profile_def)
  have "antenna_fft samples_per_chirp mat =
          Inr (np_sum_axis0 (fft_size_range_profile div 2) (map chirp_spectrum mat))"
    unfolding antenna_fft_def Let_def by (simp only: le if_False rows)
  then show ?thesis
    by (simp add: np_sum_axis0_sum[OF la] comp_def)
qed

lemma antenna_loop_sum:
  assumes "length buf = n"
    and "list_all (\<lambda>i. i < length fr \<and> antenna_fft S (fr ! i) = Inr (T (fr ! i))
                       \<and> length (T (fr ! i)) = n) idxs"
  shows "antenna_loop fr S idxs buf =
           Inr (map (\<lambda>k. buf ! k + (\<Sum>i\<leftarrow>idxs. T (fr ! i) ! k)) [0..<n])"
  using assms
proof (induction idxs arbitrary: buf)
  case Nil
  then show ?case by (auto intro: nth_equalityI)
next
  case (Cons i idxs)
  from Cons.prems(2) have i: "i < length fr" "antenna_fft S (fr ! i) = Inr (T (fr ! i))"
    "length (T (fr ! i)) = n" and rest: "list_all (\<lambda>i. i < length fr
       \<and> antenna_fft S (fr ! i) = Inr (T (fr ! i)) \<and> length (T (fr ! i)) = n) idxs"
    by simp_all
  have l: "length (vadd (T (fr ! i)) buf) = n"
    using Cons.prems(1) i(3) by (simp add: vadd_def)
  have "antenna_loop fr S (i # idxs) buf = antenna_loop fr S idxs (vadd (T (fr ! i)) buf)"
    using i by (simp add: bind_r_def)
  also have "\<dots> = Inr (map (\<lambda>k. vadd (T (fr ! i)) buf ! k + (\<Sum>i\<leftarrow>idxs. T (fr ! i) ! k))
                          [0..<n])"
    by (rule Cons.IH[OF l rest])
  also have "map (\<lambda>k. vadd (T (fr ! i)) buf ! k + (\<Sum>i\<leftarrow>idxs. T (fr ! i) ! k)) [0..<n]
             = map (\<lambda>k. buf ! k + (\<Sum>i\<leftarrow>i # idxs. T (fr ! i) ! k)) [0..<n]"
    using Cons.prems(1) i(3) by (auto simp: vadd_def algebra_simps)
  finally show ?case .
qed

lemma wf_frame_shape:
  assumes "wf_frame fr"
  shows "\<exists>C. np_shape3 fr = Inr (num_rx_antennas, C, samples_per_chirp)"
proof -
  from assms have l: "length fr = num_rx_antennas"
    and a: "list_all (\<lambda>m. m \<noteq> [] \<and> length m = length (hd fr)
                   \<and> list_all (\<lambda>row. length row = samples_per_chirp) m) fr"
    by (simp_all add: wf_frame_def)
  from l obtain m ms where fr: "fr = m # ms"
    by (cases fr) (auto simp: num_rx_antennas_def)
  with a obtain r rs where m: "m = r # rs" and "length r = samples_per_chirp"
    by (cases m) auto
  then show ?thesis
    using l by (simp add: np_shape3_def fr)
qed

lemma calc_range_fft_wf:
  assumes "wf_frame fr"
  shows "calc_range_fft (fr # q) = Inr (NdArray (spec_range_profile fr), q)"
proof -
  define n where "n = fft_size_range_profile div 2"
  define T where "T = (\<lambda>mat. map (\<lambda>k. \<Sum>row\<leftarrow>mat. chirp_spectrum row ! k) [0..<n])"
  from assms have l: "length fr = num_rx_antennas"
    and a: "list_all (\<lambda>m. m \<noteq> [] \<and> length m = length (hd fr)
                   \<and> list_all (\<lambda>row. length row = samples_per_chirp) m) fr"
    by (simp_all add: wf_frame_def)
  obtain C where sh: "np_shape3 fr = Inr (num_rx_antennas, C, samples_per_chirp)"
    using wf_frame_shape[OF assms] by blast
  have each: "list_all (\<lambda>i. i < length fr
        \<and> antenna_fft samples_per_chirp (fr ! i) = Inr (T (fr ! i))
        \<and> length (T (fr ! i)) = n) [0..<num_rx_antennas]"
  proof -
    have "antenna_fft samples_per_chirp (fr ! i) = Inr (T (fr ! i))" if "i < length fr" for i
    proof -
      have "list_all (\<lambda>row. length row = samples_per_chirp) (fr ! i)"
        using a that by (simp add: list_all_length)
      then show ?thesis
        unfolding T_def n_def by (rule antenna_fft_wf)
    qed
    then show ?thesis
      by (simp add: list_all_iff l T_def)
  qed
  have lz: "length (replicate n (0::complex)) = n"
    by simp
  have loop: "antenna_loop fr samples_per_chirp [0..<num_rx_antennas] (replicate n 0)
        = Inr (map (\<lambda>k. replicate n 0 ! k + (\<Sum>i\<leftarrow>[0..<num_rx_antennas]. T (fr ! i) ! k))
                 [0..<n])"
    by (rule antenna_loop_sum[OF lz each])
  have reindex: "(\<Sum>i\<leftarrow>[0..<num_rx_antennas]. T (fr ! i) ! k) = (\<Sum>mat\<leftarrow>fr. T mat ! k)" for k
  proof -
    have "map (\<lambda>i. T (fr ! i) ! k) [0..<length fr] = map (\<lambda>mat. T mat ! k) fr"
      by (rule nth_equalityI) simp_all
    then show ?thesis
      by (simp add: l)
  qed
  have final: "map (\<lambda>z. z / of_nat num_rx_antennas)
           (map (\<lambda>k. replicate n 0 ! k + (\<Sum>i\<leftarrow>[0..<num_rx_antennas]. T (fr ! i) ! k)) [0..<n])
        = spec_range_profile fr"
  proof -
    have "map (\<lambda>z. z / of_nat num_rx_antennas)
           (map (\<lambda>k. replicate n 0 ! k + (\<Sum>i\<leftarrow>[0..<num_rx_antennas]. T (fr ! i) ! k)) [0..<n])
          = map (\<lambda>k. (\<Sum>mat\<leftarrow>fr. T mat ! k) / of_nat (length fr)) [0..<n]"
      by (simp add: reindex l)
    also have "\<dots> = spec_range_profile fr"
      unfolding spec_range_profile_def n_def[symmetric] by (simp add: T_def)
    finally show ?thesis .
  qed
  have q: "fr # q \<noteq> []" "hd (fr # q) = fr" "tl (fr # q) = q"
    by simp_all
  show ?thesis
    unfolding calc_range_fft_def n_def[symmetric]
    by (simp only: q if_True Let_def sh bind_r_Inr prod.case loop final) simp
qed

lemma length_spec_range_profile [simp]:
  "length (spec_range_profile fr) = fft_size_range_profile div 2"
  by (simp add: spec_range_profile_def)

subsection \<open>One iteration of the loop\<close>

lemma last_drop_tail: "k < length xs \<Longrightarrow> last (drop k xs) = last xs"
  by simp

lemma phase_continuous_push_tail:
  assumes k: "2 \<le> k" "k \<le> length xs"
    and pc: "phase_continuous (py_tail k xs)"
    and d: "\<bar>v - last xs\<bar> \<le> pi"
  shows "phase_continuous (py_tail k (ring_push xs v))"
proof -
  define j where "j = length xs - k"
  have k0: "k \<noteq> 0" using k by simp
  have xne: "xs \<noteq> []" using k by auto
  have jl: "Suc j < length xs" using k by (simp add: j_def)
  have "py_tail k xs = drop j xs"
    using k0 by (simp add: py_tail_def j_def)
  with pc have "phase_continuous (drop j xs)" by simp
  then have "phase_continuous (tl (drop j xs))" by (rule phase_continuous_tl)
  then have p: "phase_continuous (drop (Suc j) xs)" by (simp add: drop_Suc tl_drop)
  have ne: "drop (Suc j) xs \<noteq> []" using jl by simp
  have la: "last (drop (Suc j) xs) = last xs" using jl by simp
  have "py_tail k (ring_push xs v) = drop (Suc j) xs @ [v]"
    using k xne jl by (simp add: py_tail_def ring_push_def j_def drop_Suc tl_drop)
  moreover have "phase_continuous (drop (Suc j) xs @ [v])"
    using p ne d by (intro phase_continuous_snoc) (simp_all add: la)
  ultimately show ?thesis by simp
qed

lemma process_data_cycle_explicit:
  assumes ws: "wf_state s" and wl: "wf_lib lib" and wi: "wf_input inp"
  shows "\<exists>pk smp uw fb fh f1 f2 f3 f4 rb rh.
      process_data_cycle lib inp s =
        Inr (s\<lparr>data_queue := tl (data_queue s @ arrivals inp),
               start_time := current_time inp,
               radar_time_stamp := ring_push (radar_time_stamp s)
                 (last (radar_time_stamp s) + (current_time inp - start_time s)),
               range_fft_abs :=
                 map cmod (spec_range_profile (hd (data_queue s @ arrivals inp))),
               slow_time_buffer_data := ring_push (slow_time_buffer_data s) smp,
               I_Q_envelop := ring_push (I_Q_envelop s) (cmod smp),
               range_profile_peak_indices := ring_push (range_profile_peak_indices s) pk,
               range_profile_peak_index :=
                 py_int (np_mean (py_tail (2 * vital_signs_sample_rate)
                                    (ring_push (range_profile_peak_indices s) pk))),
               wrapped_phase_plot := ring_push (wrapped_phase_plot s) (Arg smp),
               unwrapped_phase_plot := ring_push (unwrapped_phase_plot s) uw,
               filtered_breathing_plot := ring_push (filtered_breathing_plot s) fb,
               filtered_heart_plot := ring_push (filtered_heart_plot s) fh,
               buffer_raw_I_Q_fft := f1, phase_unwrap_fft := f2,
               breathing_fft := f3, heart_fft := f4,
               breathing_rate_estimation_index :=
                 ring_push (breathing_rate_estimation_index s)
                   (if rb = 0 then last (breathing_rate_estimation_index s)
                    else real_of_int rb),
               rate_index_br := rb,
               heart_rate_estimation_index :=
                 ring_push (heart_rate_estimation_index s)
                   (if rh = 0 then last (heart_rate_estimation_index s)
                    else real_of_int rh),
               rate_index_hr := rh,
               counter := 0\<rparr>)
    \<and> 0 \<le> pk \<and> pk \<le> real (fft_size_range_profile div 2 - 1)
    \<and> gate_peak (cfg inp) (spec_range_profile (hd (data_queue s @ arrivals inp))) pk
    \<and> py_index (spec_range_profile (hd (data_queue s @ arrivals inp)))
          (py_int (np_mean (py_tail (2 * vital_signs_sample_rate)
                              (ring_push (range_profile_peak_indices s) pk)))) = Inr smp
    \<and> \<bar>uw - last (unwrapped_phase_plot s)\<bar> \<le> pi
    \<and> find_signal_peaks f3 (index_start_breathing (cfg inp)) (index_end_breathing (cfg inp))
          peak_finding_distance = Inr rb
    \<and> find_signal_peaks f4 (index_start_heart (cfg inp)) (index_end_heart (cfg inp))
          peak_finding_distance = Inr rh
    \<and> calc_range_fft (data_queue s @ arrivals inp)
        = Inr (NdArray (spec_range_profile (hd (data_queue s @ arrivals inp))),
               tl (data_queue s @ arrivals inp))
    \<and> uw = last (np_unwrap (py_tail processing_data_size
                               (ring_push (unwrapped_phase_plot s) (Arg smp))))
    \<and> fb = last (breathing_filter lib (cfg inp)
                     (py_tail processing_data_size (ring_push (unwrapped_phase_plot s) uw)))
    \<and> fh = last (heart_filter lib (cfg inp)
                     (py_tail processing_data_size (ring_push (unwrapped_phase_plot s) uw)))
    \<and> vital_signs_fft
          (map complex_of_real
             (py_tail processing_data_size (ring_push (filtered_breathing_plot s) fb)))
          fft_size_vital_signs processing_data_size = Inr f3
    \<and> vital_signs_fft
          (map complex_of_real
             (py_tail processing_data_size (ring_push (filtered_heart_plot s) fh)))
          fft_size_vital_signs processing_data_size = Inr f4"
proof -
  define q where "q = data_queue s @ arrivals inp"
  define sq where "sq = s\<lparr>data_queue := q\<rparr>"
  from wi have ane: "arrivals inp \<noteq> []" and afr: "list_all wf_frame (arrivals inp)"
    and g: "wf_gate (cfg inp)"
    by (simp_all add: wf_input_def)
  have qne: "q \<noteq> []"
    using ane by (simp add: q_def)
  from ws have qfr: "list_all wf_frame (data_queue s)"
    by (simp add: wf_state_def)
  have "list_all wf_frame q"
    using qfr afr by (simp add: q_def)
  with qne have hfr: "wf_frame (hd q)"
    by (cases q) auto
  have lts: "2 \<le> length (radar_time_stamp sq)"
    using ws buffer_ge_2 by (simp add: wf_state_def sq_def)
  define s1 where "s1 = sq\<lparr>start_time := current_time inp,
      radar_time_stamp := ring_push (radar_time_stamp s)
         (last (radar_time_stamp s) + (current_time inp - start_time s))\<rparr>"
  have e1: "stamp_time (current_time inp) sq = Inr s1"
    using stamp_time_wf[OF lts, of "current_time inp"] by (simp add: s1_def sq_def)
  have q1: "data_queue s1 = hd q # tl q"
    using qne by (simp add: s1_def sq_def)
  have e2: "calc_range_fft (data_queue s1) = Inr (NdArray (spec_range_profile (hd q)), tl q)"
    unfolding q1 by (rule calc_range_fft_wf[OF hfr])
  define s2 where "s2 = s1\<lparr>data_queue := tl q\<rparr>"
  have ws2: "wf_state s2"
  proof -
    have "list_all wf_frame (tl q)"
      using \<open>list_all wf_frame q\<close> by (cases q) auto
    moreover have "radar_time_stamp s \<noteq> []"
      using ws by (auto simp: wf_state_def buffer_data_size_val)
    ultimately show ?thesis
      using ws by (simp add: wf_state_def s2_def s1_def sq_def)
  qed
  have e3: "on_range_fft lib (cfg inp) (NdArray (spec_range_profile (hd q)), tl q) s1
            = process_frame lib (cfg inp) (spec_range_profile (hd q)) s2"
    by (simp add: on_range_fft_def is_not_None_def s2_def)
  have cyc: "process_data_cycle lib inp s
            = process_frame lib (cfg inp) (spec_range_profile (hd q)) s2"
    unfolding process_data_cycle_def Let_def q_def[symmetric] sq_def[symmetric]
    using qne by (simp add: sq_def[symmetric] e1 bind_r_Inr e2 e3) (simp add: sq_def)
  have f2: "radar_time_stamp s2 = ring_push (radar_time_stamp s)
                 (last (radar_time_stamp s) + (current_time inp - start_time s))"
    "slow_time_buffer_data s2 = slow_time_buffer_data s"
    "I_Q_envelop s2 = I_Q_envelop s"
    "range_profile_peak_indices s2 = range_profile_peak_indices s"
    "wrapped_phase_plot s2 = wrapped_phase_plot s"
    "unwrapped_phase_plot s2 = unwrapped_phase_plot s"
    "filtered_breathing_plot s2 = filtered_breathing_plot s"
    "filtered_heart_plot s2 = filtered_heart_plot s"
    "breathing_rate_estimation_index s2 = breathing_rate_estimation_index s"
    "heart_rate_estimation_index s2 = heart_rate_estimation_index s"
    by (simp_all add: s2_def s1_def sq_def)
  from process_frame_effect[OF ws2 wl g length_spec_range_profile, of "hd q"]
  obtain pk smp uw fb fh f1 f2 f3 f4 rb rh where
    pf: "process_frame lib (cfg inp) (spec_range_profile (hd q)) s2 =
        Inr (s2\<lparr>range_fft_abs := map cmod (spec_range_profile (hd q)),
               slow_time_buffer_data := ring_push (slow_time_buffer_data s2) smp,
               I_Q_envelop := ring_push (I_Q_envelop s2) (cmod smp),
               range_profile_peak_indices := ring_push (range_profile_peak_indices s2) pk,
               range_profile_peak_index :=
                 py_int (np_mean (py_tail (2 * vital_signs_sample_rate)
                                    (ring_push (range_profile_peak_indices s2) pk))),
               wrapped_phase_plot := ring_push (wrapped_phase_plot s2) (Arg smp),
               unwrapped_phase_plot := ring_push (unwrapped_phase_plot s2) uw,
               filtered_breathing_plot := ring_push (filtered_breathing_plot s2) fb,
               filtered_heart_plot := ring_push (filtered_heart_plot s2) fh,
               buffer_raw_I_Q_fft := f1, phase_unwrap_fft := f2,
               breathing_fft := f3, heart_fft := f4,
               breathing_rate_estimation_index :=
                 ring_push (breathing_rate_estimation_index s2)
                   (if rb = 0 then last (breathing_rate_estimation_index s2)
                    else real_of_int rb),
               rate_index_br := rb,
               heart_rate_estimation_index :=
                 ring_push (heart_rate_estimation_index s2)
                   (if rh = 0 then last (heart_rate_estimation_index s2)
                    else real_of_int rh),
               rate_index_hr := rh,
               counter := 0\<rparr>)"
    and pk: "0 \<le> pk" "pk \<le> real (fft_size_range_profile div 2 - 1)"
    and gp: "gate_peak (cfg inp) (spec_range_profile (hd q)) pk"
    and ix: "py_index (spec_range_profile (hd q))
               (py_int (np_mean (py_tail (2 * vital_signs_sample_rate)
                                   (ring_push (range_profile_peak_indices s2) pk)))) = Inr smp"
    and ub: "\<bar>uw - last (unwrapped_phase_plot s2)\<bar> \<le> pi"
    and rb: "find_signal_peaks f3 (index_start_breathing (cfg inp))
               (index_end_breathing (cfg inp)) peak_finding_distance = Inr rb"
    and rh: "find_signal_peaks f4 (index_start_heart (cfg inp))
               (index_end_heart (cfg inp)) peak_finding_distance = Inr rh"
    and ue: "uw = last (np_unwrap (py_tail processing_data_size
                               (ring_push (unwrapped_phase_plot s2) (Arg smp))))"
    and fbe: "fb = last (breathing_filter lib (cfg inp)
                     (py_tail processing_data_size (ring_push (unwrapped_phase_plot s2) uw)))"
    and fhe: "fh = last (heart_filter lib (cfg inp)
                     (py_tail processing_data_size (ring_push (unwrapped_phase_plot s2) uw)))"
    and v3: "vital_signs_fft
          (map complex_of_real
             (py_tail processing_data_size (ring_push (filtered_breathing_plot s2) fb)))
          fft_size_vital_signs processing_data_size = Inr f3"
    and v4: "vital_signs_fft
          (map complex_of_real
             (py_tail processing_data_size (ring_push (filtered_heart_plot s2) fh)))
          fft_size_vital_signs processing_data_size = Inr f4"
    by blast
  have "process_data_cycle lib inp s =
        Inr (s\<lparr>data_queue := tl (data_queue s @ arrivals inp),
               start_time := current_time inp,
               radar_time_stamp := ring_push (radar_time_stamp s)
                 (last (radar_time_stamp s) + (current_time inp - start_time s)),
               range_fft_abs :=
                 map cmod (spec_range_profile (hd (data_queue s @ arrivals inp))),
               slow_time_buffer_data := ring_push (slow_time_buffer_data s) smp,
               I_Q_envelop := ring_push (I_Q_envelop s) (cmod smp),
               range_profile_peak_indices := ring_push (range_profile_peak_indices s) pk,
               range_profile_peak_index :=
                 py_int (np_mean (py_tail (2 * vital_signs_sample_rate)
                                    (ring_push (range_profile_peak_indices s) pk))),
               wrapped_phase_plot := ring_push (wrapped_phase_plot s) (Arg smp),
               unwrapped_phase_plot := ring_push (unwrapped_phase_plot s) uw,
               filtered_breathing_plot := ring_push (filtered_breathing_plot s) fb,
               filtered_heart_plot := ring_push (filtered_heart_plot s) fh,
               buffer_raw_I_Q_fft := f1, phase_unwrap_fft := f2,
               breathing_fft := f3, heart_fft := f4,
               breathing_rate_estimation_index :=
                 ring_push (breathing_rate_estimation_index s)
                   (if rb = 0 then last (breathing_rate_estimation_index s)
                    else real_of_int rb),
               rate_index_br := rb,
               heart_rate_estimation_index :=
                 ring_push (heart_rate_estimation_index s)
                   (if rh = 0 then last (heart_rate_estimation_index s)
                    else real_of_int rh),
               rate_index_hr := rh,
               counter := 0\<rparr>)"
    unfolding cyc pf f2 by (simp add: s2_def s1_def sq_def q_def)
  moreover note pk
  moreover have "gate_peak (cfg inp) (spec_range_profile (hd (data_queue s @ arrivals inp))) pk"
    using gp by (simp add: q_def)
  moreover have "py_index (spec_range_profile (hd (data_queue s @ arrivals inp)))
          (py_int (np_mean (py_tail (2 * vital_signs_sample_rate)
                              (ring_push (range_profile_peak_indices s) pk)))) = Inr smp"
    using ix by (simp add: f2 q_def)
  moreover have "\<bar>uw - last (unwrapped_phase_plot s)\<bar> \<le> pi"
    using ub by (simp add: f2)
  moreover note rb rh
  moreover have "calc_range_fft (data_queue s @ arrivals inp)
        = Inr (NdArray (spec_range_profile (hd (data_queue s @ arrivals inp))),
               tl (data_queue s @ arrivals inp))"
  proof -
    have h: "hd q # tl q = q"
      using qne by simp
    from e2 have "calc_range_fft q = Inr (NdArray (spec_range_profile (hd q)), tl q)"
      by (simp only: q1 h)
    then show ?thesis
      by (simp only: q_def)
  qed
  moreover note ue[unfolded f2] fbe[unfolded f2] fhe[unfolded f2] v3[unfolded f2] v4[unfolded f2]
  ultimately show ?thesis by blast
qed

lemma process_data_cycle_effect:
  assumes ws: "wf_state s" and wl: "wf_lib lib" and wi: "wf_input inp"
  shows "\<exists>pk smp uw fb fh f1 f2 f3 f4 rb rh.
      process_data_cycle lib inp s =
        Inr (s\<lparr>data_queue := tl (data_queue s @ arrivals inp),
               start_time := current_time inp,
               radar_time_stamp := ring_push (radar_time_stamp s)
                 (last (radar_time_stamp s) + (current_time inp - start_time s)),
               range_fft_abs :=
                 map cmod (spec_range_profile (hd (data_queue s @ arrivals inp))),
               slow_time_buffer_data := ring_push (slow_time_buffer_data s) smp,
               I_Q_envelop := ring_push (I_Q_envelop s) (cmod smp),
               range_profile_peak_indices := ring_push (range_profile_peak_indices s) pk,
               range_profile_peak_index :=
                 py_int (np_mean (py_tail (2 * vital_signs_sample_rate)
                                    (ring_push (range_profile_peak_indices s) pk))),
               wrapped_phase_plot := ring_push (wrapped_phase_plot s) (Arg smp),
               unwrapped_phase_plot := ring_push (unwrapped_phase_plot s) uw,
               filtered_breathing_plot := ring_push (filtered_breathing_plot s) fb,
               filtered_heart_plot := ring_push (filtered_heart_plot s) fh,
               buffer_raw_I_Q_fft := f1, phase_unwrap_fft := f2,
               breathing_fft := f3, heart_fft := f4,
               breathing_rate_estimation_index :=
                 ring_push (breathing_rate_estimation_index s)
                   (if rb = 0 then last (breathing_rate_estimation_index s)
                    else real_of_int rb),
               rate_index_br := rb,
               heart_rate_estimation_index :=
                 ring_push (heart_rate_estimation_index s)
                   (if rh = 0 then last (heart_rate_estimation_index s)
                    else real_of_int rh),
               rate_index_hr := rh,
               counter := 0\<rparr>)
    \<and> 0 \<le> pk \<and> pk \<le> real (fft_size_range_profile div 2 - 1)
    \<and> gate_peak (cfg inp) (spec_range_profile (hd (data_queue s @ arrivals inp))) pk
    \<and> py_index (spec_range_profile (hd (data_queue s @ arrivals inp)))
          (py_int (np_mean (py_tail (2 * vital_signs_sample_rate)
                              (ring_push (range_profile_peak_indices s) pk)))) = Inr smp
    \<and> \<bar>uw - last (unwrapped_phase_plot s)\<bar> \<le> pi
    \<and> find_signal_peaks f3 (index_start_breathing (cfg inp)) (index_end_breathing (cfg inp))
          peak_finding_distance = Inr rb
    \<and> find_signal_peaks f4 (index_start_heart (cfg inp)) (index_end_heart (cfg inp))
          peak_finding_distance = Inr rh"
  using process_data_cycle_explicit[OF assms] by blast

lemma py_index_nonneg: "py_index xs i = Inr v \<Longrightarrow> 0 \<le> i \<Longrightarrow> v = xs ! nat i"
  by (simp add: py_index_def Let_def split: if_splits)

subsection \<open>Runs, the rate estimate, the presence gate, the callbacks\<close>

lemma process_data_cycle_wf:
  assumes ws: "wf_state s" and wl: "wf_lib lib" and wi: "wf_input inp"
  shows "\<exists>s'. process_data_cycle lib inp s = Inr s' \<and> wf_state s'
              \<and> ring_step lib inp s s'"
proof -
  from process_data_cycle_explicit[OF ws wl wi]
  obtain pk smp uw fb fh f1 f2 f3 f4 rb rh s' where
    s': "s' = s\<lparr>data_queue := tl (data_queue s @ arrivals inp),
               start_time := current_time inp,
               radar_time_stamp := ring_push (radar_time_stamp s)
                 (last (radar_time_stamp s) + (current_time inp - start_time s)),
               range_fft_abs :=
                 map cmod (spec_range_profile (hd (data_queue s @ arrivals inp))),
               slow_time_buffer_data := ring_push (slow_time_buffer_data s) smp,
               I_Q_envelop := ring_push (I_Q_envelop s) (cmod smp),
               range_profile_peak_indices := ring_push (range_profile_peak_indices s) pk,
               range_profile_peak_index :=
                 py_int (np_mean (py_tail (2 * vital_signs_sample_rate)
                                    (ring_push (range_profile_peak_indices s) pk))),
               wrapped_phase_plot := ring_push (wrapped_phase_plot s) (Arg smp),
               unwrapped_phase_plot := ring_push (unwrapped_phase_plot s) uw,
               filtered_breathing_plot := ring_push (filtered_breathing_plot s) fb,
               filtered_heart_plot := ring_push (filtered_heart_plot s) fh,
               buffer_raw_I_Q_fft := f1, phase_unwrap_fft := f2,
               breathing_fft := f3, heart_fft := f4,
               breathing_rate_estimation_index :=
                 ring_push (breathing_rate_estimation_index s)
                   (if rb = 0 then last (breathing_rate_estimation_index s)
                    else real_of_int rb),
               rate_index_br := rb,
               heart_rate_estimation_index :=
                 ring_push (heart_rate_estimation_index s)
                   (if rh = 0 then last (heart_rate_estimation_index s)
                    else real_of_int rh),
               rate_index_hr := rh,
               counter := 0\<rparr>"
    and e: "process_data_cycle lib inp s = Inr s'"
    and pk: "0 \<le> pk" "pk \<le> real (fft_size_range_profile div 2 - 1)"
    and gp: "gate_peak (cfg inp) (spec_range_profile (hd (data_queue s @ arrivals inp))) pk"
    and ix: "py_index (spec_range_profile (hd (data_queue s @ arrivals inp)))
          (py_int (np_mean (py_tail (2 * vital_signs_sample_rate)
                              (ring_push (range_profile_peak_indices s) pk)))) = Inr smp"
    and ub: "\<bar>uw - last (unwrapped_phase_plot s)\<bar> \<le> pi"
    and rb: "find_signal_peaks f3 (index_start_breathing (cfg inp))
               (index_end_breathing (cfg inp)) peak_finding_distance = Inr rb"
    and rh: "find_signal_peaks f4 (index_start_heart (cfg inp))
               (index_end_heart (cfg inp)) peak_finding_distance = Inr rh"
    and cf: "calc_range_fft (data_queue s @ arrivals inp)
        = Inr (NdArray (spec_range_profile (hd (data_queue s @ arrivals inp))),
               tl (data_queue s @ arrivals inp))"
    and ue: "uw = last (np_unwrap (py_tail processing_data_size
                               (ring_push (unwrapped_phase_plot s) (Arg smp))))"
    and fbe: "fb = last (breathing_filter lib (cfg inp)
                     (py_tail processing_data_size (ring_push (unwrapped_phase_plot s) uw)))"
    and fhe: "fh = last (heart_filter lib (cfg inp)
                     (py_tail processing_data_size (ring_push (unwrapped_phase_plot s) uw)))"
    and v3: "vital_signs_fft
          (map complex_of_real
             (py_tail processing_data_size (ring_push (filtered_breathing_plot s) fb)))
          fft_size_vital_signs processing_data_size = Inr f3"
    and v4: "vital_signs_fft
          (map complex_of_real
             (py_tail processing_data_size (ring_push (filtered_heart_plot s) fh)))
          fft_size_vital_signs processing_data_size = Inr f4"
    by blast
  from ws have len:
    "length (radar_time_stamp s) = buffer_data_size"
    "length (slow_time_buffer_data s) = buffer_data_size"
    "length (I_Q_envelop s) = buffer_data_size"
    "length (range_profile_peak_indices s) = buffer_data_size"
    "length (wrapped_phase_plot s) = buffer_data_size"
    "length (unwrapped_phase_plot s) = buffer_data_size"
    "length (filtered_breathing_plot s) = buffer_data_size"
    "length (filtered_heart_plot s) = buffer_data_size"
    "length (breathing_rate_estimation_index s) = buffer_data_size"
    "length (heart_rate_estimation_index s) = buffer_data_size"
    and qf: "list_all wf_frame (data_queue s)"
    and bk: "list_all (\<lambda>v. 0 \<le> v \<and> v \<le> real (fft_size_range_profile div 2 - 1))
               (range_profile_peak_indices s)"
    and pc: "phase_continuous (py_tail processing_data_size (unwrapped_phase_plot s))"
    by (simp_all add: wf_state_def)
  have ne: "radar_time_stamp s \<noteq> []" "slow_time_buffer_data s \<noteq> []" "I_Q_envelop s \<noteq> []"
    "range_profile_peak_indices s \<noteq> []" "wrapped_phase_plot s \<noteq> []"
    "unwrapped_phase_plot s \<noteq> []" "filtered_breathing_plot s \<noteq> []"
    "filtered_heart_plot s \<noteq> []" "breathing_rate_estimation_index s \<noteq> []"
    "heart_rate_estimation_index s \<noteq> []"
    using len by (auto simp: buffer_data_size_val)
  have q: "list_all wf_frame (tl (data_queue s @ arrivals inp))"
  proof -
    have "list_all wf_frame (data_queue s @ arrivals inp)"
      using qf wi by (simp add: wf_input_def)
    then show ?thesis
      by (cases "data_queue s @ arrivals inp") auto
  qed
  have b: "list_all (\<lambda>v. 0 \<le> v \<and> v \<le> real (fft_size_range_profile div 2 - 1))
             (ring_push (range_profile_peak_indices s) pk)"
    using bk pk by (intro list_all_ring_push) simp_all
  have p: "phase_continuous (py_tail processing_data_size
             (ring_push (unwrapped_phase_plot s) uw))"
    by (rule phase_continuous_push_tail[OF _ _ pc ub])
       (simp_all add: len processing_data_size_val buffer_data_size_val)
  have w: "wf_state s'"
    unfolding wf_state_def s' using len ne q b p by simp
  have cp: "cycle_profile inp s = spec_range_profile (hd (data_queue s @ arrivals inp))"
    by (simp add: cycle_profile_def cf)
  have pp: "pushed_peak_index inp s = pk"
    using gp by (auto simp: pushed_peak_index_def cp gate_peak_def)
  have tb: "tracked_bin inp s
            = py_int (np_mean (py_tail (2 * vital_signs_sample_rate)
                                 (ring_push (range_profile_peak_indices s) pk)))"
    by (simp only: tracked_bin_def pp)
  have m0: "0 \<le> np_mean (py_tail (2 * vital_signs_sample_rate)
              (ring_push (range_profile_peak_indices s) pk))"
    using np_mean_bounds[OF py_tail_nonempty[OF ring_push_nonempty] list_all_py_tail[OF b]]
    by simp
  have t0: "0 \<le> tracked_bin inp s"
    using m0 by (simp add: tb py_int_def)
  have ps: "pushed_sample inp s = smp"
    using py_index_nonneg[OF ix[folded tb] t0] by (simp add: pushed_sample_def cp)
  have pu: "pushed_unwrapped inp s = uw"
    by (simp only: pushed_unwrapped_def ps ue)
  have uwn: "unwrapped_window inp s
             = py_tail processing_data_size (ring_push (unwrapped_phase_plot s) uw)"
    by (simp only: unwrapped_window_def pu)
  have pb: "pushed_breathing lib inp s = fb"
    by (simp only: pushed_breathing_def uwn fbe)
  have ph: "pushed_heart lib inp s = fh"
    by (simp only: pushed_heart_def uwn fhe)
  have pbi: "pushed_breathing_index lib inp s
             = (if rb = 0 then last (breathing_rate_estimation_index s) else real_of_int rb)"
    by (simp add: pushed_breathing_index_def peak_or_held_def pb v3 rb)
  have phi: "pushed_heart_index lib inp s
             = (if rh = 0 then last (heart_rate_estimation_index s) else real_of_int rh)"
    by (simp add: pushed_heart_index_def peak_or_held_def ph v4 rh)
  have r: "ring_step lib inp s s'"
    unfolding ring_step_def s'
    by (simp add: pushed_time_stamp_def ps pp pu pb ph pbi phi)
  from e w r show ?thesis by blast
qed

lemma process_data_Cons:
  "process_data lib (inp # inps) s = Inr tr \<longleftrightarrow>
     (\<exists>s' tr'. process_data_cycle lib inp s = Inr s' \<and> process_data lib inps s' = Inr tr'
              \<and> tr = s' # tr')"
  by (auto simp: bind_r_def split: sum.splits)

lemma pushed_run_last: "pushed_run buf s tr vs \<Longrightarrow> vs = map (\<lambda>s. last (buf s)) tr"
  by (induction buf s tr vs rule: pushed_run.induct) simp_all

lemma fifo_chain:
  assumes "pushed_run buf s0 tr vs" and "buf s0 \<noteq> []"
  shows "list_all (\<lambda>s. length (buf s) = length (buf s0)) (s0 # tr)
       \<and> (length tr \<le> length (buf s0) \<longrightarrow>
            buf (last (s0 # tr)) = drop (length tr) (buf s0) @ vs)"
  using assms
proof (induction buf s0 tr vs rule: pushed_run.induct)
  case (1 buf s)
  then show ?case by simp
next
  case (2 buf s s' tr v vs)
  from "2.prems"(1) have st: "buf s' = tl (buf s) @ [v]" and rest: "pushed_run buf s' tr vs"
    by simp_all
  have l1: "length (buf s') = length (buf s)"
    using "2.prems"(2) by (cases "buf s") (simp_all add: st)
  have ne1: "buf s' \<noteq> []"
    by (simp add: st)
  note ih = "2.IH"[OF rest ne1]
  have b: "list_all (\<lambda>x. length (buf x) = length (buf s)) (s # s' # tr)"
    using ih l1 by simp
  have c: "buf (last (s # s' # tr)) = drop (length (s' # tr)) (buf s) @ v # vs"
    if le: "length (s' # tr) \<le> length (buf s)"
  proof -
    have le': "length tr \<le> length (buf s')"
      using le l1 by simp
    have "buf (last (s' # tr)) = drop (length tr) (buf s') @ vs"
      using ih le' by blast
    moreover have "drop (length tr) (buf s') = drop (Suc (length tr)) (buf s) @ [v]"
    proof -
      have "length tr \<le> length (tl (buf s))"
        using le by simp
      then have "drop (length tr) (tl (buf s) @ [v]) = drop (length tr) (tl (buf s)) @ [v]"
        by simp
      then show ?thesis
        by (simp add: st drop_Suc)
    qed
    ultimately show ?thesis by simp
  qed
  from b c show ?case by blast
qed simp_all

lemma fifo_afterI:
  assumes "pushed_run buf s0 tr vs" and "length (buf s0) = buffer_data_size"
  shows "fifo_after buf s0 tr vs"
proof -
  have ne: "buf s0 \<noteq> []"
    using assms(2) by (auto simp: buffer_data_size_val)
  from fifo_chain[OF assms(1) ne] assms show ?thesis
    by (simp add: fifo_after_def)
qed

lemma process_data_run:
  assumes "wf_state s0" and "wf_lib lib" and "list_all wf_input inps"
  shows "\<exists>tr. process_data lib inps s0 = Inr tr \<and> length tr = length inps
             \<and> list_all wf_state tr \<and> ring_run lib s0 inps tr"
  using assms
proof (induction inps arbitrary: s0)
  case Nil
  then show ?case by simp
next
  case (Cons inp inps)
  from Cons.prems have wi: "wf_input inp" and wr: "list_all wf_input inps"
    by simp_all
  from process_data_cycle_wf[OF Cons.prems(1,2) wi] obtain s1
    where c: "process_data_cycle lib inp s0 = Inr s1" and w1: "wf_state s1"
      and r1: "ring_step lib inp s0 s1"
    by blast
  from Cons.IH[OF w1 Cons.prems(2) wr] obtain tr
    where t: "process_data lib inps s1 = Inr tr" and l: "length tr = length inps"
      and w: "list_all wf_state tr" and r: "ring_run lib s1 inps tr"
    by blast
  have "process_data lib (inp # inps) s0 = Inr (s1 # tr)"
    using c t by (simp add: bind_r_def)
  with l w w1 r r1 show ?case by simp
qed

lemma ring_run_pushed:
  assumes "ring_run lib s0 inps tr"
    and "\<And>inp s s'. ring_step lib inp s s' \<Longrightarrow> buf s' = ring_push (buf s) (f inp s)"
  shows "pushed_run buf s0 tr (pushed_values f s0 tr inps)"
  using assms(1)
proof (induction inps arbitrary: s0 tr)
  case Nil
  then show ?case by (cases tr) simp_all
next
  case (Cons inp inps)
  then obtain s' tr' where tr: "tr = s' # tr'" and st: "ring_step lib inp s0 s'"
    and rest: "ring_run lib s' inps tr'"
    by (cases tr) simp_all
  from assms(2)[OF st] Cons.IH[OF rest] show ?case
    by (simp add: tr ring_push_def)
qed

lemma py_round_bounds: "x - 1 / 2 \<le> real_of_int (py_round x) \<and> real_of_int (py_round x) \<le> x + 1 / 2"
  unfolding py_round_def Let_def by (auto; linarith)

lemma length_x_axis: "length x_axis_vital_signs_spectrum = fft_size_vital_signs"
  by (simp add: x_axis_vital_signs_spectrum_def np_linspace_def)

lemma x_axis_nth:
  "j < fft_size_vital_signs \<Longrightarrow>
   x_axis_vital_signs_spectrum ! j =
     - real vital_signs_sample_rate / 2
     + real j * (real vital_signs_sample_rate / real (fft_size_vital_signs - 1))"
  by (simp add: x_axis_vital_signs_spectrum_def np_linspace_def)

lemma rate_value_update_emit:
  assumes wi: "wf_rate_index idx est" and el: "est < buffer_data_size"
    and pos: "0 < idx ! est" and vne: "val \<noteq> []"
  shows "rate_value_update idx est val = Inr (ring_push val (displayed_rate (drop est idx)))"
proof -
  from wi have li: "length idx = buffer_data_size"
    and b: "list_all (\<lambda>v. 0 \<le> v \<and> v \<le> real (fft_size_vital_signs div 2 - 1)) (drop est idx)"
    by (simp_all add: wf_rate_index_def)
  have i0: "py_index idx (int est) = Inr (idx ! est)"
    using el li by (simp add: py_index_def)
  have dne: "drop est idx \<noteq> []"
    using el li by simp
  have mb: "0 \<le> np_mean (drop est idx)
            \<and> np_mean (drop est idx) \<le> real (fft_size_vital_signs div 2 - 1)"
    using dne b by (rule np_mean_bounds)
  define j where "j = py_round (real fft_size_vital_signs / 2 + np_mean (drop est idx))"
  have jb: "real fft_size_vital_signs / 2 + np_mean (drop est idx) - 1 / 2 \<le> real_of_int j"
    "real_of_int j \<le> real fft_size_vital_signs / 2 + np_mean (drop est idx) + 1 / 2"
    using py_round_bounds[of "real fft_size_vital_signs / 2 + np_mean (drop est idx)"]
    by (simp_all add: j_def)
  have j0: "0 \<le> j"
    using jb(1) mb by (simp add: fft_size_vital_signs_val)
  have "real_of_int j \<le> 1599 + 1 / 2"
    using jb(2) mb by (simp add: fft_size_vital_signs_val)
  then have "j \<le> 1599"
    by linarith
  then have j1: "j < int fft_size_vital_signs"
    by (simp add: fft_size_vital_signs_val)
  have jn: "nat j < fft_size_vital_signs"
    using j0 j1 by simp
  have ix: "py_index x_axis_vital_signs_spectrum j
            = Inr (- real vital_signs_sample_rate / 2
                   + real_of_int j
                     * (real vital_signs_sample_rate / real (fft_size_vital_signs - 1)))"
    using j0 j1 x_axis_nth[OF jn] by (simp add: py_index_def length_x_axis)
  have st: "py_setitem (np_roll val (- 1)) (- 1) v = Inr (ring_push val v)" for v
    by (rule roll_set_last[OF vne])
  show ?thesis
    unfolding rate_value_update_def
    using pos by (simp only: i0 bind_r_Inr if_True j_def[symmetric] ix st)
                 (simp add: displayed_rate_def j_def mult.commute)
qed

lemma rate_value_update_hold:
  assumes "est < length idx" and "\<not> 0 < idx ! est"
  shows "rate_value_update idx est val = Inr val"
  using assms by (simp add: rate_value_update_def py_index_def bind_r_def)

lemma update_plots_estimation_wf:
  assumes "wf_rate_index (breathing_rate_estimation_index s) estimation_index_breathing"
    and "wf_rate_index (heart_rate_estimation_index s) estimation_index_heart"
    and "breathing_rate_estimation_value g \<noteq> []"
    and "heart_rate_estimation_value g \<noteq> []"
  shows "update_plots_estimation s g =
     Inr (g\<lparr>breathing_rate_estimation_value :=
              (if 0 < breathing_rate_estimation_index s ! estimation_index_breathing
               then ring_push (breathing_rate_estimation_value g)
                      (displayed_rate (drop estimation_index_breathing
                                         (breathing_rate_estimation_index s)))
               else breathing_rate_estimation_value g),
            heart_rate_estimation_value :=
              (if 0 < heart_rate_estimation_index s ! estimation_index_heart
               then ring_push (heart_rate_estimation_value g)
                      (displayed_rate (drop estimation_index_heart
                                         (heart_rate_estimation_index s)))
               else heart_rate_estimation_value g)\<rparr>)"
proof -
  have e: "estimation_index_breathing < buffer_data_size"
    "estimation_index_heart < buffer_data_size"
    by (simp_all add: estimation_index_val buffer_data_size_val)
  have lb: "estimation_index_breathing < length (breathing_rate_estimation_index s)"
    using assms(1) e by (simp add: wf_rate_index_def)
  have lh: "estimation_index_heart < length (heart_rate_estimation_index s)"
    using assms(2) e by (simp add: wf_rate_index_def)
  have b: "rate_value_update (breathing_rate_estimation_index s) estimation_index_breathing
             (breathing_rate_estimation_value g)
           = Inr (if 0 < breathing_rate_estimation_index s ! estimation_index_breathing
               then ring_push (breathing_rate_estimation_value g)
                      (displayed_rate (drop estimation_index_breathing
                                         (breathing_rate_estimation_index s)))
               else breathing_rate_estimation_value g)"
    using rate_value_update_emit[OF assms(1) e(1) _ assms(3)]
      rate_value_update_hold[OF lb] by simp
  have h: "rate_value_update (heart_rate_estimation_index s) estimation_index_heart
             (heart_rate_estimation_value g)
           = Inr (if 0 < heart_rate_estimation_index s ! estimation_index_heart
               then ring_push (heart_rate_estimation_value g)
                      (displayed_rate (drop estimation_index_heart
                                         (heart_rate_estimation_index s)))
               else heart_rate_estimation_value g)"
    using rate_value_update_emit[OF assms(2) e(2) _ assms(4)]
      rate_value_update_hold[OF lh] by simp
  show ?thesis
    unfolding update_plots_estimation_def ENABLE_ESTIMATION_PLOT_def
    by (simp only: if_True b h bind_r_Inr)
qed

lemma np_mean_replicate: "0 < n \<Longrightarrow> np_mean (replicate n x) = x"
  by (simp add: np_mean_def sum_list_replicate)

lemma displayed_rate_25: "displayed_rate (replicate 100 25) = 17"
  by (simp add: displayed_rate_def np_mean_replicate fft_size_vital_signs_val
      vital_signs_sample_rate_val py_round_def Let_def)

lemma displayed_rate_100: "displayed_rate (replicate 100 100) = 73"
  by (simp add: displayed_rate_def np_mean_replicate fft_size_vital_signs_val
      vital_signs_sample_rate_val py_round_def Let_def)

lemma displayed_rate_23: "displayed_rate (replicate 100 23) = 16"
  by (simp add: displayed_rate_def np_mean_replicate fft_size_vital_signs_val
      vital_signs_sample_rate_val py_round_def Let_def)

lemma spec_rate_23: "spec_rate (replicate 100 23) = 61 / 4"
  by (simp add: spec_rate_def np_mean_replicate fft_size_vital_signs_val
      vital_signs_sample_rate_val)

lemma wf_rate_index_replicate:
  "0 \<le> v \<Longrightarrow> v \<le> 799 \<Longrightarrow> wf_rate_index (replicate buffer_data_size v) est"
  by (simp add: wf_rate_index_def list_all_iff fft_size_vital_signs_val)

lemma firwin_ok:
  assumes "0 < lo" and "lo < hi" and "hi < 1"
  shows "\<exists>b. firwin n lo hi = Inr b \<and> length b = n"
  using assms by (simp add: firwin_def Let_def hamming_def)

lemma band_changed_breathing:
  "\<not> (fst region < real vital_signs_sample_rate / 4
      \<and> snd region < real vital_signs_sample_rate / 2
      \<and> 0 < fst region \<and> 0 < snd region)
   \<Longrightarrow> linear_region_breathing_changed region c = Inr c"
  unfolding linear_region_breathing_changed_def by (rule if_not_P)

lemma band_rebuilt_breathing:
  assumes "0 < lo" and "lo < hi" and "lo < real vital_signs_sample_rate / 4"
    and "hi < real vital_signs_sample_rate / 2"
  shows "\<exists>b. firwin filter_order (lo / nyquist_freq) (hi / nyquist_freq) = Inr b
       \<and> linear_region_breathing_changed (lo, hi) c =
           Inr (c\<lparr>low_breathing := lo, high_breathing := hi, breathing_b := b,
                  index_start_breathing := band_index lo,
                  index_end_breathing := band_index hi\<rparr>)"
proof -
  have n: "nyquist_freq = 10"
    by (simp add: nyquist_freq_def vital_signs_sample_rate_val)
  have "0 < lo / nyquist_freq" "lo / nyquist_freq < hi / nyquist_freq" "hi / nyquist_freq < 1"
    using assms by (simp_all add: n vital_signs_sample_rate_val)
  from firwin_ok[OF this] obtain b
    where b: "firwin filter_order (lo / nyquist_freq) (hi / nyquist_freq) = Inr b"
    by blast
  have "linear_region_breathing_changed (lo, hi) c =
           Inr (c\<lparr>low_breathing := lo, high_breathing := hi, breathing_b := b,
                  index_start_breathing := band_index lo,
                  index_end_breathing := band_index hi\<rparr>)"
    using assms b by (simp add: linear_region_breathing_changed_def bind_r_def)
  with b show ?thesis by blast
qed

lemma band_changed_heart:
  "\<not> (fst region < real vital_signs_sample_rate / 4
      \<and> snd region < real vital_signs_sample_rate / 2
      \<and> 0 < fst region \<and> 0 < snd region)
   \<Longrightarrow> linear_region_heart_changed region c = Inr c"
  unfolding linear_region_heart_changed_def by (rule if_not_P)

lemma band_rebuilt_heart:
  assumes "0 < lo" and "lo < hi" and "lo < real vital_signs_sample_rate / 4"
    and "hi < real vital_signs_sample_rate / 2"
  shows "\<exists>b. firwin filter_order (lo / nyquist_freq) (hi / nyquist_freq) = Inr b
       \<and> linear_region_heart_changed (lo, hi) c =
           Inr (c\<lparr>low_heart := lo, high_heart := hi, heart_b := b,
                  index_start_heart := band_index lo,
                  index_end_heart := band_index hi\<rparr>)"
proof -
  have n: "nyquist_freq = 10"
    by (simp add: nyquist_freq_def vital_signs_sample_rate_val)
  have "0 < lo / nyquist_freq" "lo / nyquist_freq < hi / nyquist_freq" "hi / nyquist_freq < 1"
    using assms by (simp_all add: n vital_signs_sample_rate_val)
  from firwin_ok[OF this] obtain b
    where b: "firwin filter_order (lo / nyquist_freq) (hi / nyquist_freq) = Inr b"
    by blast
  have "linear_region_heart_changed (lo, hi) c =
           Inr (c\<lparr>low_heart := lo, high_heart := hi, heart_b := b,
                  index_start_heart := band_index lo,
                  index_end_heart := band_index hi\<rparr>)"
    using assms b by (simp add: linear_region_heart_changed_def bind_r_def)
  with b show ?thesis by blast
qed

lemma band_not_increasing:
  assumes "0 < hi" and "hi \<le> lo" and "lo < real vital_signs_sample_rate / 4"
  shows "linear_region_breathing_changed (lo, hi) c
           = Inl (ValueError, c\<lparr>low_breathing := lo, high_breathing := hi\<rparr>)"
    and "linear_region_heart_changed (lo, hi) c
           = Inl (ValueError, c\<lparr>low_heart := lo, high_heart := hi\<rparr>)"
proof -
  have n: "nyquist_freq = 10"
    by (simp add: nyquist_freq_def vital_signs_sample_rate_val)
  have f: "firwin filter_order (lo / nyquist_freq) (hi / nyquist_freq) = Inl ValueError"
    using assms by (simp add: firwin_def n)
  have g: "fst (lo, hi) < real vital_signs_sample_rate / 4
         \<and> snd (lo, hi) < real vital_signs_sample_rate / 2
         \<and> 0 < fst (lo, hi) \<and> 0 < snd (lo, hi)"
    using assms by (simp add: vital_signs_sample_rate_val)
  show "linear_region_breathing_changed (lo, hi) c
           = Inl (ValueError, c\<lparr>low_breathing := lo, high_breathing := hi\<rparr>)"
    unfolding linear_region_breathing_changed_def
    by (simp only: g if_True) (simp add: f Let_def)
  show "linear_region_heart_changed (lo, hi) c
           = Inl (ValueError, c\<lparr>low_heart := lo, high_heart := hi\<rparr>)"
    unfolding linear_region_heart_changed_def
    by (simp only: g if_True) (simp add: f Let_def)
qed

lemma index_of_edge_band_index: "0 \<le> edge \<Longrightarrow> index_of_edge edge (band_index edge)"
proof -
  assume e: "0 \<le> edge"
  define x where "x = edge / real vital_signs_sample_rate * real fft_size_vital_signs"
  have x0: "0 \<le> x"
    using e by (simp add: x_def)
  have b: "band_index edge = \<lfloor>x\<rfloor>"
    using x0 by (simp add: band_index_def py_int_def x_def)
  have d: "(0::real) < 1 / 10 ^ 9"
    by simp
  have "real_of_int \<lfloor>x\<rfloor> \<le> x" "x < real_of_int \<lfloor>x\<rfloor> + 1"
    by linarith+
  with d have "real_of_int \<lfloor>x\<rfloor> \<le> x + 1 / 10 ^ 9 \<and> x - 1 / 10 ^ 9 < real_of_int \<lfloor>x\<rfloor> + 1"
    by linarith
  then show ?thesis
    unfolding index_of_edge_def b x_def .
qed

lemma band_index_vals: "band_index 6 = 480" "band_index 0.85 = 68" "band_index 0.15 = 12"
  by (simp_all add: band_index_def py_int_def vital_signs_sample_rate_val fft_size_vital_signs_val)

subsection \<open>Concrete states and inputs are well formed\<close>

lemma phase_continuous_replicate: "phase_continuous (replicate n x)"
proof (induction n)
  case 0
  then show ?case by simp
next
  case (Suc n)
  then show ?case by (cases n) simp_all
qed

lemma wf_init_pstate: "wf_state (init_pstate t0)"
  by (simp add: wf_state_def init_pstate_def list_all_iff py_tail_def
      phase_continuous_replicate)

lemma wf_id_lib: "wf_lib id_lib"
  by (simp add: wf_lib_def id_lib_def)

lemma wf_peak_lib: "wf_lib peak_lib"
  by (simp add: wf_lib_def peak_lib_def id_lib_def)

lemma wf_zero_frame: "wf_frame zero_frame"
  by (simp add: wf_frame_def zero_frame_def list_all_iff num_rx_antennas_def)

lemma init_gate: "start_index_range (init_config 1) = 32" "stop_index_range (init_config 1) = 38"
  by (simp_all add: start_index_range_def stop_index_range_def init_config_def py_int_def
      fft_size_range_profile_val)

lemma wf_gate_init: "wf_gate (init_config 1)"
  by (simp add: wf_gate_def init_gate) (simp add: init_config_def fft_size_range_profile_val)

lemma wf_demo_input: "wf_input demo_input"
  by (simp add: wf_input_def demo_input_def wf_zero_frame wf_gate_init)

lemma wf_hop_state: "wf_state hop_state"
  by (simp add: wf_state_def hop_state_def init_pstate_def list_all_iff py_tail_def
      phase_continuous_replicate fft_size_range_profile_val)

lemma one_bin_gate:
  "start_index_range (cfg one_bin_input) = 32" "stop_index_range (cfg one_bin_input) = 33"
  by (simp_all add: start_index_range_def stop_index_range_def one_bin_input_def
      init_config_def py_int_def fft_size_range_profile_val)

lemma wf_one_bin_input: "wf_input one_bin_input"
proof -
  have "wf_gate (cfg one_bin_input)"
    by (simp add: wf_gate_def one_bin_gate)
       (simp add: one_bin_input_def init_config_def fft_size_range_profile_val)
  moreover have "arrivals one_bin_input = [zero_frame]"
    by (simp add: one_bin_input_def demo_input_def)
  ultimately show ?thesis
    by (simp add: wf_input_def wf_zero_frame)
qed

lemma hop_mean:
  "np_mean (py_tail (2 * vital_signs_sample_rate) (ring_push (replicate buffer_data_size 37) 32))
   = 295 / 8"
  by (simp add: ring_push_def py_tail_def buffer_data_size_val vital_signs_sample_rate_val
      np_mean_def sum_list_replicate)

lemma np_var_replicate: "np_var (replicate n x) = 0"
proof (cases "n = 0")
  case True
  then show ?thesis by (simp add: np_var_def np_mean_def)
next
  case False
  then have "np_mean (replicate n x) = x"
    by (simp add: np_mean_replicate)
  then show ?thesis
    using False by (simp add: np_var_def np_mean_replicate)
qed

lemma breathing_state_var:
  "np_var (py_tail (5 * vital_signs_sample_rate) (filtered_breathing_plot breathing_state))
   = 99 / 10000"
  by (simp add: breathing_state_def py_tail_def vital_signs_sample_rate_val
      buffer_data_size_val np_var_def np_mean_def sum_list_replicate power2_eq_square)

lemma emitting_paced_state: "emitting paced_state"
proof -
  have b: "wf_rate_index (breathing_rate_estimation_index paced_state) estimation_index_breathing"
    unfolding paced_state_def by (simp add: wf_rate_index_replicate)
  have h: "wf_rate_index (heart_rate_estimation_index paced_state) estimation_index_heart"
    unfolding paced_state_def by (simp add: wf_rate_index_replicate)
  have pb: "0 < breathing_rate_estimation_index paced_state ! estimation_index_breathing"
    "0 < heart_rate_estimation_index paced_state ! estimation_index_heart"
    by (simp_all add: paced_state_def estimation_index_val buffer_data_size_val)
  from b h pb show ?thesis
    unfolding emitting_def by blast
qed

lemma wf_init_gstate: "wf_gstate init_gstate"
  by (simp add: wf_gstate_def init_gstate_def)

subsection \<open>Invariants of one iteration and of a run\<close>

lemma cycle_points_unchanged:
  assumes "wf_state s" and "wf_lib lib" and "wf_input inp"
    and "process_data_cycle lib inp s = Inr s'"
  shows "inhalation_points_x s' = inhalation_points_x s
       \<and> inhalation_points_y s' = inhalation_points_y s
       \<and> exhalation_points_x s' = exhalation_points_x s
       \<and> exhalation_points_y s' = exhalation_points_y s
       \<and> counter s' = 0"
  using process_data_cycle_effect[OF assms(1,2,3)] assms(4) by auto

lemma cycle_wf_state:
  assumes "wf_state s" and "wf_lib lib" and "wf_input inp"
    and "process_data_cycle lib inp s = Inr s'"
  shows "wf_state s'" and "ring_step lib inp s s'"
  using process_data_cycle_wf[OF assms(1,2,3)] assms(4) by auto

lemma cycle_hold_breathing:
  assumes "wf_state s" and "wf_lib lib" and "wf_input inp"
    and "process_data_cycle lib inp s = Inr s'"
    and "no_peak (breathing_fft s') (index_start_breathing (cfg inp))
           (index_end_breathing (cfg inp))"
  shows "last (breathing_rate_estimation_index s') = last (breathing_rate_estimation_index s)"
proof -
  from process_data_cycle_effect[OF assms(1,2,3)] assms(4)
  obtain f3 rb where
    r: "find_signal_peaks f3 (index_start_breathing (cfg inp)) (index_end_breathing (cfg inp))
          peak_finding_distance = Inr rb"
    and f: "breathing_fft s' = f3"
      "breathing_rate_estimation_index s' =
         ring_push (breathing_rate_estimation_index s)
           (if rb = 0 then last (breathing_rate_estimation_index s) else real_of_int rb)"
    by auto
  from assms(5) have "find_signal_peaks f3 (index_start_breathing (cfg inp))
      (index_end_breathing (cfg inp)) peak_finding_distance = Inr 0"
    unfolding no_peak_def f(1) by (rule find_signal_peaks_none)
  with r have "rb = 0" by simp
  then show ?thesis by (simp add: f(2))
qed

lemma cycle_hold_heart:
  assumes "wf_state s" and "wf_lib lib" and "wf_input inp"
    and "process_data_cycle lib inp s = Inr s'"
    and "no_peak (heart_fft s') (index_start_heart (cfg inp)) (index_end_heart (cfg inp))"
  shows "last (heart_rate_estimation_index s') = last (heart_rate_estimation_index s)"
proof -
  from process_data_cycle_effect[OF assms(1,2,3)] assms(4)
  obtain f4 rh where
    r: "find_signal_peaks f4 (index_start_heart (cfg inp)) (index_end_heart (cfg inp))
          peak_finding_distance = Inr rh"
    and f: "heart_fft s' = f4"
      "heart_rate_estimation_index s' =
         ring_push (heart_rate_estimation_index s)
           (if rh = 0 then last (heart_rate_estimation_index s) else real_of_int rh)"
    by auto
  from assms(5) have "find_signal_peaks f4 (index_start_heart (cfg inp))
      (index_end_heart (cfg inp)) peak_finding_distance = Inr 0"
    unfolding no_peak_def f(1) by (rule find_signal_peaks_none)
  with r have "rh = 0" by simp
  then show ?thesis by (simp add: f(2))
qed

lemma run_invariant:
  assumes "wf_state s0" and "wf_lib lib" and "list_all wf_input inps"
    and "process_data lib inps s0 = Inr tr"
    and step: "\<And>s inp s'. wf_state s \<Longrightarrow> wf_input inp \<Longrightarrow>
                 process_data_cycle lib inp s = Inr s' \<Longrightarrow> P s \<Longrightarrow> P s'"
    and "P s0"
  shows "list_all P tr"
  using assms(1,3,4,6)
proof (induction inps arbitrary: s0 tr)
  case Nil
  then show ?case by simp
next
  case (Cons inp inps)
  from Cons.prems(3) obtain s1 tr' where c: "process_data_cycle lib inp s0 = Inr s1"
    and t: "process_data lib inps s1 = Inr tr'" and tr: "tr = s1 # tr'"
    unfolding process_data_Cons by blast
  from Cons.prems(2) have wi: "wf_input inp" and wr: "list_all wf_input inps"
    by simp_all
  have w1: "wf_state s1"
    using cycle_wf_state(1)[OF Cons.prems(1) assms(2) wi c] .
  have p1: "P s1"
    using step[OF Cons.prems(1) wi c Cons.prems(4)] .
  from Cons.IH[OF w1 wr t p1] p1 show ?case
    by (simp add: tr)
qed

lemma detect_breath_cycles_runs:
  assumes c: "counter s mod 5 = 0"
    and lt: "length (radar_time_stamp s) = buffer_data_size"
    and lb: "length (filtered_breathing_plot s) = buffer_data_size"
  shows "\<exists>s6. detect_breath_cycles peak_lib s = Inr s6
           \<and> inhalation_points_x s6 = [radar_time_stamp s ! 1800]
           \<and> inhalation_points_y s6 = [filtered_breathing_plot s ! 1800]
           \<and> exhalation_points_x s6 = [radar_time_stamp s ! 1800]
           \<and> exhalation_points_y s6 = [filtered_breathing_plot s ! 1800]"
proof -
  have t: "py_tail (10 * vital_signs_sample_rate) (radar_time_stamp s)
             = drop 1800 (radar_time_stamp s)"
    "py_tail (10 * vital_signs_sample_rate) (filtered_breathing_plot s)
             = drop 1800 (filtered_breathing_plot s)"
    by (simp_all add: py_tail_def vital_signs_sample_rate_val lt lb buffer_data_size_val)
  have l: "length (drop 1800 (radar_time_stamp s)) = 200"
    "length (drop 1800 (filtered_breathing_plot s)) = 200"
    by (simp_all add: lt lb buffer_data_size_val)
  have n: "drop 1800 (radar_time_stamp s) ! 0 = radar_time_stamp s ! 1800"
    "drop 1800 (filtered_breathing_plot s) ! 0 = filtered_breathing_plot s ! 1800"
    by (simp_all add: lt lb buffer_data_size_val)
  have cp: "collect_points (drop 1800 (radar_time_stamp s))
              (drop 1800 (filtered_breathing_plot s)) [0] ([], [])
            = Inr ([radar_time_stamp s ! 1800], [filtered_breathing_plot s ! 1800])"
    using lt lb by (simp add: n py_index_def bind_r_def buffer_data_size_val)
  show ?thesis
    unfolding detect_breath_cycles_def
    using lt lb
    by (simp add: c ENABLE_BREATHING_VISUALIZATION_def t cp Let_def peak_lib_def bind_r_def
        buffer_data_size_val del: collect_points.simps)
qed

lemma unwrap_stage_frame:
  assumes c0: "counter s = 0"
    and lu: "length (unwrapped_phase_plot s) = buffer_data_size"
    and e: "unwrap_stage s = Inr s1"
  shows "length (unwrapped_phase_plot s1) = buffer_data_size
       \<and> (\<forall>i < buffer_data_size - processing_data_size.
             unwrapped_phase_plot s1 ! i = unwrapped_phase_plot s ! Suc i)"
proof -
  define n where "n = buffer_data_size - processing_data_size"
  have n1: "counter s + 1 = 1" "- int 1 = - 1"
    using c0 by simp_all
  have une: "unwrapped_phase_plot s \<noteq> []"
    using lu by (auto simp: buffer_data_size_val)
  from e obtain wpp upp upp' where
    a2: "assign_tail 1 (np_roll (unwrapped_phase_plot s) (- 1)) (py_tail 1 wpp) = Inr upp"
    and a3: "assign_tail processing_data_size upp
               (np_unwrap (py_tail processing_data_size upp)) = Inr upp'"
    and s1: "unwrapped_phase_plot s1 = upp'"
    unfolding unwrap_stage_def Let_def n1
    by (auto simp: bind_r_def split: sum.splits)
  have lr: "length (np_roll (unwrapped_phase_plot s) (- 1)) = buffer_data_size"
    by (simp add: np_roll_m1 lu)
  have m1: "length (py_tail 1 (np_roll (unwrapped_phase_plot s) (- 1))) = 1"
    using lr by (simp add: py_tail_def buffer_data_size_val)
  from a2 obtain v where upp: "upp = take (buffer_data_size - 1) (rotate1 (unwrapped_phase_plot s)) @ v"
    and lv: "length v = 1"
    unfolding assign_tail_def Let_def m1
    by (auto simp: np_roll_m1 lu split: if_splits)
  have lupp: "length upp = buffer_data_size"
    using upp lv lu by (simp add: buffer_data_size_val)
  have pre: "upp ! i = unwrapped_phase_plot s ! Suc i" if "i < buffer_data_size - 1" for i
  proof -
    obtain x r where xr: "unwrapped_phase_plot s = x # r"
      using une by (cases "unwrapped_phase_plot s") auto
    have "length r = buffer_data_size - 1"
      using lu xr by simp
    then show ?thesis
      using that by (simp add: upp xr nth_append)
  qed
  have m3: "length (py_tail processing_data_size upp) = processing_data_size"
    using lupp by (simp add: py_tail_def buffer_data_size_val processing_data_size_val)
  have upp': "upp' = take n upp @ np_unwrap (py_tail processing_data_size upp)"
    using a3 m3 by (simp add: assign_tail_def Let_def lupp n_def)
  have l': "length upp' = buffer_data_size"
    using lupp m3 by (simp add: upp' n_def buffer_data_size_val processing_data_size_val)
  have "upp' ! i = unwrapped_phase_plot s ! Suc i" if "i < n" for i
  proof -
    have "upp' ! i = upp ! i"
      using that lupp by (simp add: upp' nth_append n_def)
    also have "\<dots> = unwrapped_phase_plot s ! Suc i"
      using that by (intro pre) (simp add: n_def processing_data_size_val)
    finally show ?thesis .
  qed
  with l' show ?thesis
    by (simp add: s1 n_def)
qed

lemma ring_push_nth: "Suc i < length xs \<Longrightarrow> ring_push xs v ! i = xs ! Suc i"
  by (cases xs) (auto simp: ring_push_def nth_append)

lemma update_plots_ticks_run:
  assumes "wf_gstate g0" and "list_all emitting snaps"
  shows "\<exists>gtr. update_plots_ticks snaps g0 = Inr gtr \<and> length gtr = length snaps
      \<and> pushed_run breathing_rate_estimation_value g0 gtr
           (map (\<lambda>s. displayed_rate (drop estimation_index_breathing
                                        (breathing_rate_estimation_index s))) snaps)
      \<and> pushed_run heart_rate_estimation_value g0 gtr
           (map (\<lambda>s. displayed_rate (drop estimation_index_heart
                                        (heart_rate_estimation_index s))) snaps)"
  using assms
proof (induction snaps arbitrary: g0)
  case Nil
  then show ?case by simp
next
  case (Cons s snaps)
  from Cons.prems have em: "emitting s" and rest: "list_all emitting snaps"
    by simp_all
  from Cons.prems(1) have l: "length (breathing_rate_estimation_value g0) = buffer_data_size"
    "length (heart_rate_estimation_value g0) = buffer_data_size"
    by (simp_all add: wf_gstate_def)
  then have ne: "breathing_rate_estimation_value g0 \<noteq> []" "heart_rate_estimation_value g0 \<noteq> []"
    by (auto simp: buffer_data_size_val)
  from em have w: "wf_rate_index (breathing_rate_estimation_index s) estimation_index_breathing"
    "wf_rate_index (heart_rate_estimation_index s) estimation_index_heart"
    and p: "0 < breathing_rate_estimation_index s ! estimation_index_breathing"
    "0 < heart_rate_estimation_index s ! estimation_index_heart"
    by (simp_all add: emitting_def)
  define g1 where "g1 = g0\<lparr>breathing_rate_estimation_value :=
       ring_push (breathing_rate_estimation_value g0)
         (displayed_rate (drop estimation_index_breathing (breathing_rate_estimation_index s))),
     heart_rate_estimation_value :=
       ring_push (heart_rate_estimation_value g0)
         (displayed_rate (drop estimation_index_heart (heart_rate_estimation_index s)))\<rparr>"
  have u: "update_plots_estimation s g0 = Inr g1"
    using update_plots_estimation_wf[OF w ne] p by (simp add: g1_def)
  have w1: "wf_gstate g1"
    using l ne by (simp add: wf_gstate_def g1_def)
  from Cons.IH[OF w1 rest] obtain gtr where
    t: "update_plots_ticks snaps g1 = Inr gtr" and n: "length gtr = length snaps"
    and sb: "pushed_run breathing_rate_estimation_value g1 gtr
           (map (\<lambda>s. displayed_rate (drop estimation_index_breathing
                                        (breathing_rate_estimation_index s))) snaps)"
    and sh: "pushed_run heart_rate_estimation_value g1 gtr
           (map (\<lambda>s. displayed_rate (drop estimation_index_heart
                                        (heart_rate_estimation_index s))) snaps)"
    by blast
  have "update_plots_ticks (s # snaps) g0 = Inr (g1 # gtr)"
    using u t by (simp add: bind_r_def)
  moreover have "breathing_rate_estimation_value g1
      = tl (breathing_rate_estimation_value g0)
        @ [displayed_rate (drop estimation_index_breathing (breathing_rate_estimation_index s))]"
    "heart_rate_estimation_value g1
      = tl (heart_rate_estimation_value g0)
        @ [displayed_rate (drop estimation_index_heart (heart_rate_estimation_index s))]"
    by (simp_all add: g1_def ring_push_def)
  ultimately show ?case
    using n sb sh by simp
qed

lemma ring_step_fifo:
  assumes "ring_run lib s0 inps tr"
    and "\<And>inp s s'. ring_step lib inp s s' \<Longrightarrow> buf s' = ring_push (buf s) (f inp s)"
    and "length (buf s0) = buffer_data_size"
  shows "fifo_after buf s0 tr (pushed_values f s0 tr inps)"
  using ring_run_pushed[OF assms(1,2)] assms(3) by (rule fifo_afterI)

subsection \<open>Runs in which nothing is queued\<close>

lemma process_data_idle:
  assumes "data_queue s = []" and "list_all (\<lambda>inp. arrivals inp = []) inps"
  shows "process_data lib inps s = Inr (replicate (length inps) s)"
  using assms(2)
proof (induction inps)
  case Nil
  then show ?case by simp
next
  case (Cons inp inps)
  then have a: "arrivals inp = []" and r: "process_data lib inps s = Inr (replicate (length inps) s)"
    by simp_all
  have "process_data_cycle lib inp s = Inr s"
    using assms(1) a by (simp add: process_data_cycle_def)
  then show ?case
    using r by (simp add: bind_r_def)
qed

subsection \<open>Bands without a peak\<close>

lemma find_peaks_short: "length x \<le> 2 \<Longrightarrow> find_peaks x d = []"
proof -
  assume "length x \<le> 2"
  then have "\<not> 1 < length x - 1"
    by simp
  then have "local_maxima_from x 1 = []"
    by (subst local_maxima_from.simps) (simp only: if_False)
  then show ?thesis
    by (simp add: find_peaks_def local_maxima_1d_def)
qed

lemma no_peak_narrow: "b \<le> a + 2 \<Longrightarrow> 0 \<le> a \<Longrightarrow> a \<le> b \<Longrightarrow> no_peak sp a b"
  unfolding no_peak_def
  by (rule find_peaks_short) (auto simp: py_slice_def slice_bound_def)

lemma narrow_bands:
  "index_start_breathing (cfg narrow_input) = 12" "index_end_breathing (cfg narrow_input) = 13"
  "index_start_heart (cfg narrow_input) = 68" "index_end_heart (cfg narrow_input) = 69"
  by (simp_all add: narrow_input_def band_index_def py_int_def vital_signs_sample_rate_val
      fft_size_vital_signs_val)

lemma wf_narrow_input: "wf_input narrow_input"
proof -
  have "start_index_range (cfg narrow_input) = 32" "stop_index_range (cfg narrow_input) = 38"
    by (simp_all add: start_index_range_def stop_index_range_def narrow_input_def
        init_config_def py_int_def fft_size_range_profile_val)
  then have "wf_gate (cfg narrow_input)"
    by (simp add: wf_gate_def)
       (simp add: narrow_input_def init_config_def fft_size_range_profile_val)
  moreover have "arrivals narrow_input = [zero_frame]"
    by (simp add: narrow_input_def demo_input_def)
  ultimately show ?thesis
    by (simp add: wf_input_def wf_zero_frame)
qed

lemma run_hold_breathing:
  assumes "wf_state s0" and "wf_lib lib" and "list_all wf_input inps"
    and "process_data lib inps s0 = Inr tr"
    and "list_all2 (\<lambda>inp s'. no_peak (breathing_fft s') (index_start_breathing (cfg inp))
                       (index_end_breathing (cfg inp))) inps tr"
  shows "list_all (\<lambda>s'. last (breathing_rate_estimation_index s')
                        = last (breathing_rate_estimation_index s0)) tr"
  using assms(1,3,4,5)
proof (induction inps arbitrary: s0 tr)
  case Nil
  then show ?case by simp
next
  case (Cons inp inps)
  from Cons.prems(3) obtain s1 tr' where c: "process_data_cycle lib inp s0 = Inr s1"
    and t: "process_data lib inps s1 = Inr tr'" and tr: "tr = s1 # tr'"
    unfolding process_data_Cons by blast
  from Cons.prems(2) have wi: "wf_input inp" and wr: "list_all wf_input inps"
    by simp_all
  from Cons.prems(4) have np: "no_peak (breathing_fft s1) (index_start_breathing (cfg inp))
                       (index_end_breathing (cfg inp))"
    and nr: "list_all2 (\<lambda>inp s'. no_peak (breathing_fft s') (index_start_breathing (cfg inp))
                       (index_end_breathing (cfg inp))) inps tr'"
    by (simp_all add: tr)
  have w1: "wf_state s1"
    using cycle_wf_state(1)[OF Cons.prems(1) assms(2) wi c] .
  have h: "last (breathing_rate_estimation_index s1) = last (breathing_rate_estimation_index s0)"
    using cycle_hold_breathing[OF Cons.prems(1) assms(2) wi c np] .
  from Cons.IH[OF w1 wr t nr] h show ?case
    by (simp add: tr)
qed

lemma run_hold_heart:
  assumes "wf_state s0" and "wf_lib lib" and "list_all wf_input inps"
    and "process_data lib inps s0 = Inr tr"
    and "list_all2 (\<lambda>inp s'. no_peak (heart_fft s') (index_start_heart (cfg inp))
                       (index_end_heart (cfg inp))) inps tr"
  shows "list_all (\<lambda>s'. last (heart_rate_estimation_index s')
                        = last (heart_rate_estimation_index s0)) tr"
  using assms(1,3,4,5)
proof (induction inps arbitrary: s0 tr)
  case Nil
  then show ?case by simp
next
  case (Cons inp inps)
  from Cons.prems(3) obtain s1 tr' where c: "process_data_cycle lib inp s0 = Inr s1"
    and t: "process_data lib inps s1 = Inr tr'" and tr: "tr = s1 # tr'"
    unfolding process_data_Cons by blast
  from Cons.prems(2) have wi: "wf_input inp" and wr: "list_all wf_input inps"
    by simp_all
  from Cons.prems(4) have np: "no_peak (heart_fft s1) (index_start_heart (cfg inp))
                       (index_end_heart (cfg inp))"
    and nr: "list_all2 (\<lambda>inp s'. no_peak (heart_fft s') (index_start_heart (cfg inp))
                       (index_end_heart (cfg inp))) inps tr'"
    by (simp_all add: tr)
  have w1: "wf_state s1"
    using cycle_wf_state(1)[OF Cons.prems(1) assms(2) wi c] .
  have h: "last (heart_rate_estimation_index s1) = last (heart_rate_estimation_index s0)"
    using cycle_hold_heart[OF Cons.prems(1) assms(2) wi c np] .
  from Cons.IH[OF w1 wr t nr] h show ?case
    by (simp add: tr)
qed

lemma held_tail:
  assumes f: "fifo_after buf s0 tr vs" and n: "length tr \<le> buffer_data_size"
    and h: "list_all (\<lambda>s'. last (buf s') = v) tr"
  shows "drop (buffer_data_size - length tr) (buf (last (s0 # tr))) = replicate (length tr) v"
proof -
  from f have l0: "length (buf s0) = buffer_data_size"
    and e: "buf (last (s0 # tr)) = drop (length tr) (buf s0) @ vs"
    and r: "pushed_run buf s0 tr vs"
    using n by (simp_all add: fifo_after_def)
  have "map (\<lambda>s. last (buf s)) tr = replicate (length tr) v"
    using h by (induction tr) simp_all
  with pushed_run_last[OF r] have m: "vs = replicate (length tr) v"
    by simp
  have "length (drop (length tr) (buf s0)) = buffer_data_size - length tr"
    by (simp add: l0)
  then have "drop (buffer_data_size - length tr)
               (drop (length tr) (buf s0) @ replicate (length tr) v)
             = replicate (length tr) v"
    by simp
  then show ?thesis
    by (simp only: e m)
qed

section \<open>The claims\<close>

text \<open>
  C1. The breath-cycle detector is guarded by \<^verbatim>\<open>counter % 5 == 0\<close> (line 276), but
  \<^verbatim>\<open>counter\<close> is set back to 0 at the end of every processed iteration (line 331) and
  incremented once before the guard (line 206), so the guard always reads 1. Over every
  run of iterations from a well-formed state, whatever the library routines return, the
  four inhalation and exhalation point lists keep the contents they had before the run:
  they are not recomputed on the fifth iteration, nor on any other.
\<close>

theorem breath_detector_never_runs:
  assumes "wf_state s0" and "wf_lib lib" and "list_all wf_input inps"
    and "process_data lib inps s0 = Inr tr"
  shows "list_all (\<lambda>s. inhalation_points_x s = inhalation_points_x s0
                     \<and> inhalation_points_y s = inhalation_points_y s0
                     \<and> exhalation_points_x s = exhalation_points_x s0
                     \<and> exhalation_points_y s = exhalation_points_y s0
                     \<and> counter s = 0) tr"
proof (rule run_invariant[OF assms])
  fix s inp s'
  assume "wf_state s" "wf_input inp" "process_data_cycle lib inp s = Inr s'"
    and "inhalation_points_x s = inhalation_points_x s0
          \<and> inhalation_points_y s = inhalation_points_y s0
          \<and> exhalation_points_x s = exhalation_points_x s0
          \<and> exhalation_points_y s = exhalation_points_y s0
          \<and> counter s = 0"
  with cycle_points_unchanged[OF _ assms(2), of s inp s']
  show "inhalation_points_x s' = inhalation_points_x s0
          \<and> inhalation_points_y s' = inhalation_points_y s0
          \<and> exhalation_points_x s' = exhalation_points_x s0
          \<and> exhalation_points_y s' = exhalation_points_y s0
          \<and> counter s' = 0"
    by simp
next
  show "inhalation_points_x s0 = inhalation_points_x s0
          \<and> inhalation_points_y s0 = inhalation_points_y s0
          \<and> exhalation_points_x s0 = exhalation_points_x s0
          \<and> exhalation_points_y s0 = exhalation_points_y s0
          \<and> counter s0 = 0"
    using assms(1) by (simp add: wf_state_def)
qed

text \<open>
  An instance: five iterations from the start-up state leave the lists empty, although
  the detector, run with the counter at 5 on the buffers of the fifth iteration, records
  one inhalation and one exhalation point.
\<close>

theorem breath_detector_never_runs_witness:
  "wf_state (init_pstate 0) \<and> wf_lib peak_lib \<and> list_all wf_input (replicate 5 demo_input)
   \<and> (\<exists>tr. process_data peak_lib (replicate 5 demo_input) (init_pstate 0) = Inr tr
        \<and> length tr = 5
        \<and> inhalation_points_x (tr ! 4) = [] \<and> inhalation_points_y (tr ! 4) = []
        \<and> exhalation_points_x (tr ! 4) = [] \<and> exhalation_points_y (tr ! 4) = []
        \<and> (\<exists>s6. detect_breath_cycles peak_lib ((tr ! 4)\<lparr>counter := 5\<rparr>) = Inr s6
              \<and> length (inhalation_points_x s6) = 1
              \<and> length (exhalation_points_x s6) = 1))"
proof -
  have i: "list_all wf_input (replicate 5 demo_input)"
    by (simp add: list_all_iff wf_demo_input)
  from process_data_run[OF wf_init_pstate wf_peak_lib i, of 0]
  obtain tr where t: "process_data peak_lib (replicate 5 demo_input) (init_pstate 0) = Inr tr"
    and n: "length tr = 5" and w: "list_all wf_state tr"
    by auto
  from breath_detector_never_runs[OF wf_init_pstate wf_peak_lib i t]
  have "list_all (\<lambda>s. inhalation_points_x s = [] \<and> inhalation_points_y s = []
                     \<and> exhalation_points_x s = [] \<and> exhalation_points_y s = []
                     \<and> counter s = 0) tr"
    by (simp add: init_pstate_def)
  then have e: "inhalation_points_x (tr ! 4) = [] \<and> inhalation_points_y (tr ! 4) = []
        \<and> exhalation_points_x (tr ! 4) = [] \<and> exhalation_points_y (tr ! 4) = []"
    using n by (simp add: list_all_length)
  from w n have "wf_state (tr ! 4)"
    by (simp add: list_all_length)
  then have l: "length (radar_time_stamp ((tr ! 4)\<lparr>counter := 5\<rparr>)) = buffer_data_size"
    "length (filtered_breathing_plot ((tr ! 4)\<lparr>counter := 5\<rparr>)) = buffer_data_size"
    by (simp_all add: wf_state_def)
  have c: "counter ((tr ! 4)\<lparr>counter := 5\<rparr>) mod 5 = 0"
    by simp
  from detect_breath_cycles_runs[OF c l]
  have d: "\<exists>s6. detect_breath_cycles peak_lib ((tr ! 4)\<lparr>counter := 5\<rparr>) = Inr s6
              \<and> length (inhalation_points_x s6) = 1
              \<and> length (exhalation_points_x s6) = 1"
    by auto
  from wf_init_pstate[of 0] wf_peak_lib i t n e d show ?thesis
    by blast
qed

text \<open>
  C2. When nothing is queued the iteration is skipped. The loop tests the queue itself
  (line 170) before it calls \<^verbatim>\<open>calc_range_fft\<close> (line 178), the only consumer of the
  queue, so on an empty queue the front end is not reached and its own answer for that
  case is not used: the iteration returns the state as it was, with every ring buffer
  neither rolled nor written and no stage run. Over a run of iterations in which nothing
  arrives, every state of the run is the state at its start.
\<close>

theorem empty_queue_cycle_skipped:
  "(data_queue s = [] \<and> arrivals inp = [] \<longrightarrow> process_data_cycle lib inp s = Inr s)
 \<and> (data_queue s = [] \<and> list_all (\<lambda>inp. arrivals inp = []) inps \<longrightarrow>
      process_data lib inps s = Inr (replicate (length inps) s))"
proof (intro conjI impI)
  assume "data_queue s = [] \<and> arrivals inp = []"
  then show "process_data_cycle lib inp s = Inr s"
    by (simp add: process_data_cycle_def)
next
  assume "data_queue s = [] \<and> list_all (\<lambda>inp. arrivals inp = []) inps"
  then show "process_data lib inps s = Inr (replicate (length inps) s)"
    by (simp add: process_data_idle)
qed

theorem empty_queue_cycle_skipped_witness:
  "data_queue (init_pstate 0) = []
   \<and> arrivals (demo_input\<lparr>arrivals := []\<rparr>) = []
   \<and> process_data_cycle id_lib (demo_input\<lparr>arrivals := []\<rparr>) (init_pstate 0)
       = Inr (init_pstate 0)
   \<and> list_all (\<lambda>inp. arrivals inp = [])
        [demo_input\<lparr>arrivals := []\<rparr>, demo_input\<lparr>arrivals := [], current_time := 2\<rparr>]
   \<and> process_data id_lib
        [demo_input\<lparr>arrivals := []\<rparr>, demo_input\<lparr>arrivals := [], current_time := 2\<rparr>]
        (init_pstate 0)
       = Inr [init_pstate 0, init_pstate 0]"
proof -
  have a: "data_queue (init_pstate 0) = []"
    by (simp add: init_pstate_def)
  have b: "arrivals (demo_input\<lparr>arrivals := []\<rparr>) = []"
    by simp
  have c: "list_all (\<lambda>inp. arrivals inp = [])
        [demo_input\<lparr>arrivals := []\<rparr>, demo_input\<lparr>arrivals := [], current_time := 2\<rparr>]"
    by simp
  note t = empty_queue_cycle_skipped[of "init_pstate 0" "demo_input\<lparr>arrivals := []\<rparr>" id_lib
      "[demo_input\<lparr>arrivals := []\<rparr>, demo_input\<lparr>arrivals := [], current_time := 2\<rparr>]"]
  from t a b have d: "process_data_cycle id_lib (demo_input\<lparr>arrivals := []\<rparr>) (init_pstate 0)
       = Inr (init_pstate 0)"
    by blast
  from t a c have e: "process_data id_lib
        [demo_input\<lparr>arrivals := []\<rparr>, demo_input\<lparr>arrivals := [], current_time := 2\<rparr>]
        (init_pstate 0)
       = Inr (replicate
           (length [demo_input\<lparr>arrivals := []\<rparr>,
                    demo_input\<lparr>arrivals := [], current_time := 2\<rparr>]) (init_pstate 0))"
    by blast
  have "replicate
           (length [demo_input\<lparr>arrivals := []\<rparr>,
                    demo_input\<lparr>arrivals := [], current_time := 2\<rparr>]) (init_pstate 0)
        = [init_pstate 0, init_pstate 0]"
    by (simp add: numeral_2_eq_2)
  with e have f: "process_data id_lib
        [demo_input\<lparr>arrivals := []\<rparr>, demo_input\<lparr>arrivals := [], current_time := 2\<rparr>]
        (init_pstate 0)
       = Inr [init_pstate 0, init_pstate 0]"
    by (simp only:)
  from a b d c f show ?thesis
    by blast
qed

text \<open>
  C3. Sample-and-hold. Over a run of iterations in each of which the peak picker finds
  nothing in the breathing band, the newest entry of the breathing index buffer stays,
  after every iteration, the entry that was newest before the run, and the last \<open>N\<close>
  entries of the buffer after \<open>N\<close> iterations all equal it; the same holds for the heart
  band and the heart index buffer, independently of the other band.
\<close>

theorem sample_and_hold:
  assumes "wf_state s0" and "wf_lib lib" and "list_all wf_input inps"
    and "process_data lib inps s0 = Inr tr"
  shows "(list_all2 (\<lambda>inp s'. no_peak (breathing_fft s') (index_start_breathing (cfg inp))
                       (index_end_breathing (cfg inp))) inps tr \<longrightarrow>
            list_all (\<lambda>s'. last (breathing_rate_estimation_index s')
                             = last (breathing_rate_estimation_index s0)) tr
          \<and> (length tr \<le> buffer_data_size \<longrightarrow>
               drop (buffer_data_size - length tr)
                 (breathing_rate_estimation_index (last (s0 # tr)))
               = replicate (length tr) (last (breathing_rate_estimation_index s0))))
       \<and> (list_all2 (\<lambda>inp s'. no_peak (heart_fft s') (index_start_heart (cfg inp))
                       (index_end_heart (cfg inp))) inps tr \<longrightarrow>
            list_all (\<lambda>s'. last (heart_rate_estimation_index s')
                             = last (heart_rate_estimation_index s0)) tr
          \<and> (length tr \<le> buffer_data_size \<longrightarrow>
               drop (buffer_data_size - length tr)
                 (heart_rate_estimation_index (last (s0 # tr)))
               = replicate (length tr) (last (heart_rate_estimation_index s0))))"
proof -
  from process_data_run[OF assms(1,2,3)] assms(4)
  have r: "ring_run lib s0 inps tr"
    by auto
  from assms(1) have len: "length (breathing_rate_estimation_index s0) = buffer_data_size"
    "length (heart_rate_estimation_index s0) = buffer_data_size"
    by (simp_all add: wf_state_def)
  have fb: "fifo_after breathing_rate_estimation_index s0 tr
              (pushed_values (pushed_breathing_index lib) s0 tr inps)"
    by (rule ring_step_fifo[where buf = breathing_rate_estimation_index, OF r _ len(1)])
       (simp add: ring_step_def)
  have fh: "fifo_after heart_rate_estimation_index s0 tr
              (pushed_values (pushed_heart_index lib) s0 tr inps)"
    by (rule ring_step_fifo[where buf = heart_rate_estimation_index, OF r _ len(2)])
       (simp add: ring_step_def)
  show ?thesis
    using run_hold_breathing[OF assms] run_hold_heart[OF assms]
      held_tail[OF fb] held_tail[OF fh]
    by blast
qed

theorem sample_and_hold_witness:
  "wf_state (init_pstate 0) \<and> wf_lib id_lib \<and> list_all wf_input [narrow_input, narrow_input]
   \<and> (\<exists>tr. process_data id_lib [narrow_input, narrow_input] (init_pstate 0) = Inr tr
        \<and> list_all2 (\<lambda>inp s'. no_peak (breathing_fft s') (index_start_breathing (cfg inp))
                       (index_end_breathing (cfg inp))) [narrow_input, narrow_input] tr
        \<and> list_all2 (\<lambda>inp s'. no_peak (heart_fft s') (index_start_heart (cfg inp))
                       (index_end_heart (cfg inp))) [narrow_input, narrow_input] tr
        \<and> list_all (\<lambda>s'. last (breathing_rate_estimation_index s') = 0) tr
        \<and> list_all (\<lambda>s'. last (heart_rate_estimation_index s') = 0) tr)"
proof -
  have i: "list_all wf_input [narrow_input, narrow_input]"
    by (simp add: wf_narrow_input)
  from process_data_run[OF wf_init_pstate wf_id_lib i, of 0]
  obtain tr where t: "process_data id_lib [narrow_input, narrow_input] (init_pstate 0) = Inr tr"
    and n: "length tr = 2"
    by auto
  then obtain s1 s2 where tr: "tr = [s1, s2]"
    by (cases tr; cases "tl tr") auto
  have nb: "list_all2 (\<lambda>inp s'. no_peak (breathing_fft s') (index_start_breathing (cfg inp))
                       (index_end_breathing (cfg inp))) [narrow_input, narrow_input] tr"
    by (simp add: tr narrow_bands no_peak_narrow)
  have nh: "list_all2 (\<lambda>inp s'. no_peak (heart_fft s') (index_start_heart (cfg inp))
                       (index_end_heart (cfg inp))) [narrow_input, narrow_input] tr"
    by (simp add: tr narrow_bands no_peak_narrow)
  have z: "last (breathing_rate_estimation_index (init_pstate 0)) = 0"
    "last (heart_rate_estimation_index (init_pstate 0)) = 0"
    by (simp_all add: init_pstate_def buffer_data_size_val)
  from sample_and_hold[OF wf_init_pstate wf_id_lib i t] nb nh
  have "list_all (\<lambda>s'. last (breathing_rate_estimation_index s') = 0) tr"
    "list_all (\<lambda>s'. last (heart_rate_estimation_index s') = 0) tr"
    by (simp_all add: z)
  with wf_init_pstate wf_id_lib i t nb nh show ?thesis
    by blast
qed

text \<open>
  C4. Ring buffers. Every run of iterations of the processing loop from a well-formed
  state succeeds, and each of its ten slow-time buffers (time stamp, sample, envelope,
  peak index, wrapped and unwrapped phase, the two filtered signals, the two rate index
  buffers) keeps the length \<^verbatim>\<open>buffer_data_size\<close>; every iteration evicts the entry at
  index 0 and appends, as the last entry, the value that the iteration computes for that
  buffer from its input and the state before it; and after \<open>N \<le> buffer_data_size\<close>
  iterations the buffer is the old one without its \<open>N\<close> oldest entries followed by the
  \<open>N\<close> computed values in order. The same holds for the two rate buffers of
  \<^verbatim>\<open>update_plots\<close> over every run of updates that emit a rate, the value appended being
  the rate of the estimation window read at that update.
\<close>

theorem ring_buffers_fifo:
  "(wf_state s0 \<and> wf_lib lib \<and> list_all wf_input inps \<longrightarrow>
      (\<exists>tr. process_data lib inps s0 = Inr tr \<and> length tr = length inps
         \<and> fifo_after radar_time_stamp s0 tr (pushed_values pushed_time_stamp s0 tr inps)
         \<and> fifo_after slow_time_buffer_data s0 tr (pushed_values pushed_sample s0 tr inps)
         \<and> fifo_after I_Q_envelop s0 tr
             (pushed_values (\<lambda>inp s. cmod (pushed_sample inp s)) s0 tr inps)
         \<and> fifo_after range_profile_peak_indices s0 tr
             (pushed_values pushed_peak_index s0 tr inps)
         \<and> fifo_after wrapped_phase_plot s0 tr
             (pushed_values (\<lambda>inp s. Arg (pushed_sample inp s)) s0 tr inps)
         \<and> fifo_after unwrapped_phase_plot s0 tr (pushed_values pushed_unwrapped s0 tr inps)
         \<and> fifo_after filtered_breathing_plot s0 tr
             (pushed_values (pushed_breathing lib) s0 tr inps)
         \<and> fifo_after filtered_heart_plot s0 tr (pushed_values (pushed_heart lib) s0 tr inps)
         \<and> fifo_after breathing_rate_estimation_index s0 tr
             (pushed_values (pushed_breathing_index lib) s0 tr inps)
         \<and> fifo_after heart_rate_estimation_index s0 tr
             (pushed_values (pushed_heart_index lib) s0 tr inps)))
 \<and> (wf_gstate g0 \<and> list_all emitting snaps \<longrightarrow>
      (\<exists>gtr. update_plots_ticks snaps g0 = Inr gtr \<and> length gtr = length snaps
         \<and> fifo_after breathing_rate_estimation_value g0 gtr
             (map (\<lambda>s. displayed_rate (drop estimation_index_breathing
                                          (breathing_rate_estimation_index s))) snaps)
         \<and> fifo_after heart_rate_estimation_value g0 gtr
             (map (\<lambda>s. displayed_rate (drop estimation_index_heart
                                          (heart_rate_estimation_index s))) snaps)))"
proof (intro conjI impI)
  assume "wf_state s0 \<and> wf_lib lib \<and> list_all wf_input inps"
  then have a: "wf_state s0" "wf_lib lib" "list_all wf_input inps"
    by simp_all
  from process_data_run[OF a] obtain tr where
    t: "process_data lib inps s0 = Inr tr" and n: "length tr = length inps"
    and r: "ring_run lib s0 inps tr"
    by blast
  from a(1) have len:
    "length (radar_time_stamp s0) = buffer_data_size"
    "length (slow_time_buffer_data s0) = buffer_data_size"
    "length (I_Q_envelop s0) = buffer_data_size"
    "length (range_profile_peak_indices s0) = buffer_data_size"
    "length (wrapped_phase_plot s0) = buffer_data_size"
    "length (unwrapped_phase_plot s0) = buffer_data_size"
    "length (filtered_breathing_plot s0) = buffer_data_size"
    "length (filtered_heart_plot s0) = buffer_data_size"
    "length (breathing_rate_estimation_index s0) = buffer_data_size"
    "length (heart_rate_estimation_index s0) = buffer_data_size"
    by (simp_all add: wf_state_def)
  have f1: "fifo_after radar_time_stamp s0 tr (pushed_values pushed_time_stamp s0 tr inps)"
    by (rule ring_step_fifo[where buf = radar_time_stamp, OF r _ len(1)])
       (simp add: ring_step_def)
  have f2: "fifo_after slow_time_buffer_data s0 tr (pushed_values pushed_sample s0 tr inps)"
    by (rule ring_step_fifo[where buf = slow_time_buffer_data, OF r _ len(2)])
       (simp add: ring_step_def)
  have f3: "fifo_after I_Q_envelop s0 tr
             (pushed_values (\<lambda>inp s. cmod (pushed_sample inp s)) s0 tr inps)"
    by (rule ring_step_fifo[where buf = I_Q_envelop, OF r _ len(3)])
       (simp add: ring_step_def)
  have f4: "fifo_after range_profile_peak_indices s0 tr
             (pushed_values pushed_peak_index s0 tr inps)"
    by (rule ring_step_fifo[where buf = range_profile_peak_indices, OF r _ len(4)])
       (simp add: ring_step_def)
  have f5: "fifo_after wrapped_phase_plot s0 tr
             (pushed_values (\<lambda>inp s. Arg (pushed_sample inp s)) s0 tr inps)"
    by (rule ring_step_fifo[where buf = wrapped_phase_plot, OF r _ len(5)])
       (simp add: ring_step_def)
  have f6: "fifo_after unwrapped_phase_plot s0 tr (pushed_values pushed_unwrapped s0 tr inps)"
    by (rule ring_step_fifo[where buf = unwrapped_phase_plot, OF r _ len(6)])
       (simp add: ring_step_def)
  have f7: "fifo_after filtered_breathing_plot s0 tr
             (pushed_values (pushed_breathing lib) s0 tr inps)"
    by (rule ring_step_fifo[where buf = filtered_breathing_plot, OF r _ len(7)])
       (simp add: ring_step_def)
  have f8: "fifo_after filtered_heart_plot s0 tr (pushed_values (pushed_heart lib) s0 tr inps)"
    by (rule ring_step_fifo[where buf = filtered_heart_plot, OF r _ len(8)])
       (simp add: ring_step_def)
  have f9: "fifo_after breathing_rate_estimation_index s0 tr
             (pushed_values (pushed_breathing_index lib) s0 tr inps)"
    by (rule ring_step_fifo[where buf = breathing_rate_estimation_index, OF r _ len(9)])
       (simp add: ring_step_def)
  have f10: "fifo_after heart_rate_estimation_index s0 tr
             (pushed_values (pushed_heart_index lib) s0 tr inps)"
    by (rule ring_step_fifo[where buf = heart_rate_estimation_index, OF r _ len(10)])
       (simp add: ring_step_def)
  from t n f1 f2 f3 f4 f5 f6 f7 f8 f9 f10
  show "\<exists>tr. process_data lib inps s0 = Inr tr \<and> length tr = length inps
         \<and> fifo_after radar_time_stamp s0 tr (pushed_values pushed_time_stamp s0 tr inps)
         \<and> fifo_after slow_time_buffer_data s0 tr (pushed_values pushed_sample s0 tr inps)
         \<and> fifo_after I_Q_envelop s0 tr
             (pushed_values (\<lambda>inp s. cmod (pushed_sample inp s)) s0 tr inps)
         \<and> fifo_after range_profile_peak_indices s0 tr
             (pushed_values pushed_peak_index s0 tr inps)
         \<and> fifo_after wrapped_phase_plot s0 tr
             (pushed_values (\<lambda>inp s. Arg (pushed_sample inp s)) s0 tr inps)
         \<and> fifo_after unwrapped_phase_plot s0 tr (pushed_values pushed_unwrapped s0 tr inps)
         \<and> fifo_after filtered_breathing_plot s0 tr
             (pushed_values (pushed_breathing lib) s0 tr inps)
         \<and> fifo_after filtered_heart_plot s0 tr (pushed_values (pushed_heart lib) s0 tr inps)
         \<and> fifo_after breathing_rate_estimation_index s0 tr
             (pushed_values (pushed_breathing_index lib) s0 tr inps)
         \<and> fifo_after heart_rate_estimation_index s0 tr
             (pushed_values (pushed_heart_index lib) s0 tr inps)"
    by blast
next
  assume "wf_gstate g0 \<and> list_all emitting snaps"
  then have a: "wf_gstate g0" "list_all emitting snaps"
    by simp_all
  from update_plots_ticks_run[OF a] obtain gtr where
    t: "update_plots_ticks snaps g0 = Inr gtr" and n: "length gtr = length snaps"
    and sb: "pushed_run breathing_rate_estimation_value g0 gtr
           (map (\<lambda>s. displayed_rate (drop estimation_index_breathing
                                        (breathing_rate_estimation_index s))) snaps)"
    and sh: "pushed_run heart_rate_estimation_value g0 gtr
           (map (\<lambda>s. displayed_rate (drop estimation_index_heart
                                        (heart_rate_estimation_index s))) snaps)"
    by blast
  from a(1) have l: "length (breathing_rate_estimation_value g0) = buffer_data_size"
    "length (heart_rate_estimation_value g0) = buffer_data_size"
    by (simp_all add: wf_gstate_def)
  from t n fifo_afterI[OF sb l(1)] fifo_afterI[OF sh l(2)]
  show "\<exists>gtr. update_plots_ticks snaps g0 = Inr gtr \<and> length gtr = length snaps
         \<and> fifo_after breathing_rate_estimation_value g0 gtr
             (map (\<lambda>s. displayed_rate (drop estimation_index_breathing
                                          (breathing_rate_estimation_index s))) snaps)
         \<and> fifo_after heart_rate_estimation_value g0 gtr
             (map (\<lambda>s. displayed_rate (drop estimation_index_heart
                                          (heart_rate_estimation_index s))) snaps)"
    by blast
qed

text \<open>
  An instance: two iterations from the start-up state with clock readings 1 and 3 append
  the time stamps 1 and 3 (the start-up clock is 0, and each stamp adds the time since the
  iteration before); two updates from a state holding bins 25 and 100 append the rates
  17 and 73 twice.
\<close>

theorem ring_buffers_fifo_witness:
  "wf_state (init_pstate 0) \<and> wf_lib id_lib
   \<and> list_all wf_input [demo_input, demo_input\<lparr>current_time := 3\<rparr>]
   \<and> (\<exists>tr. process_data id_lib [demo_input, demo_input\<lparr>current_time := 3\<rparr>] (init_pstate 0)
              = Inr tr
        \<and> length tr = 2
        \<and> drop (buffer_data_size - 2) (radar_time_stamp (last tr)) = [1, 3]
        \<and> length (radar_time_stamp (last tr)) = buffer_data_size
        \<and> fifo_after unwrapped_phase_plot (init_pstate 0) tr
             (pushed_values pushed_unwrapped (init_pstate 0) tr
                [demo_input, demo_input\<lparr>current_time := 3\<rparr>]))
   \<and> wf_gstate init_gstate \<and> list_all emitting [paced_state, paced_state]
   \<and> (\<exists>gtr. update_plots_ticks [paced_state, paced_state] init_gstate = Inr gtr
        \<and> length gtr = 2
        \<and> fifo_after breathing_rate_estimation_value init_gstate gtr [17, 17]
        \<and> fifo_after heart_rate_estimation_value init_gstate gtr [73, 73])"
proof -
  have wd: "wf_input (demo_input\<lparr>current_time := 3\<rparr>)"
    using wf_demo_input by (simp add: wf_input_def)
  have i: "list_all wf_input [demo_input, demo_input\<lparr>current_time := 3\<rparr>]"
    by (simp add: wf_demo_input wd)
  have e: "list_all emitting [paced_state, paced_state]"
    by (simp add: emitting_paced_state)
  note t = ring_buffers_fifo[of "init_pstate 0" id_lib
      "[demo_input, demo_input\<lparr>current_time := 3\<rparr>]" init_gstate "[paced_state, paced_state]"]
  from t wf_init_pstate[of 0] wf_id_lib i
  obtain tr where p: "process_data id_lib [demo_input, demo_input\<lparr>current_time := 3\<rparr>]
                        (init_pstate 0) = Inr tr"
    and n: "length tr = 2"
    and ft: "fifo_after radar_time_stamp (init_pstate 0) tr
               (pushed_values pushed_time_stamp (init_pstate 0) tr
                  [demo_input, demo_input\<lparr>current_time := 3\<rparr>])"
    and fu: "fifo_after unwrapped_phase_plot (init_pstate 0) tr
               (pushed_values pushed_unwrapped (init_pstate 0) tr
                  [demo_input, demo_input\<lparr>current_time := 3\<rparr>])"
    by auto
  from n obtain s1 s2 where tr: "tr = [s1, s2]"
    by (cases tr; cases "tl tr") auto
  from p have c1: "process_data_cycle id_lib demo_input (init_pstate 0) = Inr s1"
    unfolding tr process_data_Cons by blast
  from process_data_cycle_effect[OF wf_init_pstate wf_id_lib wf_demo_input, of 0] c1
  have st1: "start_time s1 = 1" "last (radar_time_stamp s1) = 1"
    by (auto simp: demo_input_def init_pstate_def buffer_data_size_val)
  have pv: "pushed_values pushed_time_stamp (init_pstate 0) tr
              [demo_input, demo_input\<lparr>current_time := 3\<rparr>] = [1, 3]"
    by (simp add: tr pushed_time_stamp_def st1 demo_input_def init_pstate_def
        buffer_data_size_val)
  from ft n have la: "list_all (\<lambda>s. length (radar_time_stamp s) = buffer_data_size)
                        (init_pstate 0 # tr)"
    and ea: "radar_time_stamp (last (init_pstate 0 # tr))
             = drop (length tr) (radar_time_stamp (init_pstate 0))
               @ pushed_values pushed_time_stamp (init_pstate 0) tr
                   [demo_input, demo_input\<lparr>current_time := 3\<rparr>]"
    unfolding fifo_after_def by (simp_all add: buffer_data_size_val)
  have ll: "last (init_pstate 0 # tr) = last tr"
    by (simp add: tr)
  from la have lt: "length (radar_time_stamp (last tr)) = buffer_data_size"
    by (simp add: tr)
  have et: "radar_time_stamp (last tr) = replicate 1998 0 @ [1, 3]"
    using ea unfolding ll pv n by (simp add: init_pstate_def buffer_data_size_val)
  have dt: "drop (buffer_data_size - 2) (radar_time_stamp (last tr)) = [1, 3]"
    by (simp add: et buffer_data_size_val)
  have q0: "\<exists>tr. process_data id_lib [demo_input, demo_input\<lparr>current_time := 3\<rparr>] (init_pstate 0)
              = Inr tr
        \<and> length tr = 2
        \<and> drop (buffer_data_size - 2) (radar_time_stamp (last tr)) = [1, 3]
        \<and> length (radar_time_stamp (last tr)) = buffer_data_size
        \<and> fifo_after unwrapped_phase_plot (init_pstate 0) tr
             (pushed_values pushed_unwrapped (init_pstate 0) tr
                [demo_input, demo_input\<lparr>current_time := 3\<rparr>])"
    using p n dt lt fu by blast
  have d25: "displayed_rate (drop estimation_index_breathing
               (breathing_rate_estimation_index paced_state)) = 17"
    by (simp add: paced_state_def estimation_index_val buffer_data_size_val displayed_rate_25)
  have d100: "displayed_rate (drop estimation_index_heart
               (heart_rate_estimation_index paced_state)) = 73"
    by (simp add: paced_state_def estimation_index_val buffer_data_size_val displayed_rate_100)
  from t wf_init_gstate e
  have q: "\<exists>gtr. update_plots_ticks [paced_state, paced_state] init_gstate = Inr gtr
        \<and> length gtr = 2
        \<and> fifo_after breathing_rate_estimation_value init_gstate gtr [17, 17]
        \<and> fifo_after heart_rate_estimation_value init_gstate gtr [73, 73]"
    by (auto simp: d25 d100)
  from wf_init_pstate[of 0] wf_id_lib i q0 wf_init_gstate e q show ?thesis
    by blast
qed

text \<open>
  C5. For every dequeued frame (with the device's shape), the range profile that
  \<^verbatim>\<open>calc_range_fft\<close> returns is the arithmetic mean over the receive antennas of the
  per-antenna sum over chirps of the first \<^verbatim>\<open>fft_size_range_profile / 2\<close> bins of the
  transform of the mean-free, Blackman-Harris-windowed, zero-padded chirp row, scaled by
  \<open>2 / samples_per_chirp\<close>; the frame is taken off the queue. Arithmetic is exact.
\<close>

theorem range_profile_is_antenna_mean:
  assumes "wf_frame fr"
  shows "calc_range_fft (fr # q) = Inr (NdArray (spec_range_profile fr), q)"
  using assms by (rule calc_range_fft_wf)

theorem range_profile_is_antenna_mean_witness:
  "wf_frame (replicate 3 [1 # replicate 63 0])
   \<and> calc_range_fft [replicate 3 [1 # replicate 63 0]]
       = Inr (NdArray (spec_range_profile (replicate 3 [1 # replicate 63 0])), [])"
proof -
  have w: "wf_frame (replicate 3 [1 # replicate 63 0])"
    by (simp add: wf_frame_def num_rx_antennas_def samples_per_chirp_def list_all_iff)
  from range_profile_is_antenna_mean[OF w, of "[]"] w show ?thesis
    by blast
qed

text \<open>
  C6. The tracked range bin is \<^verbatim>\<open>int(np.mean(...))\<close> (line 197): the mean of the last
  \<open>2 * vital_signs_sample_rate\<close> stored peak indices, truncated, which for these
  non-negative indices is its floor and not its rounding. The newest stored index is the
  position of the largest magnitude of the gated profile, and the slow-time sample of the
  iteration is the profile at the tracked bin.
\<close>

theorem tracked_bin_is_truncated_mean:
  assumes "wf_state s" and "wf_lib lib" and "wf_input inp"
    and "process_data_cycle lib inp s = Inr s'"
  shows "range_profile_peak_index s'
           = py_int (np_mean (py_tail (2 * vital_signs_sample_rate)
                                (range_profile_peak_indices s')))
       \<and> range_profile_peak_index s'
           = \<lfloor>np_mean (py_tail (2 * vital_signs_sample_rate) (range_profile_peak_indices s'))\<rfloor>
       \<and> gate_peak (cfg inp) (spec_range_profile (hd (data_queue s @ arrivals inp)))
           (last (range_profile_peak_indices s'))
       \<and> py_index (spec_range_profile (hd (data_queue s @ arrivals inp)))
           (range_profile_peak_index s') = Inr (last (slow_time_buffer_data s'))"
proof -
  from process_data_cycle_effect[OF assms(1,2,3)] assms(4)
  obtain pk smp where
    pk: "0 \<le> pk" "pk \<le> real (fft_size_range_profile div 2 - 1)"
      "gate_peak (cfg inp) (spec_range_profile (hd (data_queue s @ arrivals inp))) pk"
    and ix: "py_index (spec_range_profile (hd (data_queue s @ arrivals inp)))
          (py_int (np_mean (py_tail (2 * vital_signs_sample_rate)
                              (ring_push (range_profile_peak_indices s) pk)))) = Inr smp"
    and f: "range_profile_peak_indices s' = ring_push (range_profile_peak_indices s) pk"
      "range_profile_peak_index s' = py_int (np_mean (py_tail (2 * vital_signs_sample_rate)
                                    (ring_push (range_profile_peak_indices s) pk)))"
      "slow_time_buffer_data s' = ring_push (slow_time_buffer_data s) smp"
    by auto
  from assms(1) have bk: "list_all (\<lambda>v. 0 \<le> v \<and> v \<le> real (fft_size_range_profile div 2 - 1))
               (range_profile_peak_indices s)"
    by (simp add: wf_state_def)
  have "list_all (\<lambda>v. 0 \<le> v \<and> v \<le> real (fft_size_range_profile div 2 - 1))
          (ring_push (range_profile_peak_indices s) pk)"
    using bk pk(1,2) by (intro list_all_ring_push) simp_all
  then have "list_all (\<lambda>v. 0 \<le> v \<and> v \<le> real (fft_size_range_profile div 2 - 1))
          (py_tail (2 * vital_signs_sample_rate)
             (ring_push (range_profile_peak_indices s) pk))"
    by (rule list_all_py_tail)
  from np_mean_bounds[OF py_tail_nonempty[OF ring_push_nonempty] this]
  have m0: "0 \<le> np_mean (py_tail (2 * vital_signs_sample_rate)
              (ring_push (range_profile_peak_indices s) pk))"
    by simp
  show ?thesis
    using pk ix m0 by (simp add: f py_int_def)
qed

theorem tracked_bin_is_truncated_mean_witness:
  "wf_state (init_pstate 0) \<and> wf_lib id_lib \<and> wf_input demo_input
   \<and> (\<exists>s'. process_data_cycle id_lib demo_input (init_pstate 0) = Inr s'
        \<and> range_profile_peak_index s'
            = \<lfloor>np_mean (py_tail (2 * vital_signs_sample_rate)
                          (range_profile_peak_indices s'))\<rfloor>
        \<and> py_index (spec_range_profile zero_frame) (range_profile_peak_index s')
            = Inr (last (slow_time_buffer_data s')))"
proof -
  from process_data_cycle_wf[OF wf_init_pstate wf_id_lib wf_demo_input]
  obtain s' where c: "process_data_cycle id_lib demo_input (init_pstate 0) = Inr s'"
    by blast
  have h: "hd (data_queue (init_pstate 0) @ arrivals demo_input) = zero_frame"
    by (simp add: init_pstate_def demo_input_def)
  from tracked_bin_is_truncated_mean[OF wf_init_pstate wf_id_lib wf_demo_input c]
  show ?thesis
    using wf_init_pstate wf_id_lib wf_demo_input c by (auto simp: h)
qed

text \<open>
  With 39 stored indices of 37 and a newest index of 32 the mean is 36.875: the code
  tracks bin 36, the rounded mean is 37.
\<close>

theorem tracked_bin_rounding_counterexample:
  "\<not> isl (process_data_cycle id_lib one_bin_input hop_state)
   \<and> range_profile_peak_index (projr (process_data_cycle id_lib one_bin_input hop_state)) = 36
   \<and> py_round (np_mean (py_tail (2 * vital_signs_sample_rate)
        (range_profile_peak_indices
           (projr (process_data_cycle id_lib one_bin_input hop_state))))) = 37"
proof -
  from process_data_cycle_effect[OF wf_hop_state wf_id_lib wf_one_bin_input]
  obtain s' pk where c: "process_data_cycle id_lib one_bin_input hop_state = Inr s'"
    and g: "gate_peak (cfg one_bin_input)
              (spec_range_profile (hd (data_queue hop_state @ arrivals one_bin_input))) pk"
    and r: "range_profile_peak_indices s'
              = ring_push (range_profile_peak_indices hop_state) pk"
    and i: "range_profile_peak_index s'
              = py_int (np_mean (py_tail (2 * vital_signs_sample_rate)
                                   (ring_push (range_profile_peak_indices hop_state) pk)))"
    by auto
  have "length (py_slice (map cmod (spec_range_profile
          (hd (data_queue hop_state @ arrivals one_bin_input)))) 32 33) = 1"
    by (simp add: py_slice_def slice_bound_def fft_size_range_profile_val)
  with g have l: "pk = 32"
    by (auto simp: gate_peak_def one_bin_gate)
  have h: "range_profile_peak_indices hop_state = replicate buffer_data_size 37"
    by (simp add: hop_state_def)
  have m: "np_mean (py_tail (2 * vital_signs_sample_rate) (range_profile_peak_indices s'))
           = 295 / 8"
    by (simp only: r l h hop_mean)
  have "range_profile_peak_index s'
          = py_int (np_mean (py_tail (2 * vital_signs_sample_rate)
                               (range_profile_peak_indices s')))"
    by (simp only: i r)
  then have "range_profile_peak_index s' = 36"
    by (simp add: m py_int_def)
  moreover have "py_round (np_mean (py_tail (2 * vital_signs_sample_rate)
                   (range_profile_peak_indices s'))) = 37"
    by (simp add: m py_round_def Let_def)
  ultimately show ?thesis
    by (simp add: c)
qed

text \<open>
  C7. When a rate is emitted, the entry pushed is
  \<^verbatim>\<open>round(x_axis[round(fft_size / 2 + mean)] * 60) - 2\<close> (lines 385 to 387): the mean index
  is rounded to a position of the spectrum axis, the axis is \<^verbatim>\<open>np.linspace\<close> from
  \<open>- fs / 2\<close> to \<open>fs / 2\<close> with step \<open>fs / (fft_size - 1)\<close>, and the rate in beats per minute is
  rounded before 2 is subtracted. When the oldest index of the window is not positive,
  the buffer is left as it is. This holds for both series.
\<close>

theorem displayed_rate_is_rounded_axis_reading:
  assumes "wf_rate_index (breathing_rate_estimation_index s) estimation_index_breathing"
    and "wf_rate_index (heart_rate_estimation_index s) estimation_index_heart"
    and "breathing_rate_estimation_value g \<noteq> []"
    and "heart_rate_estimation_value g \<noteq> []"
  shows "\<exists>g'. update_plots_estimation s g = Inr g'
     \<and> breathing_rate_estimation_value g' =
         (if 0 < breathing_rate_estimation_index s ! estimation_index_breathing
          then ring_push (breathing_rate_estimation_value g)
                 (displayed_rate (drop estimation_index_breathing
                                    (breathing_rate_estimation_index s)))
          else breathing_rate_estimation_value g)
     \<and> heart_rate_estimation_value g' =
         (if 0 < heart_rate_estimation_index s ! estimation_index_heart
          then ring_push (heart_rate_estimation_value g)
                 (displayed_rate (drop estimation_index_heart
                                    (heart_rate_estimation_index s)))
          else heart_rate_estimation_value g)"
  using update_plots_estimation_wf[OF assms] by simp

theorem displayed_rate_is_rounded_axis_reading_witness:
  "wf_rate_index (breathing_rate_estimation_index paced_state) estimation_index_breathing
   \<and> wf_rate_index (heart_rate_estimation_index paced_state) estimation_index_heart
   \<and> breathing_rate_estimation_value init_gstate \<noteq> []
   \<and> heart_rate_estimation_value init_gstate \<noteq> []
   \<and> (\<exists>g'. update_plots_estimation paced_state init_gstate = Inr g'
        \<and> last (breathing_rate_estimation_value g') = 17
        \<and> last (heart_rate_estimation_value g') = 73)"
proof -
  have b: "wf_rate_index (breathing_rate_estimation_index paced_state) estimation_index_breathing"
    unfolding paced_state_def by (simp add: wf_rate_index_replicate)
  have h: "wf_rate_index (heart_rate_estimation_index paced_state) estimation_index_heart"
    unfolding paced_state_def by (simp add: wf_rate_index_replicate)
  have v: "breathing_rate_estimation_value init_gstate \<noteq> []"
    "heart_rate_estimation_value init_gstate \<noteq> []"
    by (simp_all add: init_gstate_def buffer_data_size_val)
  have pb: "0 < breathing_rate_estimation_index paced_state ! estimation_index_breathing"
    "0 < heart_rate_estimation_index paced_state ! estimation_index_heart"
    by (simp_all add: paced_state_def estimation_index_val buffer_data_size_val)
  have db: "drop estimation_index_breathing (breathing_rate_estimation_index paced_state)
            = replicate 100 25"
    "drop estimation_index_heart (heart_rate_estimation_index paced_state)
            = replicate 100 100"
    by (simp_all add: paced_state_def estimation_index_val buffer_data_size_val)
  have d100: "displayed_rate (replicate 100 100) = 73"
    by (simp add: displayed_rate_def np_mean_replicate fft_size_vital_signs_val
        vital_signs_sample_rate_val py_round_def Let_def)
  from displayed_rate_is_rounded_axis_reading[OF b h v]
  obtain g' where "update_plots_estimation paced_state init_gstate = Inr g'"
    and "breathing_rate_estimation_value g' =
           ring_push (breathing_rate_estimation_value init_gstate) 17"
    and "heart_rate_estimation_value g' =
           ring_push (heart_rate_estimation_value init_gstate) 73"
    using pb by (auto simp: db displayed_rate_25 d100)
  with b h v show ?thesis
    by auto
qed

text \<open>
  For a window holding bin 23 throughout the code pushes 16: the axis read at position
  823 is \<open>- 10 + 823 * 20 / 1599\<close>, about 0.294 Hz or 17.64 per minute, rounded to 18.
  The conversion \<open>23 * fs / fft_size * 60 - 2\<close> is 15.25, which is not 16 even when
  rounded.
\<close>

theorem displayed_rate_counterexample:
  "rate_value_update (replicate buffer_data_size 23) estimation_index_breathing
     (replicate buffer_data_size 0)
   = Inr (ring_push (replicate buffer_data_size 0) 16)
 \<and> spec_rate (drop estimation_index_breathing (replicate buffer_data_size 23)) = 61 / 4
 \<and> py_round (61 / 4) = 15"
proof -
  have d: "drop estimation_index_breathing (replicate buffer_data_size (23::real))
           = replicate 100 23"
    by (simp add: estimation_index_val buffer_data_size_val)
  have "rate_value_update (replicate buffer_data_size 23) estimation_index_breathing
     (replicate buffer_data_size 0)
   = Inr (ring_push (replicate buffer_data_size 0)
            (displayed_rate (drop estimation_index_breathing (replicate buffer_data_size 23))))"
  proof (rule rate_value_update_emit)
    show "wf_rate_index (replicate buffer_data_size 23) estimation_index_breathing"
      by (rule wf_rate_index_replicate) simp_all
  qed (simp_all add: estimation_index_val buffer_data_size_val)
  moreover have "py_round (61 / 4) = 15"
    by (simp add: py_round_def Let_def)
  ultimately show ?thesis
    by (simp only: d displayed_rate_23 spec_rate_23 simp_thms)
qed

text \<open>
  C8. With a full breathing buffer and the OSC output on, presence is asserted exactly
  when the variance of the last 5 seconds of the filtered breathing signal exceeds 0.0001
  and the mean envelope over the same window exceeds 0.001; when it is not asserted the
  messages sent are presence 0, both ratios 0.1 and both rates 0, whatever the rate buffers
  hold.
\<close>

theorem presence_gate:
  assumes "length (filtered_breathing_plot s) = buffer_data_size"
  shows "(presence_asserted (update_plots_presence True s g) \<longleftrightarrow>
            0.0001 < np_var (py_tail (5 * vital_signs_sample_rate) (filtered_breathing_plot s))
          \<and> 0.001 < np_mean (py_tail (5 * vital_signs_sample_rate) (I_Q_envelop s)))
       \<and> (\<not> presence_asserted (update_plots_presence True s g) \<longrightarrow>
            update_plots_presence True s g =
              [(''/presence'', 0), (''/xratio'', 0.1), (''/yratio'', 0.1),
               (''/xhz'', 0), (''/yhz'', 0)]
          \<and> telemetry (update_plots_presence True s g)
              = (Some 0, Some 0, Some 0.1, Some 0.1, Some 0))"
proof -
  have l: "length (py_tail (5 * vital_signs_sample_rate) (filtered_breathing_plot s)) = 100"
    using assms by (simp add: py_tail_def vital_signs_sample_rate_val buffer_data_size_val)
  have ne: "0 < length (filtered_breathing_plot s)"
    "0 < length (py_tail (5 * vital_signs_sample_rate) (filtered_breathing_plot s))"
    "2 < length (py_tail (5 * vital_signs_sample_rate) (filtered_breathing_plot s))"
    using assms l by (simp_all add: buffer_data_size_val)
  show ?thesis
  proof (cases "signal_quality_good s")
    case True
    then have "update_plots_presence True s g =
        [(''/xhz'', rate_hz (breathing_rate_estimation_value g)),
         (''/yhz'', rate_hz (heart_rate_estimation_value g) / 2),
         (''/xratio'', osc_ratio (py_tail (5 * vital_signs_sample_rate) (filtered_breathing_plot s))
                         (last (filtered_breathing_plot s))),
         (''/yratio'', osc_ratio (py_tail (5 * vital_signs_sample_rate) (filtered_breathing_plot s))
                         (last (filtered_breathing_plot s))),
         (''/presence'', 1)]"
      unfolding update_plots_presence_def ENABLE_BREATHING_VISUALIZATION_def Let_def
      by (simp only: ne if_True if_False simp_thms)
    then have "presence_asserted (update_plots_presence True s g)"
      by (simp add: presence_asserted_def)
    with True show ?thesis
      by (simp add: signal_quality_good_def Let_def)
  next
    case False
    then have u: "update_plots_presence True s g =
        [(''/presence'', 0), (''/xratio'', 0.1), (''/yratio'', 0.1), (''/xhz'', 0), (''/yhz'', 0)]"
      unfolding update_plots_presence_def ENABLE_BREATHING_VISUALIZATION_def Let_def
      by (simp only: ne if_True if_False simp_thms)
    then have "\<not> presence_asserted (update_plots_presence True s g)"
      by (simp add: presence_asserted_def)
    with False u show ?thesis
      by (simp add: signal_quality_good_def Let_def telemetry_def)
  qed
qed

theorem presence_gate_witness:
  "length (filtered_breathing_plot (init_pstate 0)) = buffer_data_size
   \<and> \<not> presence_asserted (update_plots_presence True (init_pstate 0) init_gstate)
   \<and> telemetry (update_plots_presence True (init_pstate 0) init_gstate)
       = (Some 0, Some 0, Some 0.1, Some 0.1, Some 0)
   \<and> length (filtered_breathing_plot breathing_state) = buffer_data_size
   \<and> presence_asserted (update_plots_presence True breathing_state init_gstate)"
proof -
  have l0: "length (filtered_breathing_plot (init_pstate 0)) = buffer_data_size"
    by (simp add: init_pstate_def)
  have v0: "np_var (py_tail (5 * vital_signs_sample_rate)
              (filtered_breathing_plot (init_pstate 0))) = 0"
    by (simp add: init_pstate_def py_tail_def np_var_replicate)
  have l1: "length (filtered_breathing_plot breathing_state) = buffer_data_size"
    by (simp add: breathing_state_def buffer_data_size_val)
  have e1: "np_mean (py_tail (5 * vital_signs_sample_rate) (I_Q_envelop breathing_state)) = 1"
    by (simp add: breathing_state_def py_tail_def vital_signs_sample_rate_val
        buffer_data_size_val np_mean_replicate)
  from presence_gate[OF l0, of init_gstate] v0
  have a: "\<not> presence_asserted (update_plots_presence True (init_pstate 0) init_gstate)"
    by simp
  with presence_gate[OF l0, of init_gstate]
  have b: "telemetry (update_plots_presence True (init_pstate 0) init_gstate)
       = (Some 0, Some 0, Some 0.1, Some 0.1, Some 0)"
    by blast
  from presence_gate[OF l1, of init_gstate] breathing_state_var e1
  have c: "presence_asserted (update_plots_presence True breathing_state init_gstate)"
    by simp
  from l0 a b l1 c show ?thesis
    by blast
qed

text \<open>
  C9. A band-edge change is ignored, without an error and with the filter and the search
  indices as they were, when it fails the guard of lines 668 and 685, which asks for
  \<open>0 < lower < fs / 4\<close> and \<open>0 < upper < fs / 2\<close>: the lower edge is bounded by a quarter of
  the sample rate, not by half of it. A change with \<open>lower < upper\<close> that passes the guard
  stores the edges, rebuilds the filter (21 taps) from them and recomputes the two search
  indices as \<^verbatim>\<open>int(edge / vital_signs_sample_rate * fft_size_vital_signs)\<close>.
\<close>

theorem band_edge_change:
  "(\<not> (fst region < real vital_signs_sample_rate / 4
        \<and> snd region < real vital_signs_sample_rate / 2
        \<and> 0 < fst region \<and> 0 < snd region) \<longrightarrow>
      linear_region_breathing_changed region c = Inr c
    \<and> linear_region_heart_changed region c = Inr c)
 \<and> (0 < lo \<and> lo < hi \<and> lo < real vital_signs_sample_rate / 4
      \<and> hi < real vital_signs_sample_rate / 2 \<longrightarrow>
      (\<exists>b i j. firwin filter_order (lo / nyquist_freq) (hi / nyquist_freq) = Inr b
         \<and> length b = filter_order
         \<and> index_of_edge lo i \<and> index_of_edge hi j
         \<and> linear_region_breathing_changed (lo, hi) c =
             Inr (c\<lparr>low_breathing := lo, high_breathing := hi, breathing_b := b,
                    index_start_breathing := i, index_end_breathing := j\<rparr>)
         \<and> linear_region_heart_changed (lo, hi) c =
             Inr (c\<lparr>low_heart := lo, high_heart := hi, heart_b := b,
                    index_start_heart := i, index_end_heart := j\<rparr>)))"
proof (intro conjI impI)
  assume g: "\<not> (fst region < real vital_signs_sample_rate / 4
        \<and> snd region < real vital_signs_sample_rate / 2
        \<and> 0 < fst region \<and> 0 < snd region)"
  show "linear_region_breathing_changed region c = Inr c"
    using g by (rule band_changed_breathing)
  show "linear_region_heart_changed region c = Inr c"
    using g by (rule band_changed_heart)
next
  assume a: "0 < lo \<and> lo < hi \<and> lo < real vital_signs_sample_rate / 4
      \<and> hi < real vital_signs_sample_rate / 2"
  then have a': "0 < lo" "lo < hi" "lo < real vital_signs_sample_rate / 4"
    "hi < real vital_signs_sample_rate / 2"
    by simp_all
  from band_rebuilt_breathing[OF a', of c] obtain b
    where b: "firwin filter_order (lo / nyquist_freq) (hi / nyquist_freq) = Inr b"
      and lb: "linear_region_breathing_changed (lo, hi) c =
             Inr (c\<lparr>low_breathing := lo, high_breathing := hi, breathing_b := b,
                    index_start_breathing := band_index lo,
                    index_end_breathing := band_index hi\<rparr>)"
    by blast
  from band_rebuilt_heart[OF a', of c] b
  have lh: "linear_region_heart_changed (lo, hi) c =
             Inr (c\<lparr>low_heart := lo, high_heart := hi, heart_b := b,
                    index_start_heart := band_index lo,
                    index_end_heart := band_index hi\<rparr>)"
    by auto
  have n: "nyquist_freq = 10"
    by (simp add: nyquist_freq_def vital_signs_sample_rate_val)
  have "0 < lo / nyquist_freq" "lo / nyquist_freq < hi / nyquist_freq" "hi / nyquist_freq < 1"
    using a' by (simp_all add: n vital_signs_sample_rate_val)
  from firwin_ok[OF this, of filter_order] b have l: "length b = filter_order"
    by auto
  have i: "index_of_edge lo (band_index lo)" "index_of_edge hi (band_index hi)"
    using a' by (simp_all add: index_of_edge_band_index)
  from b l i lb lh
  show "\<exists>b i j. firwin filter_order (lo / nyquist_freq) (hi / nyquist_freq) = Inr b
         \<and> length b = filter_order
         \<and> index_of_edge lo i \<and> index_of_edge hi j
         \<and> linear_region_breathing_changed (lo, hi) c =
             Inr (c\<lparr>low_breathing := lo, high_breathing := hi, breathing_b := b,
                    index_start_breathing := i, index_end_breathing := j\<rparr>)
         \<and> linear_region_heart_changed (lo, hi) c =
             Inr (c\<lparr>low_heart := lo, high_heart := hi, heart_b := b,
                    index_start_heart := i, index_end_heart := j\<rparr>)"
    by blast
qed

text \<open>
  An instance: the band from 12 to 15 Hz is ignored; the band from 1.01 to 2.01 Hz is
  stored with the search indices 80 and 160.
\<close>

theorem band_edge_change_witness:
  "linear_region_breathing_changed (12, 15) (init_config 1) = Inr (init_config 1)
   \<and> linear_region_heart_changed (12, 15) (init_config 1) = Inr (init_config 1)
   \<and> (\<exists>b. firwin filter_order (101 / 100 / nyquist_freq) (201 / 100 / nyquist_freq) = Inr b
         \<and> length b = filter_order
         \<and> linear_region_breathing_changed (101 / 100, 201 / 100) (init_config 1) =
             Inr ((init_config 1)\<lparr>low_breathing := 101 / 100, high_breathing := 201 / 100,
                    breathing_b := b,
                    index_start_breathing := 80, index_end_breathing := 160\<rparr>)
         \<and> linear_region_heart_changed (101 / 100, 201 / 100) (init_config 1) =
             Inr ((init_config 1)\<lparr>low_heart := 101 / 100, high_heart := 201 / 100,
                    heart_b := b,
                    index_start_heart := 80, index_end_heart := 160\<rparr>))"
proof -
  have g: "\<not> (fst (12::real, 15::real) < real vital_signs_sample_rate / 4
        \<and> snd (12::real, 15::real) < real vital_signs_sample_rate / 2
        \<and> 0 < fst (12::real, 15::real) \<and> 0 < snd (12::real, 15::real))"
    by (simp add: vital_signs_sample_rate_val)
  have a: "(0::real) < 101 / 100 \<and> (101 / 100 :: real) < 201 / 100
      \<and> 101 / 100 < real vital_signs_sample_rate / 4
      \<and> 201 / 100 < real vital_signs_sample_rate / 2"
    by (simp add: vital_signs_sample_rate_val)
  note t = band_edge_change[of "(12, 15)" "init_config 1" "101 / 100" "201 / 100"]
  from t g have ig: "linear_region_breathing_changed (12, 15) (init_config 1) = Inr (init_config 1)"
    "linear_region_heart_changed (12, 15) (init_config 1) = Inr (init_config 1)"
    by blast+
  from t a obtain b i j where
    b: "firwin filter_order (101 / 100 / nyquist_freq) (201 / 100 / nyquist_freq) = Inr b"
      "length b = filter_order"
    and ie: "index_of_edge (101 / 100) i" "index_of_edge (201 / 100) j"
    and r: "linear_region_breathing_changed (101 / 100, 201 / 100) (init_config 1) =
             Inr ((init_config 1)\<lparr>low_breathing := 101 / 100, high_breathing := 201 / 100,
                    breathing_b := b,
                    index_start_breathing := i, index_end_breathing := j\<rparr>)"
      "linear_region_heart_changed (101 / 100, 201 / 100) (init_config 1) =
             Inr ((init_config 1)\<lparr>low_heart := 101 / 100, high_heart := 201 / 100,
                    heart_b := b,
                    index_start_heart := i, index_end_heart := j\<rparr>)"
    by blast
  have d: "(0::real) < 1 / 10 ^ 9" "(1::real) / 10 ^ 9 < 1 / 10"
    by simp_all
  from ie(1) have "real_of_int i \<le> 404 / 5 + 1 / 10 ^ 9" "404 / 5 - 1 / 10 ^ 9 < real_of_int i + 1"
    by (simp_all add: index_of_edge_def vital_signs_sample_rate_val fft_size_vital_signs_val)
  with d have "real_of_int i < 81" "79 < real_of_int i"
    by linarith+
  then have "i < 81" "79 < i"
    by simp_all
  then have i80: "i = 80"
    by linarith
  from ie(2) have "real_of_int j \<le> 804 / 5 + 1 / 10 ^ 9" "804 / 5 - 1 / 10 ^ 9 < real_of_int j + 1"
    by (simp_all add: index_of_edge_def vital_signs_sample_rate_val fft_size_vital_signs_val)
  with d have "real_of_int j < 161" "159 < real_of_int j"
    by linarith+
  then have "j < 161" "159 < j"
    by simp_all
  then have j160: "j = 160"
    by linarith
  from ig b r show ?thesis
    unfolding i80 j160 by blast
qed

text \<open>
  The band from 6 to 8 Hz lies inside \<open>[0, fs / 2]\<close> and its edges are in order, yet both
  callbacks ignore it: the configuration keeps the edges, the filters and the indices it
  had.
\<close>

theorem band_edge_change_counterexample:
  "0 \<le> (6::real) \<and> (6::real) < 8 \<and> 8 \<le> real vital_signs_sample_rate / 2
 \<and> linear_region_breathing_changed (6, 8) (init_config 1) = Inr (init_config 1)
 \<and> linear_region_heart_changed (6, 8) (init_config 1) = Inr (init_config 1)
 \<and> low_breathing (init_config 1) \<noteq> 6 \<and> high_breathing (init_config 1) \<noteq> 8
 \<and> low_heart (init_config 1) \<noteq> 6 \<and> high_heart (init_config 1) \<noteq> 8"
proof -
  have a: "linear_region_breathing_changed (6, 8) (init_config 1) = Inr (init_config 1)"
    by (rule band_changed_breathing) (simp add: vital_signs_sample_rate_val)
  have b: "linear_region_heart_changed (6, 8) (init_config 1) = Inr (init_config 1)"
    by (rule band_changed_heart) (simp add: vital_signs_sample_rate_val)
  from a b show ?thesis
    by (simp add: vital_signs_sample_rate_val init_config_def)
qed

text \<open>
  C10. The unwrap stage (lines 208 to 218) rolls the unwrapped-phase buffer by one and
  writes only inside the trailing window of \<^verbatim>\<open>processing_data_size\<close> entries: every
  entry before the window is the entry that stood one position later before the stage.
  Over a whole iteration from a well-formed state, where the stored window is already
  continuous, the stage changes nothing but the newest entry: the buffer is the previous
  one shifted by one with one entry appended, which differs from the previous newest
  entry by at most \<open>\<pi>\<close>.
\<close>

theorem unwrap_pushes_only_newest:
  "(counter s = 0 \<and> length (unwrapped_phase_plot s) = buffer_data_size
      \<and> unwrap_stage s = Inr s1 \<longrightarrow>
      length (unwrapped_phase_plot s1) = buffer_data_size
    \<and> (\<forall>i < buffer_data_size - processing_data_size.
          unwrapped_phase_plot s1 ! i = unwrapped_phase_plot s ! Suc i))
 \<and> (wf_state s \<and> wf_lib lib \<and> wf_input inp \<and> process_data_cycle lib inp s = Inr s' \<longrightarrow>
      unwrapped_phase_plot s'
        = ring_push (unwrapped_phase_plot s) (last (unwrapped_phase_plot s'))
    \<and> (\<forall>i < buffer_data_size - 1.
          unwrapped_phase_plot s' ! i = unwrapped_phase_plot s ! Suc i)
    \<and> \<bar>last (unwrapped_phase_plot s') - last (unwrapped_phase_plot s)\<bar> \<le> pi)"
proof (intro conjI impI)
  assume "counter s = 0 \<and> length (unwrapped_phase_plot s) = buffer_data_size
      \<and> unwrap_stage s = Inr s1"
  then have a: "counter s = 0" "length (unwrapped_phase_plot s) = buffer_data_size"
    "unwrap_stage s = Inr s1"
    by simp_all
  from unwrap_stage_frame[OF a]
  show "length (unwrapped_phase_plot s1) = buffer_data_size"
    and "\<forall>i < buffer_data_size - processing_data_size.
          unwrapped_phase_plot s1 ! i = unwrapped_phase_plot s ! Suc i"
    by simp_all
next
  assume "wf_state s \<and> wf_lib lib \<and> wf_input inp \<and> process_data_cycle lib inp s = Inr s'"
  then have a: "wf_state s" "wf_lib lib" "wf_input inp"
    "process_data_cycle lib inp s = Inr s'"
    by simp_all
  from process_data_cycle_effect[OF a(1,2,3)] a(4)
  obtain uw where u: "unwrapped_phase_plot s' = ring_push (unwrapped_phase_plot s) uw"
    and b: "\<bar>uw - last (unwrapped_phase_plot s)\<bar> \<le> pi"
    by auto
  have l: "length (unwrapped_phase_plot s) = buffer_data_size"
    using a(1) by (simp add: wf_state_def)
  show "unwrapped_phase_plot s'
        = ring_push (unwrapped_phase_plot s) (last (unwrapped_phase_plot s'))"
    by (simp add: u)
  show "\<forall>i < buffer_data_size - 1. unwrapped_phase_plot s' ! i = unwrapped_phase_plot s ! Suc i"
    using l by (simp add: u ring_push_nth)
  show "\<bar>last (unwrapped_phase_plot s') - last (unwrapped_phase_plot s)\<bar> \<le> pi"
    using b by (simp add: u)
qed

theorem unwrap_pushes_only_newest_witness:
  "counter (init_pstate 0) = 0
   \<and> length (unwrapped_phase_plot (init_pstate 0)) = buffer_data_size
   \<and> (\<exists>s1. unwrap_stage (init_pstate 0) = Inr s1
        \<and> length (unwrapped_phase_plot s1) = buffer_data_size
        \<and> unwrapped_phase_plot s1 ! 0 = unwrapped_phase_plot (init_pstate 0) ! 1
        \<and> unwrapped_phase_plot s1 ! 1598 = unwrapped_phase_plot (init_pstate 0) ! 1599)
   \<and> wf_state (init_pstate 0) \<and> wf_lib id_lib \<and> wf_input demo_input
   \<and> (\<exists>s'. process_data_cycle id_lib demo_input (init_pstate 0) = Inr s'
        \<and> unwrapped_phase_plot s'
            = ring_push (unwrapped_phase_plot (init_pstate 0)) (last (unwrapped_phase_plot s'))
        \<and> unwrapped_phase_plot s' ! 1998 = unwrapped_phase_plot (init_pstate 0) ! 1999
        \<and> \<bar>last (unwrapped_phase_plot s') - last (unwrapped_phase_plot (init_pstate 0))\<bar> \<le> pi)"
proof -
  have c: "counter (init_pstate 0) = 0"
    and l: "length (unwrapped_phase_plot (init_pstate 0)) = buffer_data_size"
    by (simp_all add: init_pstate_def)
  have w: "wf_state (init_pstate 0)"
    by (rule wf_init_pstate)
  have "\<exists>s1. unwrap_stage (init_pstate 0) = Inr s1"
    by (rule exI, rule unwrap_stage_wf)
       (simp_all add: init_pstate_def buffer_data_size_val processing_data_size_val
          py_tail_def phase_continuous_replicate)
  then obtain s1 where u: "unwrap_stage (init_pstate 0) = Inr s1"
    by blast
  from process_data_cycle_effect[OF w wf_id_lib wf_demo_input]
  obtain s' where p: "process_data_cycle id_lib demo_input (init_pstate 0) = Inr s'"
    by blast
  note t = unwrap_pushes_only_newest[of "init_pstate 0" s1 id_lib demo_input s']
  from t c l u have a1: "length (unwrapped_phase_plot s1) = buffer_data_size"
    and a2: "\<forall>i < buffer_data_size - processing_data_size.
          unwrapped_phase_plot s1 ! i = unwrapped_phase_plot (init_pstate 0) ! Suc i"
    by blast+
  from t w wf_id_lib wf_demo_input p
  have b1: "unwrapped_phase_plot s'
        = ring_push (unwrapped_phase_plot (init_pstate 0)) (last (unwrapped_phase_plot s'))"
    and b2: "\<forall>i < buffer_data_size - 1.
          unwrapped_phase_plot s' ! i = unwrapped_phase_plot (init_pstate 0) ! Suc i"
    and b3: "\<bar>last (unwrapped_phase_plot s') - last (unwrapped_phase_plot (init_pstate 0))\<bar> \<le> pi"
    by blast+
  from a2 have a3: "unwrapped_phase_plot s1 ! 0 = unwrapped_phase_plot (init_pstate 0) ! 1"
    "unwrapped_phase_plot s1 ! 1598 = unwrapped_phase_plot (init_pstate 0) ! 1599"
    by (simp_all add: buffer_data_size_val processing_data_size_val)
  from b2 have b4: "unwrapped_phase_plot s' ! 1998 = unwrapped_phase_plot (init_pstate 0) ! 1999"
    by (simp add: buffer_data_size_val)
  from c l u a1 a3 w wf_id_lib wf_demo_input p b1 b4 b3 show ?thesis
    by blast
qed

end
